(* ===== verification/Zfp_Prelude.thy ===== *)
theory Zfp_Prelude
  imports Complex_Main "HOL-Library.Word"
begin

text \<open>
  Shared vocabulary of the pyzfp development: the byte type of the compressed
  streams, the handles of the native objects that the wrapper allocates through
  zfp and C++ \<open>new[]\<close>, the lemma collections that carry the component proofs,
  and the generic list lemmas for the two memory copies the wrapper performs
  (the engine writing a prefix of a buffer, \<open>py::bytes(buffer, size)\<close> reading one).
\<close>

type_synonym byte = "8 word"

text \<open>A native pointer is modelled as a handle into an explicit store.\<close>
type_synonym handle = nat

named_theorems native_simps "evaluation rules of the native-heap monad and the zfp calls"
named_theorems geometry_simps "rules that compute the zfp field a numpy shape resolves to"
named_theorems wf_intros "rules showing that a native computation keeps the store invariant"

subsection \<open>Writing a prefix of a memory block\<close>

text \<open>
  \<open>overwrite_prefix ys xs\<close> is the block \<open>xs\<close> after \<open>ys\<close> has been stored at its
  start, the way the engine fills the scratch buffer and the destination array.
\<close>

definition overwrite_prefix :: "'a list \<Rightarrow> 'a list \<Rightarrow> 'a list" where
  "overwrite_prefix ys xs = ys @ drop (length ys) xs"

lemma length_overwrite_prefix [simp]:
  "length ys \<le> length xs \<Longrightarrow> length (overwrite_prefix ys xs) = length xs"
  by (simp add: overwrite_prefix_def)

lemma take_overwrite_prefix [simp]:
  "take (length ys) (overwrite_prefix ys xs) = ys"
  by (simp add: overwrite_prefix_def)

lemma take_overwrite_prefix_le:
  "n \<le> length ys \<Longrightarrow> take n (overwrite_prefix ys xs) = take n ys"
  by (simp add: overwrite_prefix_def)

lemma overwrite_prefix_whole [simp]:
  "length ys = length xs \<Longrightarrow> overwrite_prefix ys xs = ys"
  by (simp add: overwrite_prefix_def)

subsection \<open>Products of extents\<close>

lemma prod_list_rev [simp]: "prod_list (rev xs) = prod_list (xs :: nat list)"
  by (induction xs) (simp_all add: mult.commute)

lemma prod_list_pos: "0 \<notin> set (xs :: nat list) \<Longrightarrow> 0 < prod_list xs"
  by (induction xs) auto

lemma prod_list_zero: "0 \<in> set (xs :: nat list) \<Longrightarrow> prod_list xs = 0"
  by (induction xs) auto

end
