(* ===== verification/Zfp_Types.thy ===== *)
theory Zfp_Types
  imports Zfp_Prelude
begin

text \<open>
  The data of the zfp interface that \<open>src/src/module.cpp\<close> consumes (zfp.h,
  spec section 6): the scalar type tag, the field descriptor \<open>zfp_field\<close>, the
  accuracy policy a \<open>zfp_stream\<close> carries, the \<open>bitstream\<close> over a byte
  buffer, and the codec engine itself. zfp is not part of this repository; the
  engine's bit-stream algorithm is a parameter of the model (a record of three
  functions), and everything the wrapper relies on is stated as a contract over
  that record.
\<close>

datatype zfp_type =
  zfp_type_none | zfp_type_int32 | zfp_type_int64 | zfp_type_float | zfp_type_double

text \<open>
  \<open>zfp_field_1d\<close> .. \<open>zfp_field_4d\<close> store the extents in \<open>nx .. nw\<close>, leave
  the unused ones 0 and the strides 0 (contiguous storage, so the strides are
  not modelled), and keep the raw data pointer.
\<close>

record zfp_field =
  ftype :: zfp_type
  nx :: nat
  ny :: nat
  nz :: nat
  nw :: nat
  fdata :: handle

text \<open>
  zfp derives the dimensionality of a field from its nonzero extents,
  outermost first (\<open>zfp_field_dimensionality\<close>): an extent 0 ends the list.
\<close>

definition zfp_field_dimensionality :: "zfp_field \<Rightarrow> nat" where
  "zfp_field_dimensionality f =
     (if nx f = 0 then 0 else if ny f = 0 then 1 else if nz f = 0 then 2
      else if nw f = 0 then 3 else 4)"

text \<open>
  The values the codec traverses: \<open>zfp_compress\<close> and \<open>zfp_decompress\<close>
  dispatch on the dimensionality and visit \<open>nx\<close>, \<open>nx * ny\<close>, ... scalars
  from the data pointer.
\<close>

definition field_values :: "zfp_field \<Rightarrow> nat" where
  "field_values f =
     (let d = zfp_field_dimensionality f
      in if d = 0 then 0 else prod_list (take d [nx f, ny f, nz f, nw f]))"

text \<open>
  The accuracy policy a stream carries. Each zfp setter overwrites all of the
  stream's parameters, so the stream is characterised by the last setter called
  and its arguments; \<open>zfp_stream_open\<close> leaves zfp's defaults.
\<close>

datatype policy =
    Policy_default
  | Policy_rate real zfp_type nat bool  \<comment> \<open>rate, scalar type, dims, write random access\<close>
  | Policy_precision "32 word"
  | Policy_accuracy real

record zfp_stream =
  zs_policy :: policy
  zs_bits :: "handle option"  \<comment> \<open>the bound bit stream, \<open>NULL\<close> after \<open>zfp_stream_open(nullptr)\<close>\<close>

record bitstream =
  bs_begin :: handle  \<comment> \<open>the memory block the stream reads or writes\<close>
  bs_bytes :: nat     \<comment> \<open>the capacity given to \<open>stream_open\<close>\<close>

text \<open>
  The codec engine: the worst-case size \<open>zfp_stream_maximum_size\<close> reports, the
  bytes \<open>zfp_compress\<close> produces (empty when it reports 0), and the values
  \<open>zfp_decompress\<close> reconstructs (\<open>None\<close> when it reports failure).
\<close>

record 'v engine =
  eng_max_size :: "policy \<Rightarrow> zfp_field \<Rightarrow> nat"
  eng_encode :: "policy \<Rightarrow> zfp_field \<Rightarrow> 'v list \<Rightarrow> byte list"
  eng_decode :: "policy \<Rightarrow> zfp_field \<Rightarrow> byte list \<Rightarrow> 'v list option"

subsection \<open>Engine contracts\<close>

text \<open>\<open>zfp_stream_maximum_size\<close> bounds every compressed size.\<close>

definition engine_fits :: "'v engine \<Rightarrow> bool" where
  "engine_fits e \<longleftrightarrow> (\<forall>p f xs. length (eng_encode e p f xs) \<le> eng_max_size e p f)"

text \<open>A successful decode yields one value per scalar of the field.\<close>

definition engine_decodes_field :: "'v engine \<Rightarrow> bool" where
  "engine_decodes_field e \<longleftrightarrow>
     (\<forall>p f bs vs. eng_decode e p f bs = Some vs \<longrightarrow> length vs = field_values f)"

text \<open>
  The engine's output depends on the field's geometry, not on where its data
  lives: moving the data pointer changes neither sizes, bytes nor values.
\<close>

definition engine_geometric :: "'v engine \<Rightarrow> bool" where
  "engine_geometric e \<longleftrightarrow>
     (\<forall>p f q. eng_max_size e p (f\<lparr>fdata := q\<rparr>) = eng_max_size e p f \<and>
              eng_encode e p (f\<lparr>fdata := q\<rparr>) = eng_encode e p f \<and>
              eng_decode e p (f\<lparr>fdata := q\<rparr>) = eng_decode e p f)"

subsection \<open>Mock engines\<close>

text \<open>
  Two engine mocks in the sense of spec section 8, used to run the wrapper on
  concrete inputs: \<open>mock_engine\<close> stores a marker byte and one byte per scalar
  and decodes its own output, ignoring trailing bytes as zfp does;
  \<open>silent_engine\<close> reports zero bytes written and
  fails every decode.
\<close>

definition mock_engine :: "nat engine" where
  "mock_engine =
     \<lparr>eng_max_size = (\<lambda>p f. Suc (field_values f)),
      eng_encode = (\<lambda>p f xs. 1 # map of_nat (take (field_values f) xs)),
      eng_decode = (\<lambda>p f bs. case bs of [] \<Rightarrow> None
                     | b # rest \<Rightarrow> if field_values f \<le> length rest
                                 then Some (map unat (take (field_values f) rest)) else None)\<rparr>"

definition silent_engine :: "nat engine" where
  "silent_engine = \<lparr>eng_max_size = (\<lambda>p f. 0), eng_encode = (\<lambda>p f xs. []), eng_decode = (\<lambda>p f bs. None)\<rparr>"

lemma engine_fitsD: "engine_fits e \<Longrightarrow> length (eng_encode e p f xs) \<le> eng_max_size e p f"
  by (simp add: engine_fits_def)

lemma engine_decodes_fieldD:
  "engine_decodes_field e \<Longrightarrow> eng_decode e p f bs = Some vs \<Longrightarrow> length vs = field_values f"
  by (simp add: engine_decodes_field_def)

lemma field_values_dims:
  "field_values f =
     (if nx f = 0 then 0 else if ny f = 0 then nx f else if nz f = 0 then nx f * ny f
      else if nw f = 0 then nx f * ny f * nz f else nx f * ny f * nz f * nw f)"
  by (simp add: field_values_def zfp_field_dimensionality_def)

lemma mock_engine_simps [simp]:
  "eng_max_size mock_engine p f = Suc (field_values f)"
  "eng_encode mock_engine p f xs = 1 # map of_nat (take (field_values f) xs)"
  "eng_decode mock_engine p f bs =
     (case bs of [] \<Rightarrow> None
      | b # rest \<Rightarrow> if field_values f \<le> length rest
                      then Some (map unat (take (field_values f) rest)) else None)"
  by (simp_all add: mock_engine_def)

lemma silent_engine_simps [simp]:
  "eng_max_size silent_engine p f = 0"
  "eng_encode silent_engine p f xs = []"
  "eng_decode silent_engine p f bs = None"
  by (simp_all add: silent_engine_def)

lemma mock_engine_fits: "engine_fits mock_engine"
  by (simp add: engine_fits_def mock_engine_def)

lemma mock_engine_decodes_field: "engine_decodes_field mock_engine"
  by (simp add: engine_decodes_field_def mock_engine_def split: list.splits)

lemma field_values_fdata [simp]: "field_values (f\<lparr>fdata := q\<rparr>) = field_values f"
  by (simp add: field_values_def zfp_field_dimensionality_def)

lemma mock_engine_geometric: "engine_geometric mock_engine"
  by (simp add: engine_geometric_def fun_eq_iff split: list.split)

lemma engine_geometricD:
  "engine_geometric e \<Longrightarrow> eng_encode e p (f\<lparr>fdata := q\<rparr>) = eng_encode e p f"
  "engine_geometric e \<Longrightarrow> eng_decode e p (f\<lparr>fdata := q\<rparr>) = eng_decode e p f"
  "engine_geometric e \<Longrightarrow> eng_max_size e p (f\<lparr>fdata := q\<rparr>) = eng_max_size e p f"
  by (simp_all add: engine_geometric_def)

lemma silent_engine_fits: "engine_fits silent_engine"
  by (simp add: engine_fits_def silent_engine_def)

lemma silent_engine_decodes_field: "engine_decodes_field silent_engine"
  by (simp add: engine_decodes_field_def silent_engine_def)

end
