(* ===== verification/Native_Heap.thy ===== *)
theory Native_Heap
  imports Zfp_Types
begin

text \<open>
  The native memory the wrapper works in: a store of live objects indexed by
  handles (the C pointers), holding zfp field descriptors, zfp streams, bit
  streams, \<open>char\<close> blocks (the scratch buffer of \<open>new char[]\<close> and the
  caller's \<open>bytes\<close>) and \<open>float\<close> blocks (numpy storage). Allocation takes
  the next unused handle, as the allocator of Imperative HOL does, and never
  reuses one, so that an access through a released pointer is detected rather
  than silently aliased.

  A computation over the store is a function from the store to a result and the
  next store. The result is \<open>Inl\<close> of an error when the code throws (the store
  is kept: whatever was not released before the throw stays allocated) or when
  an access is undefined behaviour (a fault), and \<open>Inr\<close> of a value otherwise.
  The store invariant \<open>wf_heap\<close> (every live handle lies below the allocation
  mark) is preserved by every computation built from the primitives here
  (\<open>preserves_wf\<close>, rules in \<open>wf_intros\<close>).
\<close>

datatype 'v obj =
    Obj_field zfp_field
  | Obj_stream zfp_stream
  | Obj_bits bitstream
  | Obj_chars "byte list"
  | Obj_floats "'v list"

record 'v heap =
  objs :: "handle \<Rightarrow> 'v obj option"
  fresh :: handle

text \<open>Undefined behaviour the model detects, and the errors the C++ code throws.\<close>

datatype fault =
    Dangling handle           \<comment> \<open>access to or release of a pointer that is not live\<close>
  | Wrong_object handle       \<comment> \<open>a pointer used at the wrong type\<close>
  | Null_stream               \<comment> \<open>a zfp stream used before a bit stream is bound\<close>
  | Read_out_of_bounds handle
  | Write_out_of_bounds handle

datatype error = Runtime_error string | Fault fault

type_synonym ('v, 'a) native = "'v heap \<Rightarrow> (error + 'a) \<times> 'v heap"

subsection \<open>The monad\<close>

definition ret :: "'a \<Rightarrow> ('v, 'a) native" where
  "ret x h = (Inr x, h)"

definition throw :: "error \<Rightarrow> ('v, 'a) native" where
  "throw e h = (Inl e, h)"

definition bind_n :: "('v, 'a) native \<Rightarrow> ('a \<Rightarrow> ('v, 'b) native) \<Rightarrow> ('v, 'b) native" where
  "bind_n m f h = (case m h of (Inl e, h') \<Rightarrow> (Inl e, h') | (Inr x, h') \<Rightarrow> f x h')"

text \<open>
  A cleanup that runs on both exits, as a C++ destructor does: its own error
  replaces the result, otherwise the result of the body stands.
\<close>

definition finally_n :: "('v, 'a) native \<Rightarrow> ('v, unit) native \<Rightarrow> ('v, 'a) native" where
  "finally_n m c h =
     (case m h of (r, h') \<Rightarrow> (case c h' of (Inl e, h'') \<Rightarrow> (Inl e, h'') | (Inr _, h'') \<Rightarrow> (r, h'')))"

subsection \<open>Primitive accesses\<close>

text \<open>The projections that read an object at the type the code expects.\<close>

fun as_field :: "'v obj \<Rightarrow> zfp_field option" where
  "as_field (Obj_field f) = Some f" | "as_field _ = None"

fun as_stream :: "'v obj \<Rightarrow> zfp_stream option" where
  "as_stream (Obj_stream s) = Some s" | "as_stream _ = None"

fun as_bits :: "'v obj \<Rightarrow> bitstream option" where
  "as_bits (Obj_bits b) = Some b" | "as_bits _ = None"

fun as_chars :: "'v obj \<Rightarrow> byte list option" where
  "as_chars (Obj_chars cs) = Some cs" | "as_chars _ = None"

fun as_floats :: "'v obj \<Rightarrow> 'v list option" where
  "as_floats (Obj_floats xs) = Some xs" | "as_floats _ = None"

definition alloc :: "'v obj \<Rightarrow> ('v, handle) native" where
  "alloc x h = (Inr (fresh h), h\<lparr>objs := (objs h)(fresh h \<mapsto> x), fresh := Suc (fresh h)\<rparr>)"

definition get_as :: "('v obj \<Rightarrow> 'a option) \<Rightarrow> handle \<Rightarrow> ('v, 'a) native" where
  "get_as proj p h =
     (case objs h p of
        None \<Rightarrow> (Inl (Fault (Dangling p)), h)
      | Some x \<Rightarrow> (case proj x of None \<Rightarrow> (Inl (Fault (Wrong_object p)), h) | Some a \<Rightarrow> (Inr a, h)))"

text \<open>Writing through a pointer of the same type.\<close>

definition store :: "('v obj \<Rightarrow> 'a option) \<Rightarrow> handle \<Rightarrow> 'v obj \<Rightarrow> ('v, unit) native" where
  "store proj p x = bind_n (get_as proj p) (\<lambda>_ h. (Inr (), h\<lparr>objs := (objs h)(p \<mapsto> x)\<rparr>))"

text \<open>\<open>free\<close> and \<open>delete[]\<close> of an object of the given type.\<close>

definition release :: "('v obj \<Rightarrow> 'a option) \<Rightarrow> handle \<Rightarrow> ('v, unit) native" where
  "release proj p = bind_n (get_as proj p) (\<lambda>_ h. (Inr (), h\<lparr>objs := (objs h)(p := None)\<rparr>))"

subsection \<open>The store invariant\<close>

definition wf_heap :: "'v heap \<Rightarrow> bool" where
  "wf_heap h \<longleftrightarrow> (\<forall>p. objs h p \<noteq> None \<longrightarrow> p < fresh h)"

definition preserves_wf :: "('v, 'a) native \<Rightarrow> bool" where
  "preserves_wf m \<longleftrightarrow> (\<forall>h. wf_heap h \<longrightarrow> wf_heap (snd (m h)))"

subsection \<open>Evaluation rules\<close>

lemma bind_n_Inr [native_simps]: "m h = (Inr x, h') \<Longrightarrow> bind_n m f h = f x h'"
  by (simp add: bind_n_def)

lemma bind_n_Inl [native_simps]: "m h = (Inl e, h') \<Longrightarrow> bind_n m f h = (Inl e, h')"
  by (simp add: bind_n_def)

lemma ret_apply [simp, native_simps]: "ret x h = (Inr x, h)"
  by (simp add: ret_def)

lemma throw_apply [simp, native_simps]: "throw e h = (Inl e, h)"
  by (simp add: throw_def)

lemma bind_n_ret [simp]: "bind_n (ret x) f = f x"
  by (simp add: bind_n_def fun_eq_iff)

lemma bind_n_throw [simp]: "bind_n (throw e) f = throw e"
  by (simp add: bind_n_def fun_eq_iff)

lemma bind_n_assoc: "bind_n (bind_n m f) g = bind_n m (\<lambda>x. bind_n (f x) g)"
  by (simp add: bind_n_def fun_eq_iff split: prod.splits sum.splits)

lemma alloc_apply [native_simps]:
  "alloc x h = (Inr (fresh h), h\<lparr>objs := (objs h)(fresh h \<mapsto> x), fresh := Suc (fresh h)\<rparr>)"
  by (simp add: alloc_def)

lemma get_as_Some [native_simps]:
  "objs h p = Some x \<Longrightarrow> proj x = Some a \<Longrightarrow> get_as proj p h = (Inr a, h)"
  by (simp add: get_as_def)

lemma get_as_None [native_simps]:
  "objs h p = None \<Longrightarrow> get_as proj p h = (Inl (Fault (Dangling p)), h)"
  by (simp add: get_as_def)

lemma store_Some [native_simps]:
  "objs h p = Some x \<Longrightarrow> proj x = Some a \<Longrightarrow>
   store proj p y h = (Inr (), h\<lparr>objs := (objs h)(p \<mapsto> y)\<rparr>)"
  by (simp add: store_def get_as_def bind_n_def)

lemma release_Some [native_simps]:
  "objs h p = Some x \<Longrightarrow> proj x = Some a \<Longrightarrow>
   release proj p h = (Inr (), h\<lparr>objs := (objs h)(p := None)\<rparr>)"
  by (simp add: release_def get_as_def bind_n_def)

lemma release_None [native_simps]:
  "objs h p = None \<Longrightarrow> release proj p h = (Inl (Fault (Dangling p)), h)"
  by (simp add: release_def get_as_def bind_n_def)

subsection \<open>The store invariant is kept\<close>

lemma wf_heap_above: "wf_heap h \<Longrightarrow> fresh h \<le> q \<Longrightarrow> objs h q = None"
  by (auto simp: wf_heap_def)

lemma wf_heap_live_below: "wf_heap h \<Longrightarrow> objs h p = Some x \<Longrightarrow> p < fresh h"
  by (auto simp: wf_heap_def)

lemma preserves_wfD: "preserves_wf m \<Longrightarrow> wf_heap h \<Longrightarrow> wf_heap (snd (m h))"
  by (simp add: preserves_wf_def)

lemma preserves_wf_ret [wf_intros]: "preserves_wf (ret x)"
  by (simp add: preserves_wf_def)

lemma preserves_wf_throw [wf_intros]: "preserves_wf (throw e)"
  by (simp add: preserves_wf_def)

lemma preserves_wf_alloc [wf_intros]: "preserves_wf (alloc x)"
  by (auto simp: preserves_wf_def wf_heap_def alloc_def)

lemma preserves_wf_get_as [wf_intros]: "preserves_wf (get_as proj p)"
  by (simp add: preserves_wf_def get_as_def split: option.splits)

lemma preserves_wf_bind_n [wf_intros]:
  "preserves_wf m \<Longrightarrow> (\<And>x. preserves_wf (f x)) \<Longrightarrow> preserves_wf (bind_n m f)"
  by (auto simp: preserves_wf_def bind_n_def split: prod.splits sum.splits)

lemma preserves_wf_store [wf_intros]: "preserves_wf (store proj p x)"
  by (auto simp: preserves_wf_def wf_heap_def store_def get_as_def bind_n_def
      split: option.splits)

lemma preserves_wf_release [wf_intros]: "preserves_wf (release proj p)"
  by (auto simp: preserves_wf_def wf_heap_def release_def get_as_def bind_n_def
      split: option.splits)

lemma preserves_wf_finally_n [wf_intros]:
  "preserves_wf m \<Longrightarrow> preserves_wf c \<Longrightarrow> preserves_wf (finally_n m c)"
  by (auto simp: preserves_wf_def finally_n_def split: prod.splits sum.splits)

lemma preserves_wf_if [wf_intros]:
  "preserves_wf a \<Longrightarrow> preserves_wf b \<Longrightarrow> preserves_wf (if c then a else b)"
  by simp

lemma preserves_wf_Let [wf_intros]: "preserves_wf (f x) \<Longrightarrow> preserves_wf (Let x f)"
  by simp

lemma preserves_wf_case_prod [wf_intros]:
  "(\<And>x y. preserves_wf (f x y)) \<Longrightarrow> preserves_wf (case_prod f p)"
  by (cases p) simp

lemma preserves_wf_case_option [wf_intros]:
  "preserves_wf a \<Longrightarrow> (\<And>x. preserves_wf (f x)) \<Longrightarrow> preserves_wf (case_option a f v)"
  by (cases v) simp_all

end
