(* ===== verification/Zfp_Api.thy ===== *)
theory Zfp_Api
  imports Native_Heap
begin

text \<open>
  The zfp and bit-stream calls that \<open>compress\<close> and \<open>decompress\<close> make, as
  computations over the native store (zfp.h, spec section 6). Each call
  dereferences exactly the pointers the library dereferences; a pointer that is
  not live, or live at another type, is a fault. The constructors and
  destructors only allocate and release; the compressing calls hand the data
  they read to the engine and write what it returns.
\<close>

subsection \<open>Field descriptors\<close>

definition zfp_field_alloc ::
  "handle \<Rightarrow> zfp_type \<Rightarrow> nat \<Rightarrow> nat \<Rightarrow> nat \<Rightarrow> nat \<Rightarrow> ('v, handle) native" where
  "zfp_field_alloc p t x y z w =
     alloc (Obj_field \<lparr>ftype = t, nx = x, ny = y, nz = z, nw = w, fdata = p\<rparr>)"

abbreviation zfp_field_1d :: "handle \<Rightarrow> zfp_type \<Rightarrow> nat \<Rightarrow> ('v, handle) native" where
  "zfp_field_1d p t x \<equiv> zfp_field_alloc p t x 0 0 0"

abbreviation zfp_field_2d :: "handle \<Rightarrow> zfp_type \<Rightarrow> nat \<Rightarrow> nat \<Rightarrow> ('v, handle) native" where
  "zfp_field_2d p t x y \<equiv> zfp_field_alloc p t x y 0 0"

abbreviation zfp_field_3d :: "handle \<Rightarrow> zfp_type \<Rightarrow> nat \<Rightarrow> nat \<Rightarrow> nat \<Rightarrow> ('v, handle) native" where
  "zfp_field_3d p t x y z \<equiv> zfp_field_alloc p t x y z 0"

abbreviation zfp_field_4d ::
  "handle \<Rightarrow> zfp_type \<Rightarrow> nat \<Rightarrow> nat \<Rightarrow> nat \<Rightarrow> nat \<Rightarrow> ('v, handle) native" where
  "zfp_field_4d p t x y z w \<equiv> zfp_field_alloc p t x y z w"

abbreviation zfp_field_free :: "handle \<Rightarrow> ('v, unit) native" where
  "zfp_field_free \<equiv> release as_field"

subsection \<open>Streams\<close>

text \<open>\<open>zfp_stream_open(nullptr)\<close>: default parameters, no bit stream bound.\<close>

definition zfp_stream_open :: "('v, handle) native" where
  "zfp_stream_open = alloc (Obj_stream \<lparr>zs_policy = Policy_default, zs_bits = None\<rparr>)"

abbreviation zfp_stream_close :: "handle \<Rightarrow> ('v, unit) native" where
  "zfp_stream_close \<equiv> release as_stream"

text \<open>The three setters overwrite the stream's accuracy parameters.\<close>

definition zfp_stream_set_policy :: "handle \<Rightarrow> policy \<Rightarrow> ('v, unit) native" where
  "zfp_stream_set_policy z pol =
     bind_n (get_as as_stream z) (\<lambda>s. store as_stream z (Obj_stream (s\<lparr>zs_policy := pol\<rparr>)))"

abbreviation zfp_stream_set_rate ::
  "handle \<Rightarrow> real \<Rightarrow> zfp_type \<Rightarrow> nat \<Rightarrow> bool \<Rightarrow> ('v, unit) native" where
  "zfp_stream_set_rate z r t d wra \<equiv> zfp_stream_set_policy z (Policy_rate r t d wra)"

abbreviation zfp_stream_set_precision :: "handle \<Rightarrow> 32 word \<Rightarrow> ('v, unit) native" where
  "zfp_stream_set_precision z p \<equiv> zfp_stream_set_policy z (Policy_precision p)"

abbreviation zfp_stream_set_accuracy :: "handle \<Rightarrow> real \<Rightarrow> ('v, unit) native" where
  "zfp_stream_set_accuracy z tol \<equiv> zfp_stream_set_policy z (Policy_accuracy tol)"

definition zfp_stream_maximum_size :: "'v engine \<Rightarrow> handle \<Rightarrow> handle \<Rightarrow> ('v, nat) native" where
  "zfp_stream_maximum_size e z f =
     bind_n (get_as as_stream z) (\<lambda>s. bind_n (get_as as_field f) (\<lambda>fld.
       ret (eng_max_size e (zs_policy s) fld)))"

text \<open>\<open>stream_open\<close> records the block and its capacity without touching it.\<close>

definition stream_open :: "handle \<Rightarrow> nat \<Rightarrow> ('v, handle) native" where
  "stream_open buf n = alloc (Obj_bits \<lparr>bs_begin = buf, bs_bytes = n\<rparr>)"

abbreviation stream_close :: "handle \<Rightarrow> ('v, unit) native" where
  "stream_close \<equiv> release as_bits"

definition zfp_stream_set_bit_stream :: "handle \<Rightarrow> handle \<Rightarrow> ('v, unit) native" where
  "zfp_stream_set_bit_stream z b =
     bind_n (get_as as_stream z) (\<lambda>s. store as_stream z (Obj_stream (s\<lparr>zs_bits := Some b\<rparr>)))"

text \<open>The bit stream a zfp stream is bound to, dereferenced.\<close>

definition bound_bits :: "zfp_stream \<Rightarrow> ('v, bitstream) native" where
  "bound_bits s = (case zs_bits s of None \<Rightarrow> throw (Fault Null_stream) | Some b \<Rightarrow> get_as as_bits b)"

definition zfp_stream_rewind :: "handle \<Rightarrow> ('v, unit) native" where
  "zfp_stream_rewind z = bind_n (get_as as_stream z) (\<lambda>s. bind_n (bound_bits s) (\<lambda>_. ret ()))"

subsection \<open>Memory blocks of the wrapper\<close>

text \<open>\<open>new char[n]\<close>; the contents are never read before they are written.\<close>

definition new_chars :: "nat \<Rightarrow> ('v, handle) native" where
  "new_chars n = alloc (Obj_chars (replicate n 0))"

abbreviation delete_chars :: "handle \<Rightarrow> ('v, unit) native" where
  "delete_chars \<equiv> release as_chars"

text \<open>\<open>py::bytes(buffer, size)\<close> copies the first \<open>size\<close> bytes of the block.\<close>

definition bytes_copy :: "handle \<Rightarrow> nat \<Rightarrow> ('v, byte list) native" where
  "bytes_copy buf n =
     bind_n (get_as as_chars buf) (\<lambda>cs.
       if length cs < n then throw (Fault (Read_out_of_bounds buf)) else ret (take n cs))"

subsection \<open>Compression and decompression\<close>

text \<open>
  \<open>zfp_compress\<close> reads the scalars of the field from its data pointer, hands
  them to the engine with the stream's policy, writes the bytes at the start of
  the bound block and returns their number; 0 means failure.
\<close>

definition zfp_compress :: "'v engine \<Rightarrow> handle \<Rightarrow> handle \<Rightarrow> ('v, nat) native" where
  "zfp_compress e z f =
     bind_n (get_as as_stream z) (\<lambda>s. bind_n (bound_bits s) (\<lambda>bs.
     bind_n (get_as as_chars (bs_begin bs)) (\<lambda>buf.
     bind_n (get_as as_field f) (\<lambda>fld.
     bind_n (get_as as_floats (fdata fld)) (\<lambda>xs.
       if length xs < field_values fld then throw (Fault (Read_out_of_bounds (fdata fld)))
       else
         (let out = eng_encode e (zs_policy s) fld (take (field_values fld) xs)
          in if length buf < length out then throw (Fault (Write_out_of_bounds (bs_begin bs)))
             else bind_n (store as_chars (bs_begin bs) (Obj_chars (overwrite_prefix out buf)))
                    (\<lambda>_. ret (length out))))))))"

text \<open>
  \<open>zfp_decompress\<close> gives the engine the bytes within the stream's capacity
  and, when it succeeds, writes the reconstructed scalars through the field's
  data pointer; the result is the C truth value of its return.
\<close>

definition zfp_decompress :: "'v engine \<Rightarrow> handle \<Rightarrow> handle \<Rightarrow> ('v, bool) native" where
  "zfp_decompress e z f =
     bind_n (get_as as_stream z) (\<lambda>s. bind_n (bound_bits s) (\<lambda>bs.
     bind_n (get_as as_chars (bs_begin bs)) (\<lambda>buf.
     bind_n (get_as as_field f) (\<lambda>fld.
     bind_n (get_as as_floats (fdata fld)) (\<lambda>ys.
       case eng_decode e (zs_policy s) fld (take (bs_bytes bs) buf) of
         None \<Rightarrow> ret False
       | Some vs \<Rightarrow>
           if length ys < field_values fld then throw (Fault (Write_out_of_bounds (fdata fld)))
           else bind_n (store as_floats (fdata fld)
                         (Obj_floats (overwrite_prefix (take (field_values fld) vs) ys)))
                  (\<lambda>_. ret True))))))"

subsection \<open>Every call keeps the store invariant\<close>

lemma zfp_calls_preserve_wf [wf_intros]:
  "preserves_wf (zfp_field_alloc p t x y z w)"
  "preserves_wf zfp_stream_open"
  "preserves_wf (zfp_stream_set_policy zs pol)"
  "preserves_wf (zfp_stream_maximum_size e zs f)"
  "preserves_wf (stream_open b n)"
  "preserves_wf (zfp_stream_set_bit_stream zs b)"
  "preserves_wf (bound_bits s)"
  "preserves_wf (new_chars n)"
  "preserves_wf (bytes_copy b n)"
  by (unfold zfp_field_alloc_def zfp_stream_open_def zfp_stream_set_policy_def
      zfp_stream_maximum_size_def stream_open_def zfp_stream_set_bit_stream_def bound_bits_def
      new_chars_def bytes_copy_def; intro wf_intros)+

lemma zfp_run_preserve_wf [wf_intros]:
  "preserves_wf (zfp_stream_rewind zs)"
  "preserves_wf (zfp_compress e zs f)"
  "preserves_wf (zfp_decompress e zs f)"
  by (unfold zfp_stream_rewind_def zfp_compress_def zfp_decompress_def; intro wf_intros)+

end
