(* ===== verification/Geometry.thy ===== *)
theory Geometry
  imports Zfp_Api
begin

text \<open>
  The Geometry Resolver (spec 4.1): the rank dispatch at the start of
  \<open>compress\<close> (module.cpp lines 29-40) and of \<open>decompress\<close> (lines 81-92),
  which turns a C-contiguous float32 numpy array into a zfp field descriptor.
  Ranks 2, 3 and 4 pass the shape to zfp in reverse order; every other rank
  (0, 1, 5, ...) takes the flattened one-dimensional path over
  \<open>buffer_info.size\<close>, the product of the shape.
  The abstract specification is \<open>resolved_field\<close>; the dispatch is proved to
  allocate exactly that descriptor, and the descriptor is proved to cover
  exactly the array's storage when every extent is positive, and to overrun it
  when an outer extent is 0.
\<close>

text \<open>
  A \<open>py::array_t<float, c_style>\<close> argument after conversion: its shape
  (\<open>ndim()\<close> is its length) and the pointer to its storage.
\<close>

record np_array =
  arr_shape :: "nat list"
  arr_data :: handle

text \<open>\<open>buffer_info.size\<close>: pybind11 computes the element count as the product of the shape.\<close>

definition request_size :: "np_array \<Rightarrow> nat" where
  "request_size a = prod_list (arr_shape a)"

text \<open>module.cpp lines 29-40, the dispatch in \<open>compress\<close>.\<close>

definition compress_field :: "np_array \<Rightarrow> ('v, handle) native" where
  "compress_field input =
     (let ptr = arr_data input; shape = arr_shape input; ndim = length shape in
      if ndim = 2 then zfp_field_2d ptr zfp_type_float (shape ! 1) (shape ! 0)
      else if ndim = 3 then zfp_field_3d ptr zfp_type_float (shape ! 2) (shape ! 1) (shape ! 0)
      else if ndim = 4 then
        zfp_field_4d ptr zfp_type_float (shape ! 3) (shape ! 2) (shape ! 1) (shape ! 0)
      else zfp_field_1d ptr zfp_type_float (request_size input))"

text \<open>module.cpp lines 81-92, the same dispatch in \<open>decompress\<close> over \<open>out\<close>.\<close>

definition decompress_field :: "np_array \<Rightarrow> ('v, handle) native" where
  "decompress_field out =
     (let ptr = arr_data out; shape = arr_shape out; ndim = length shape in
      if ndim = 2 then zfp_field_2d ptr zfp_type_float (shape ! 1) (shape ! 0)
      else if ndim = 3 then zfp_field_3d ptr zfp_type_float (shape ! 2) (shape ! 1) (shape ! 0)
      else if ndim = 4 then
        zfp_field_4d ptr zfp_type_float (shape ! 3) (shape ! 2) (shape ! 1) (shape ! 0)
      else zfp_field_1d ptr zfp_type_float (request_size out))"

subsection \<open>Abstract specification\<close>

text \<open>A float field over \<open>p\<close> whose extents, innermost first, are \<open>es\<close>, padded with 0.\<close>

definition field_of_extents :: "handle \<Rightarrow> nat list \<Rightarrow> zfp_field" where
  "field_of_extents p es =
     (let es' = es @ replicate 4 0
      in \<lparr>ftype = zfp_type_float, nx = es' ! 0, ny = es' ! 1, nz = es' ! 2, nw = es' ! 3,
          fdata = p\<rparr>)"

text \<open>Spec 4.1: ranks 2..4 reverse the shape, every other rank flattens it.\<close>

definition resolved_field :: "np_array \<Rightarrow> zfp_field" where
  "resolved_field a =
     (if length (arr_shape a) \<in> {2, 3, 4} then field_of_extents (arr_data a) (rev (arr_shape a))
      else field_of_extents (arr_data a) [request_size a])"

text \<open>The extents zfp sees, innermost first.\<close>

definition field_extents :: "zfp_field \<Rightarrow> nat list" where
  "field_extents f = take (zfp_field_dimensionality f) [nx f, ny f, nz f, nw f]"

text \<open>
  The caller's array as the spec's data model requires it (spec 3): live float
  storage at the array's pointer holding exactly \<open>buffer_info.size\<close> values.
\<close>

definition holds_array :: "'v heap \<Rightarrow> np_array \<Rightarrow> 'v list \<Rightarrow> bool" where
  "holds_array h a xs \<longleftrightarrow> objs h (arr_data a) = Some (Obj_floats xs) \<and> length xs = request_size a"

text \<open>
  The concrete scenario of spec section 8: the 2 x 3 array \<open>[[1,2,3],[4,5,6]]\<close>
  stored at pointer 0 of an otherwise empty store (values as naturals, the
  engine being abstract in the scalar type).
\<close>

abbreviation scenario_heap :: "nat heap" where
  "scenario_heap \<equiv> \<lparr>objs = [0 \<mapsto> Obj_floats [1, 2, 3, 4, 5, 6]], fresh = 1\<rparr>"

abbreviation scenario_array :: np_array where
  "scenario_array \<equiv> \<lparr>arr_shape = [2, 3], arr_data = 0\<rparr>"

lemma fdata_resolved_field [simp]: "fdata (resolved_field a) = arr_data a"
  by (simp add: resolved_field_def field_of_extents_def Let_def)

lemma resolved_field_same_shape:
  "arr_shape d = arr_shape a \<Longrightarrow> resolved_field d = (resolved_field a)\<lparr>fdata := arr_data d\<rparr>"
  by (simp add: resolved_field_def field_of_extents_def request_size_def Let_def)

lemma ftype_resolved_field [simp]: "ftype (resolved_field a) = zfp_type_float"
  by (simp add: resolved_field_def field_of_extents_def Let_def)

subsection \<open>Refinement: the dispatch allocates the specified descriptor\<close>

lemma length_2_conv: "length s = 2 \<longleftrightarrow> (\<exists>a b. s = [a, b])"
  by (auto simp: numeral_2_eq_2 length_Suc_conv)

lemma length_3_conv: "length s = 3 \<longleftrightarrow> (\<exists>a b c. s = [a, b, c])"
  by (auto simp: numeral_3_eq_3 length_Suc_conv)

lemma length_4_conv: "length s = 4 \<longleftrightarrow> (\<exists>a b c d. s = [a, b, c, d])"
  by (auto simp: eval_nat_numeral length_Suc_conv)

lemma resolved_field_cases:
  "resolved_field \<lparr>arr_shape = [a, b], arr_data = p\<rparr> =
     \<lparr>ftype = zfp_type_float, nx = b, ny = a, nz = 0, nw = 0, fdata = p\<rparr>"
  "resolved_field \<lparr>arr_shape = [a, b, c], arr_data = p\<rparr> =
     \<lparr>ftype = zfp_type_float, nx = c, ny = b, nz = a, nw = 0, fdata = p\<rparr>"
  "resolved_field \<lparr>arr_shape = [a, b, c, d], arr_data = p\<rparr> =
     \<lparr>ftype = zfp_type_float, nx = d, ny = c, nz = b, nw = a, fdata = p\<rparr>"
  "length s \<notin> {2, 3, 4} \<Longrightarrow> resolved_field \<lparr>arr_shape = s, arr_data = p\<rparr> =
     \<lparr>ftype = zfp_type_float, nx = prod_list s, ny = 0, nz = 0, nw = 0, fdata = p\<rparr>"
  by (simp_all add: resolved_field_def field_of_extents_def request_size_def)

lemma shape_rank_cases:
  obtains (r2) x y where "s = [x, y]"
  | (r3) x y z where "s = [x, y, z]"
  | (r4) x y z w where "s = [x, y, z, w]"
  | (other) "length s \<notin> {2, 3, 4}"
  using length_2_conv [of s] length_3_conv [of s] length_4_conv [of s] by auto

theorem compress_field_refines:
  "compress_field a = alloc (Obj_field (resolved_field a))"
proof (cases a)
  case (fields s p)
  then show ?thesis
    by (cases s rule: shape_rank_cases)
      (simp_all add: compress_field_def zfp_field_alloc_def resolved_field_cases request_size_def)
qed

theorem decompress_field_refines:
  "decompress_field a = alloc (Obj_field (resolved_field a))"
proof (cases a)
  case (fields s p)
  then show ?thesis
    by (cases s rule: shape_rank_cases)
      (simp_all add: decompress_field_def zfp_field_alloc_def resolved_field_cases request_size_def)
qed

subsection \<open>The descriptor against the array's storage\<close>

lemma field_values_resolved [geometry_simps]:
  "field_values (resolved_field \<lparr>arr_shape = [a, b], arr_data = p\<rparr>) =
     (if b = 0 then 0 else if a = 0 then b else b * a)"
  "field_values (resolved_field \<lparr>arr_shape = [a, b, c], arr_data = p\<rparr>) =
     (if c = 0 then 0 else if b = 0 then c else if a = 0 then c * b else c * b * a)"
  "field_values (resolved_field \<lparr>arr_shape = [a, b, c, d], arr_data = p\<rparr>) =
     (if d = 0 then 0 else if c = 0 then d else if b = 0 then d * c
      else if a = 0 then d * c * b else d * c * b * a)"
  "length s \<notin> {2, 3, 4} \<Longrightarrow>
   field_values (resolved_field \<lparr>arr_shape = s, arr_data = p\<rparr>) = prod_list s"
  by (simp_all add: resolved_field_cases field_values_dims)

lemma field_extents_resolved [geometry_simps]:
  "field_extents (resolved_field \<lparr>arr_shape = [a, b], arr_data = p\<rparr>) =
     (if b = 0 then [] else if a = 0 then [b] else [b, a])"
  "field_extents (resolved_field \<lparr>arr_shape = [a, b, c], arr_data = p\<rparr>) =
     (if c = 0 then [] else if b = 0 then [c] else if a = 0 then [c, b] else [c, b, a])"
  "field_extents (resolved_field \<lparr>arr_shape = [a, b, c, d], arr_data = p\<rparr>) =
     (if d = 0 then [] else if c = 0 then [d] else if b = 0 then [d, c]
      else if a = 0 then [d, c, b] else [d, c, b, a])"
  "length s \<notin> {2, 3, 4} \<Longrightarrow>
   field_extents (resolved_field \<lparr>arr_shape = s, arr_data = p\<rparr>) =
     (if prod_list s = 0 then [] else [prod_list s])"
  by (simp_all add: resolved_field_cases field_extents_def zfp_field_dimensionality_def)

text \<open>
  With every extent positive the descriptor covers exactly the array's
  \<open>buffer_info.size\<close> scalars, for every rank: the codec neither reads nor
  writes outside the numpy storage.
\<close>

theorem resolved_field_covers:
  assumes "0 \<notin> set (arr_shape a)"
  shows "field_values (resolved_field a) = request_size a"
proof (cases a)
  case (fields s p)
  with assms show ?thesis
    by (cases s rule: shape_rank_cases) (simp_all add: geometry_simps request_size_def ac_simps)
qed

text \<open>Ranks 2 to 4 hand zfp the shape reversed, innermost axis first.\<close>

theorem resolved_field_reverses:
  assumes "length (arr_shape a) \<in> {2, 3, 4}" and "0 \<notin> set (arr_shape a)"
  shows "field_extents (resolved_field a) = rev (arr_shape a)"
proof (cases a)
  case (fields s p)
  with assms show ?thesis
    by (cases s rule: shape_rank_cases) (simp_all add: geometry_simps)
qed

text \<open>Every other rank, 0 and 5 and beyond included, is flattened to one dimension.\<close>

theorem resolved_field_flattens:
  assumes "length (arr_shape a) \<notin> {2, 3, 4}" and "0 \<notin> set (arr_shape a)"
  shows "field_extents (resolved_field a) = [request_size a]"
proof (cases a)
  case (fields s p)
  with assms prod_list_pos [of s] show ?thesis
    by (simp add: geometry_simps request_size_def)
qed

text \<open>
  An empty array of rank 2 to 4 whose innermost extent is positive is handed to
  zfp as a nonempty field: zfp ends the dimensions at the first zero extent and
  keeps the ones before it, so it traverses more scalars than the storage holds.
\<close>

theorem resolved_field_overruns_empty:
  assumes "length (arr_shape a) \<in> {2, 3, 4}" and "0 < last (arr_shape a)"
    and "0 \<in> set (arr_shape a)"
  shows "request_size a = 0 \<and> 0 < field_values (resolved_field a)"
proof (cases a)
  case (fields s p)
  with assms show ?thesis
    by (cases s rule: shape_rank_cases) (auto simp: geometry_simps request_size_def ac_simps)
qed

subsection \<open>The scenario array\<close>

lemma scenario_wf: "wf_heap scenario_heap"
  by (simp add: wf_heap_def)

lemma scenario_holds: "holds_array scenario_heap scenario_array [1, 2, 3, 4, 5, 6]"
  by (simp add: holds_array_def request_size_def)

lemma scenario_positive: "0 \<notin> set (arr_shape scenario_array)"
  by simp

lemmas scenario_facts = scenario_wf scenario_holds scenario_positive

end
