(* ===== verification/Mode.thy ===== *)
theory Mode
  imports Zfp_Api
begin

text \<open>
  The Mode Configurator (spec 4.2): the \<open>CompressionMode\<close> enum (module.cpp
  lines 18-23) and the chain of tests that opens a zfp stream and calls exactly
  one of the three accuracy setters, in \<open>compress\<close> (lines 41-48) and in
  \<open>decompress\<close> (lines 93-99). Its abstract specification is
  \<open>mode_policy\<close>, the policy the stream ends up with; the two copies of the
  chain are proved to allocate a stream carrying exactly that policy and no bit
  stream.
\<close>

datatype CompressionMode = FixedRate | FixedPrecision | FixedAccuracy

text \<open>module.cpp lines 41-48.\<close>

definition compress_stream :: "CompressionMode \<Rightarrow> real \<Rightarrow> 32 word \<Rightarrow> real \<Rightarrow> ('v, handle) native" where
  "compress_stream compression_mode rate precision tolerance =
     bind_n zfp_stream_open (\<lambda>zfp.
     bind_n (if compression_mode = FixedRate then zfp_stream_set_rate zfp rate zfp_type_float 1 False
             else if compression_mode = FixedPrecision then zfp_stream_set_precision zfp precision
             else if compression_mode = FixedAccuracy then zfp_stream_set_accuracy zfp tolerance
             else ret ())
       (\<lambda>_. ret zfp))"

text \<open>module.cpp lines 93-99.\<close>

definition decompress_stream :: "CompressionMode \<Rightarrow> real \<Rightarrow> 32 word \<Rightarrow> real \<Rightarrow> ('v, handle) native" where
  "decompress_stream compression_mode rate precision tolerance =
     bind_n zfp_stream_open (\<lambda>zfp.
     bind_n (if compression_mode = FixedRate then zfp_stream_set_rate zfp rate zfp_type_float 1 False
             else if compression_mode = FixedPrecision then zfp_stream_set_precision zfp precision
             else if compression_mode = FixedAccuracy then zfp_stream_set_accuracy zfp tolerance
             else ret ())
       (\<lambda>_. ret zfp))"

subsection \<open>Abstract specification\<close>

text \<open>
  Spec 4.2: the mode selects one parameter and the matching zfp policy; the two
  other parameters are ignored.
\<close>

definition mode_policy :: "CompressionMode \<Rightarrow> real \<Rightarrow> 32 word \<Rightarrow> real \<Rightarrow> policy" where
  "mode_policy m rate precision tolerance =
     (case m of
        FixedRate \<Rightarrow> Policy_rate rate zfp_type_float 1 False
      | FixedPrecision \<Rightarrow> Policy_precision precision
      | FixedAccuracy \<Rightarrow> Policy_accuracy tolerance)"

definition configured_stream :: "CompressionMode \<Rightarrow> real \<Rightarrow> 32 word \<Rightarrow> real \<Rightarrow> 'v obj" where
  "configured_stream m rate precision tolerance =
     Obj_stream \<lparr>zs_policy = mode_policy m rate precision tolerance, zs_bits = None\<rparr>"

lemma set_policy_after_open:
  "bind_n zfp_stream_open (\<lambda>z. bind_n (zfp_stream_set_policy z pol) (\<lambda>_. ret z)) =
   alloc (Obj_stream \<lparr>zs_policy = pol, zs_bits = None\<rparr>)"
  by (simp add: fun_eq_iff zfp_stream_open_def zfp_stream_set_policy_def alloc_def
      bind_n_def store_def get_as_def)

theorem compress_stream_refines:
  "compress_stream m rate precision tolerance = alloc (configured_stream m rate precision tolerance)"
  by (cases m) (simp_all add: compress_stream_def configured_stream_def mode_policy_def
      set_policy_after_open)

theorem decompress_stream_refines:
  "decompress_stream m rate precision tolerance = alloc (configured_stream m rate precision tolerance)"
  by (cases m) (simp_all add: decompress_stream_def configured_stream_def mode_policy_def
      set_policy_after_open)

text \<open>The parameters a mode does not select have no effect on the stream.\<close>

lemma mode_policy_ignores:
  "mode_policy FixedRate r p t = mode_policy FixedRate r p' t'"
  "mode_policy FixedPrecision r p t = mode_policy FixedPrecision r' p t'"
  "mode_policy FixedAccuracy r p t = mode_policy FixedAccuracy r' p' t"
  by (simp_all add: mode_policy_def)

end
