(* ===== verification/Compress.thy ===== *)
theory Compress
  imports Geometry Mode
begin

text \<open>
  The Encoder (spec 4.3): \<open>compress\<close> of module.cpp lines 26-69, composed of
  the geometry resolver (\<open>compress_field\<close>), the mode configurator
  (\<open>compress_stream\<close>), the sizing and binding of the scratch buffer
  (\<open>compress_buffer\<close>, lines 49-53) and the engine call with its two exits
  (\<open>compress_run\<close>, lines 54-68). Its abstract specification
  \<open>compress_spec\<close> is the engine's output under the resolved field and the
  selected policy, or the \<open>compression failed\<close> error when the engine
  reports zero bytes. The execution lemma \<open>compress_exec\<close> computes the whole
  call symbolically; the theorems read off it what the result is, what is left
  allocated on each exit, and when the engine reads outside the array.
\<close>

text \<open>module.cpp lines 49-53.\<close>

definition compress_buffer :: "'v engine \<Rightarrow> handle \<Rightarrow> handle \<Rightarrow> ('v, handle \<times> handle) native" where
  "compress_buffer e zfp field =
     bind_n (zfp_stream_maximum_size e zfp field) (\<lambda>bufsize.
     bind_n (new_chars bufsize) (\<lambda>buffer.
     bind_n (stream_open buffer bufsize) (\<lambda>stream.
     bind_n (zfp_stream_set_bit_stream zfp stream) (\<lambda>_.
     bind_n (zfp_stream_rewind zfp) (\<lambda>_. ret (buffer, stream))))))"

text \<open>module.cpp lines 54-68: on a zero size only the scratch buffer is deleted before the throw.\<close>

definition compress_run ::
  "'v engine \<Rightarrow> handle \<Rightarrow> handle \<Rightarrow> handle \<Rightarrow> handle \<Rightarrow> ('v, byte list) native" where
  "compress_run e zfp field buffer stream =
     bind_n (zfp_compress e zfp field) (\<lambda>size.
       if size = 0 then
         bind_n (delete_chars buffer) (\<lambda>_. throw (Runtime_error ''compression failed''))
       else
         bind_n (bytes_copy buffer size) (\<lambda>out.
         bind_n (zfp_field_free field) (\<lambda>_.
         bind_n (zfp_stream_close zfp) (\<lambda>_.
         bind_n (stream_close stream) (\<lambda>_.
         bind_n (delete_chars buffer) (\<lambda>_. ret out))))))"

text \<open>module.cpp lines 26-69.\<close>

definition compress ::
  "'v engine \<Rightarrow> np_array \<Rightarrow> CompressionMode \<Rightarrow> real \<Rightarrow> 32 word \<Rightarrow> real \<Rightarrow> ('v, byte list) native" where
  "compress e input compression_mode rate precision tolerance =
     bind_n (compress_field input) (\<lambda>field.
     bind_n (compress_stream compression_mode rate precision tolerance) (\<lambda>zfp.
     bind_n (compress_buffer e zfp field) (\<lambda>(buffer, stream).
       compress_run e zfp field buffer stream)))"

subsection \<open>Abstract specification\<close>

text \<open>Spec 4.3: the engine's bytes, or \<open>CompressionFailure\<close> when there are none.\<close>

definition compress_spec ::
  "'v engine \<Rightarrow> np_array \<Rightarrow> 'v list \<Rightarrow> CompressionMode \<Rightarrow> real \<Rightarrow> 32 word \<Rightarrow> real \<Rightarrow> error + byte list" where
  "compress_spec e a xs m rate precision tolerance =
     (let out = eng_encode e (mode_policy m rate precision tolerance) (resolved_field a) xs
      in if out = [] then Inl (Runtime_error ''compression failed'') else Inr out)"

text \<open>
  The store after the failure exit: the field descriptor, the zfp stream and the
  bit stream are still allocated; only the scratch buffer was deleted.
\<close>

definition compress_leak :: "'v heap \<Rightarrow> zfp_field \<Rightarrow> policy \<Rightarrow> nat \<Rightarrow> 'v heap" where
  "compress_leak h fld pol n =
     (let F = fresh h
      in h\<lparr>objs := (objs h)(F \<mapsto> Obj_field fld,
                       Suc F \<mapsto> Obj_stream \<lparr>zs_policy = pol, zs_bits = Some (Suc (Suc (Suc F)))\<rparr>,
                       Suc (Suc (Suc F)) \<mapsto> Obj_bits \<lparr>bs_begin = Suc (Suc F), bs_bytes = n\<rparr>),
           fresh := Suc (Suc (Suc (Suc F)))\<rparr>)"

subsection \<open>Execution\<close>

lemma compress_exec:
  assumes wf: "wf_heap h" and arr: "objs h (arr_data a) = Some (Obj_floats xs)"
    and fits: "engine_fits e"
  shows "compress e a m r p t h =
    (let fld = resolved_field a; pol = mode_policy m r p t; n = eng_max_size e pol fld;
         out = eng_encode e pol fld (take (field_values fld) xs); F = fresh h
     in if length xs < field_values fld then
          (Inl (Fault (Read_out_of_bounds (arr_data a))),
           (compress_leak h fld pol n)\<lparr>objs := (objs (compress_leak h fld pol n))
              (Suc (Suc F) \<mapsto> Obj_chars (replicate n 0))\<rparr>)
        else if out = [] then (Inl (Runtime_error ''compression failed''), compress_leak h fld pol n)
        else (Inr out, h\<lparr>fresh := Suc (Suc (Suc (Suc F)))\<rparr>))"
proof -
  let ?fld = "resolved_field a" and ?pol = "mode_policy m r p t"
  have below: "arr_data a < fresh h" using wf arr by (rule wf_heap_live_below)
  have fit: "length (eng_encode e ?pol ?fld ys) \<le> eng_max_size e ?pol ?fld" for ys
    using fits by (rule engine_fitsD)
  show ?thesis
    using below arr fit [of "take (field_values ?fld) xs"] wf_heap_above [OF wf]
    by (simp add: compress_def compress_field_refines compress_stream_refines configured_stream_def
        compress_buffer_def compress_run_def zfp_stream_maximum_size_def new_chars_def stream_open_def
        zfp_stream_set_bit_stream_def zfp_stream_rewind_def bound_bits_def zfp_compress_def
        bytes_copy_def bind_n_def alloc_def store_def get_as_def release_def Let_def fun_eq_iff
        compress_leak_def)
qed

text \<open>On a well-formed array with positive extents the field reads exactly the storage.\<close>

lemma compress_exec_covered:
  assumes "wf_heap h" and "holds_array h a xs" and "0 \<notin> set (arr_shape a)" and "engine_fits e"
  shows "compress e a m r p t h =
    (let fld = resolved_field a; pol = mode_policy m r p t; out = eng_encode e pol fld xs
     in if out = [] then (Inl (Runtime_error ''compression failed''),
                          compress_leak h fld pol (eng_max_size e pol fld))
        else (Inr out, h\<lparr>fresh := fresh h + 4\<rparr>))"
proof -
  from assms(2,3) have "field_values (resolved_field a) = length xs"
    by (simp add: holds_array_def resolved_field_covers)
  with assms show ?thesis
    by (simp add: compress_exec holds_array_def Let_def)
qed

lemma compress_preserves: "preserves_wf (compress e a m r p t)"
  unfolding compress_def compress_field_refines compress_stream_refines compress_buffer_def
    compress_run_def
  by (intro wf_intros)

text \<open>The scenario of spec 8 under \<open>mock_engine\<close>: one marker byte, then one byte per value.\<close>

lemma scenario_compress:
  "compress mock_engine scenario_array FixedAccuracy 8 8 (1 / 1000) scenario_heap =
     (Inr [1, 1, 2, 3, 4, 5, 6], scenario_heap\<lparr>fresh := 5\<rparr>)"
  using compress_exec_covered [OF scenario_facts mock_engine_fits]
  by (simp add: resolved_field_cases field_values_dims)

subsection \<open>Properties\<close>

text \<open>
  C1. Functional correctness of the encoder: on a well-formed float array with
  positive extents, and an engine whose output fits \<open>zfp_stream_maximum_size\<close>,
  \<open>compress\<close> returns exactly what its specification says: the engine's bytes for
  the resolved field under the selected policy, or the \<open>compression failed\<close>
  error when the engine produces none.
\<close>

theorem compress_refines_spec:
  assumes "wf_heap h" and "holds_array h a xs" and "0 \<notin> set (arr_shape a)" and "engine_fits e"
  shows "fst (compress e a m rate precision tolerance h) = compress_spec e a xs m rate precision tolerance"
  using compress_exec_covered [OF assms] by (simp add: compress_spec_def Let_def)

theorem compress_refines_spec_witness:
  "wf_heap scenario_heap \<and>
   holds_array scenario_heap
     scenario_array [1, 2, 3, 4, 5, 6] \<and>
   0 \<notin> set [2, 3 :: nat] \<and> engine_fits mock_engine \<and>
   fst (compress mock_engine scenario_array FixedAccuracy 8 8 (1 / 1000)
          scenario_heap) =
     compress_spec mock_engine scenario_array [1, 2, 3, 4, 5, 6]
       FixedAccuracy 8 8 (1 / 1000)"
proof -
  show ?thesis
    using compress_refines_spec [OF scenario_facts mock_engine_fits] scenario_facts mock_engine_fits
    by simp
qed

text \<open>
  C2. The success exit releases everything it allocated: after a successful
  \<open>compress\<close> the live objects are exactly those before the call (the field
  descriptor, the zfp stream, the bit stream and the scratch buffer are all
  released, and the caller's memory is unchanged).
\<close>

theorem compress_success_releases:
  assumes "wf_heap h" and "holds_array h a xs" and "0 \<notin> set (arr_shape a)" and "engine_fits e"
    and "compress e a m rate precision tolerance h = (Inr out, h')"
  shows "objs h' = objs h"
  using compress_exec_covered [OF assms(1-4), of m rate precision tolerance] assms(5)
  by (simp add: Let_def split: if_splits)

theorem compress_success_releases_witness:
  "compress mock_engine scenario_array FixedAccuracy 8 8 (1 / 1000) scenario_heap =
     (Inr [1, 1, 2, 3, 4, 5, 6], scenario_heap\<lparr>fresh := 5\<rparr>) \<and>
   objs (scenario_heap\<lparr>fresh := 5\<rparr>) = objs scenario_heap"
proof -
  show ?thesis
    using compress_success_releases [OF scenario_facts mock_engine_fits scenario_compress] scenario_compress by simp
qed

text \<open>
  C3. The failure exit leaks (spec 4.3 step 7 requires the release on every
  exit): when the engine reports zero bytes, \<open>compress\<close> throws
  \<open>compression failed\<close> after deleting only the scratch buffer, so the field
  descriptor, the zfp stream and the bit stream, three fresh objects, stay
  allocated.
\<close>

theorem compress_failure_leaks:
  assumes "wf_heap h" and "holds_array h a xs" and "0 \<notin> set (arr_shape a)" and "engine_fits e"
    and "compress e a m rate precision tolerance h = (Inl err, h')"
  shows "err = Runtime_error ''compression failed'' \<and>
         dom (objs h') = dom (objs h) \<union> {fresh h, fresh h + 1, fresh h + 3} \<and>
         fresh h \<notin> dom (objs h) \<and> fresh h + 1 \<notin> dom (objs h) \<and> fresh h + 3 \<notin> dom (objs h)"
proof -
  have new: "objs h (fresh h + k) = None" for k
    using wf_heap_above [OF assms(1)] by simp
  from compress_exec_covered [OF assms(1-4), of m rate precision tolerance] assms(5)
  have "err = Runtime_error ''compression failed''"
    and "h' = compress_leak h (resolved_field a) (mode_policy m rate precision tolerance)
                (eng_max_size e (mode_policy m rate precision tolerance) (resolved_field a))"
    by (simp_all add: Let_def split: if_splits)
  then show ?thesis
    using new [of 0] new [of 1] new [of 3]
    by (auto simp: compress_leak_def Let_def)
qed

theorem compress_failure_leaks_witness:
  "compress silent_engine scenario_array FixedRate 8 8 (1 / 1000) scenario_heap =
     (Inl (Runtime_error ''compression failed''),
      compress_leak scenario_heap (resolved_field scenario_array) (mode_policy FixedRate 8 8 (1 / 1000)) 0) \<and>
   dom (objs (compress_leak scenario_heap (resolved_field scenario_array) (mode_policy FixedRate 8 8 (1 / 1000)) 0)) =
     {0} \<union> {1, 2, 4}"
proof -
  have run: "compress silent_engine scenario_array FixedRate 8 8 (1 / 1000) scenario_heap =
     (Inl (Runtime_error ''compression failed''),
      compress_leak scenario_heap (resolved_field scenario_array) (mode_policy FixedRate 8 8 (1 / 1000)) 0)"
    using compress_exec_covered [OF scenario_facts silent_engine_fits] by simp
  have "dom (objs (compress_leak scenario_heap (resolved_field scenario_array) (mode_policy FixedRate 8 8 (1 / 1000)) 0)) =
     dom (objs scenario_heap) \<union> {fresh scenario_heap, fresh scenario_heap + 1, fresh scenario_heap + 3}"
    using compress_failure_leaks [OF scenario_facts silent_engine_fits run] by (elim conjE)
  then show ?thesis using run by (simp add: numeral_2_eq_2)
qed

text \<open>
  C4. An empty array whose innermost extent is positive makes \<open>compress\<close>
  read outside the numpy storage: for ranks 2 to 4 the wrapper passes a zero
  outer extent to zfp, which then treats the field as a lower-dimensional one
  with \<open>nx\<close> or more scalars, none of which exist (no extent is validated,
  spec 4.1).
\<close>

theorem compress_zero_extent_overreads:
  assumes "wf_heap h" and "holds_array h a xs" and "engine_fits e"
    and "length (arr_shape a) \<in> {2, 3, 4}" and "0 < last (arr_shape a)" and "0 \<in> set (arr_shape a)"
  shows "fst (compress e a m rate precision tolerance h) = Inl (Fault (Read_out_of_bounds (arr_data a)))"
proof -
  from resolved_field_overruns_empty [OF assms(4-6)] assms(2)
  have "length xs < field_values (resolved_field a)"
    by (simp add: holds_array_def)
  with compress_exec [OF assms(1) _ assms(3), of a xs m rate precision tolerance] assms(2)
  show ?thesis by (simp add: holds_array_def Let_def)
qed

theorem compress_zero_extent_overreads_witness:
  "fst (compress mock_engine \<lparr>arr_shape = [0, 5], arr_data = 0\<rparr> FixedPrecision 8 16 (1 / 1000)
          (\<lparr>objs = [0 \<mapsto> Obj_floats []], fresh = 1\<rparr> :: nat heap)) =
     Inl (Fault (Read_out_of_bounds 0))"
proof -
  have wf: "wf_heap (\<lparr>objs = [0 \<mapsto> Obj_floats []], fresh = 1\<rparr> :: nat heap)"
    by (simp add: wf_heap_def)
  have arr: "holds_array (\<lparr>objs = [0 \<mapsto> Obj_floats []], fresh = 1\<rparr> :: nat heap)
               \<lparr>arr_shape = [0, 5], arr_data = 0\<rparr> []"
    by (simp add: holds_array_def request_size_def)
  show ?thesis
    using compress_zero_extent_overreads [OF wf arr mock_engine_fits] by simp
qed

text \<open>
  C5. The mode configurator consults only the selected parameter: changing the
  two parameters a mode ignores changes nothing of \<open>compress\<close>, neither its
  result nor its effect on the store.
\<close>

theorem compress_ignores_unselected:
  "compress e a FixedRate rate precision tolerance = compress e a FixedRate rate precision' tolerance' \<and>
   compress e a FixedPrecision rate precision tolerance =
     compress e a FixedPrecision rate' precision tolerance' \<and>
   compress e a FixedAccuracy rate precision tolerance =
     compress e a FixedAccuracy rate' precision' tolerance"
  by (simp add: compress_def compress_stream_refines configured_stream_def mode_policy_def)

end
