(* ===== verification/Decompress.thy ===== *)
theory Decompress
  imports Geometry Mode
begin

text \<open>
  The Decoder (spec 4.4): \<open>decompress\<close> of module.cpp lines 72-109, composed of
  the geometry resolver over the destination (\<open>decompress_field\<close>), the mode
  configurator (\<open>decompress_stream\<close>), the binding of a bit stream to the
  caller's buffer (\<open>decompress_bind\<close>, lines 100-102) and the engine call with
  its two exits (\<open>decompress_run\<close>, lines 103-108). The compressed bytes are a
  \<open>py::buffer\<close>: the stream is opened over \<open>buffer_info.size\<close>, which counts
  items, not bytes. The execution lemma \<open>decompress_exec\<close> computes the call;
  the theorems read off the result, the destination's new contents, what is left
  allocated on each exit, and when the engine writes outside the destination.
\<close>

text \<open>
  A \<open>py::buffer\<close> argument after \<open>request()\<close>: the pointer, the number of
  items (\<open>buffer_info.size\<close>) and the size of one item in bytes.
\<close>

record py_buffer =
  buf_ptr :: handle
  buf_size :: nat
  buf_itemsize :: nat

text \<open>
  The decoding side of the spec-8 scenario: a zeroed 2 x 3 destination at
  pointer 0 and, at pointer 1, the seven bytes \<open>mock_engine\<close> produced for
  \<open>scenario_array\<close>, passed as a \<open>bytes\<close> object (items of one byte).
\<close>

abbreviation dscenario_heap :: "nat heap" where
  "dscenario_heap \<equiv> \<lparr>objs = [0 \<mapsto> Obj_floats [0, 0, 0, 0, 0, 0], 1 \<mapsto> Obj_chars [1, 1, 2, 3, 4, 5, 6]],
                     fresh = 2\<rparr>"

abbreviation dscenario_buffer :: py_buffer where
  "dscenario_buffer \<equiv> \<lparr>buf_ptr = 1, buf_size = 7, buf_itemsize = 1\<rparr>"

text \<open>module.cpp lines 100-102.\<close>

definition decompress_bind :: "py_buffer \<Rightarrow> handle \<Rightarrow> ('v, handle) native" where
  "decompress_bind compressed_info zfp =
     bind_n (stream_open (buf_ptr compressed_info) (buf_size compressed_info)) (\<lambda>stream.
     bind_n (zfp_stream_set_bit_stream zfp stream) (\<lambda>_.
     bind_n (zfp_stream_rewind zfp) (\<lambda>_. ret stream)))"

text \<open>module.cpp lines 103-108: on failure the throw happens before any release.\<close>

definition decompress_run :: "'v engine \<Rightarrow> handle \<Rightarrow> handle \<Rightarrow> handle \<Rightarrow> ('v, unit) native" where
  "decompress_run e zfp field stream =
     bind_n (zfp_decompress e zfp field) (\<lambda>ok.
       if \<not> ok then throw (Runtime_error ''decompression failed'')
       else
         bind_n (zfp_field_free field) (\<lambda>_.
         bind_n (zfp_stream_close zfp) (\<lambda>_.
         bind_n (stream_close stream) (\<lambda>_. ret ()))))"

text \<open>module.cpp lines 72-109.\<close>

definition decompress ::
  "'v engine \<Rightarrow> py_buffer \<Rightarrow> np_array \<Rightarrow> CompressionMode \<Rightarrow> real \<Rightarrow> 32 word \<Rightarrow> real \<Rightarrow> ('v, unit) native" where
  "decompress e b out compression_mode rate precision tolerance =
     bind_n (decompress_field out) (\<lambda>field.
     bind_n (decompress_stream compression_mode rate precision tolerance) (\<lambda>zfp.
     bind_n (decompress_bind b zfp) (\<lambda>stream.
       decompress_run e zfp field stream)))"

subsection \<open>Abstract specification\<close>

text \<open>The caller's buffer: live bytes, \<open>size * itemsize\<close> of them.\<close>

definition holds_buffer :: "'v heap \<Rightarrow> py_buffer \<Rightarrow> byte list \<Rightarrow> bool" where
  "holds_buffer h b bs \<longleftrightarrow>
     objs h (buf_ptr b) = Some (Obj_chars bs) \<and> length bs = buf_size b * buf_itemsize b"

text \<open>The bytes the engine is given: the first \<open>buffer_info.size\<close> of the buffer.\<close>

definition stream_view :: "py_buffer \<Rightarrow> byte list \<Rightarrow> byte list" where
  "stream_view b bs = take (buf_size b) bs"

text \<open>Spec 4.4: success when the engine decodes, \<open>DecompressionFailure\<close> otherwise.\<close>

definition decompress_spec ::
  "'v engine \<Rightarrow> py_buffer \<Rightarrow> byte list \<Rightarrow> np_array \<Rightarrow> CompressionMode \<Rightarrow> real \<Rightarrow> 32 word \<Rightarrow> real \<Rightarrow>
   error + unit" where
  "decompress_spec e b bs out m rate precision tolerance =
     (case eng_decode e (mode_policy m rate precision tolerance) (resolved_field out) (stream_view b bs) of
        None \<Rightarrow> Inl (Runtime_error ''decompression failed'')
      | Some _ \<Rightarrow> Inr ())"

text \<open>The store after the failure exit: nothing allocated was released.\<close>

definition decompress_leak :: "'v heap \<Rightarrow> zfp_field \<Rightarrow> policy \<Rightarrow> py_buffer \<Rightarrow> 'v heap" where
  "decompress_leak h fld pol b =
     (let F = fresh h
      in h\<lparr>objs := (objs h)(F \<mapsto> Obj_field fld,
                       Suc F \<mapsto> Obj_stream \<lparr>zs_policy = pol, zs_bits = Some (Suc (Suc F))\<rparr>,
                       Suc (Suc F) \<mapsto> Obj_bits \<lparr>bs_begin = buf_ptr b, bs_bytes = buf_size b\<rparr>),
           fresh := Suc (Suc (Suc F))\<rparr>)"

subsection \<open>Execution\<close>

lemma decompress_exec:
  assumes wf: "wf_heap h" and arr: "objs h (arr_data out) = Some (Obj_floats ys)"
    and buf: "objs h (buf_ptr b) = Some (Obj_chars bs)"
  shows "decompress e b out m r p t h =
    (let fld = resolved_field out; pol = mode_policy m r p t; F = fresh h
     in case eng_decode e pol fld (take (buf_size b) bs) of
          None \<Rightarrow> (Inl (Runtime_error ''decompression failed''), decompress_leak h fld pol b)
        | Some vs \<Rightarrow>
            if length ys < field_values fld
            then (Inl (Fault (Write_out_of_bounds (arr_data out))), decompress_leak h fld pol b)
            else (Inr (), h\<lparr>objs := (objs h)(arr_data out \<mapsto>
                              Obj_floats (overwrite_prefix (take (field_values fld) vs) ys)),
                            fresh := Suc (Suc (Suc F))\<rparr>))"
proof -
  have below: "arr_data out < fresh h" using wf arr by (rule wf_heap_live_below)
  have below': "buf_ptr b < fresh h" using wf buf by (rule wf_heap_live_below)
  show ?thesis
    using below below' arr buf wf_heap_above [OF wf]
    by (simp add: decompress_def decompress_field_refines decompress_stream_refines
        configured_stream_def decompress_bind_def decompress_run_def stream_open_def
        zfp_stream_set_bit_stream_def zfp_stream_rewind_def bound_bits_def zfp_decompress_def
        bind_n_def alloc_def store_def get_as_def release_def Let_def fun_eq_iff
        decompress_leak_def split: option.split)
qed

lemma decompress_exec_covered:
  assumes "wf_heap h" and "holds_array h out ys" and "holds_buffer h b bs"
    and "0 \<notin> set (arr_shape out)" and "engine_decodes_field e"
  shows "decompress e b out m r p t h =
    (let fld = resolved_field out; pol = mode_policy m r p t
     in case eng_decode e pol fld (stream_view b bs) of
          None \<Rightarrow> (Inl (Runtime_error ''decompression failed''), decompress_leak h fld pol b)
        | Some vs \<Rightarrow> (Inr (), h\<lparr>objs := (objs h)(arr_data out \<mapsto> Obj_floats vs),
                                fresh := fresh h + 3\<rparr>))"
proof -
  have size: "field_values (resolved_field out) = length ys"
    using assms(2,4) by (simp add: holds_array_def resolved_field_covers)
  have len: "length vs = length ys"
    if "eng_decode e (mode_policy m r p t) (resolved_field out) (stream_view b bs) = Some vs" for vs
    using engine_decodes_fieldD [OF assms(5) that] size by simp
  show ?thesis
    using decompress_exec [OF assms(1), of out ys b bs e m r p t] assms(2,3) len size
    by (simp add: holds_array_def holds_buffer_def stream_view_def Let_def split: option.split)
qed

lemma decompress_preserves: "preserves_wf (decompress e b out m r p t)"
  unfolding decompress_def decompress_field_refines decompress_stream_refines decompress_bind_def
    decompress_run_def
  by (intro wf_intros)

lemma dscenario_facts:
  "wf_heap dscenario_heap"
  "holds_array dscenario_heap scenario_array [0, 0, 0, 0, 0, 0]"
  "holds_buffer dscenario_heap dscenario_buffer [1, 1, 2, 3, 4, 5, 6]"
  by (simp_all add: wf_heap_def holds_array_def holds_buffer_def request_size_def)

subsection \<open>Properties\<close>

text \<open>
  C6. Functional correctness of the decoder: on a live destination with
  positive extents and a live buffer, \<open>decompress\<close> succeeds exactly when the
  engine decodes the bytes the stream exposes under the destination's geometry
  and the selected policy, and throws \<open>decompression failed\<close> otherwise.
\<close>

theorem decompress_refines_spec:
  assumes "wf_heap h" and "holds_array h out ys" and "holds_buffer h b bs"
    and "0 \<notin> set (arr_shape out)" and "engine_decodes_field e"
  shows "fst (decompress e b out m rate precision tolerance h) =
         decompress_spec e b bs out m rate precision tolerance"
  using decompress_exec_covered [OF assms, of m rate precision tolerance]
  by (simp add: decompress_spec_def Let_def split: option.split)

theorem decompress_refines_spec_witness:
  "fst (decompress mock_engine dscenario_buffer scenario_array FixedAccuracy 8 8 (1 / 1000) dscenario_heap) =
     decompress_spec mock_engine dscenario_buffer [1, 1, 2, 3, 4, 5, 6] scenario_array
       FixedAccuracy 8 8 (1 / 1000) \<and>
   decompress_spec mock_engine dscenario_buffer [1, 1, 2, 3, 4, 5, 6] scenario_array
       FixedAccuracy 8 8 (1 / 1000) = Inr ()"
  using decompress_refines_spec [OF dscenario_facts scenario_positive mock_engine_decodes_field]
  by (simp add: decompress_spec_def stream_view_def resolved_field_cases field_values_dims)

text \<open>
  C7. A successful \<open>decompress\<close> writes exactly the decoded values into the
  destination's storage and changes nothing else: every native object it
  allocated is released and all other memory is as before.
\<close>

theorem decompress_success_writes:
  assumes "wf_heap h" and "holds_array h out ys" and "holds_buffer h b bs"
    and "0 \<notin> set (arr_shape out)" and "engine_decodes_field e"
    and "decompress e b out m rate precision tolerance h = (Inr (), h')"
  shows "\<exists>vs. eng_decode e (mode_policy m rate precision tolerance) (resolved_field out) (stream_view b bs) =
               Some vs \<and> objs h' = (objs h)(arr_data out \<mapsto> Obj_floats vs)"
  using decompress_exec_covered [OF assms(1-5), of m rate precision tolerance] assms(6)
  by (auto simp: Let_def split: option.splits)

theorem decompress_success_writes_witness:
  "decompress mock_engine dscenario_buffer scenario_array FixedAccuracy 8 8 (1 / 1000) dscenario_heap =
     (Inr (), dscenario_heap\<lparr>objs := (objs dscenario_heap)(0 \<mapsto> Obj_floats [1, 2, 3, 4, 5, 6]),
                              fresh := 5\<rparr>) \<and>
   eng_decode mock_engine (mode_policy FixedAccuracy 8 8 (1 / 1000)) (resolved_field scenario_array)
     (stream_view dscenario_buffer [1, 1, 2, 3, 4, 5, 6]) = Some [1, 2, 3, 4, 5, 6]"
proof -
  have run: "decompress mock_engine dscenario_buffer scenario_array FixedAccuracy 8 8 (1 / 1000) dscenario_heap =
     (Inr (), dscenario_heap\<lparr>objs := (objs dscenario_heap)(0 \<mapsto> Obj_floats [1, 2, 3, 4, 5, 6]),
                              fresh := 5\<rparr>)"
    using decompress_exec_covered [OF dscenario_facts scenario_positive mock_engine_decodes_field]
    by (simp add: stream_view_def resolved_field_cases field_values_dims)
  show ?thesis
    using decompress_success_writes [OF dscenario_facts scenario_positive mock_engine_decodes_field run]
      run by (simp add: stream_view_def resolved_field_cases field_values_dims)
qed

text \<open>
  C8. The failure exit leaks (spec 4.4 step 4 requires the release first): when
  the engine reports failure, \<open>decompress\<close> throws \<open>decompression failed\<close>
  before releasing anything, so the field descriptor, the zfp stream and the bit
  stream stay allocated; the destination is left as it was.
\<close>

theorem decompress_failure_leaks:
  assumes "wf_heap h" and "holds_array h out ys" and "holds_buffer h b bs"
    and "0 \<notin> set (arr_shape out)" and "engine_decodes_field e"
    and "decompress e b out m rate precision tolerance h = (Inl err, h')"
  shows "err = Runtime_error ''decompression failed'' \<and>
         dom (objs h') = dom (objs h) \<union> {fresh h, fresh h + 1, fresh h + 2} \<and>
         fresh h \<notin> dom (objs h) \<and> fresh h + 1 \<notin> dom (objs h) \<and> fresh h + 2 \<notin> dom (objs h) \<and>
         objs h' (arr_data out) = objs h (arr_data out)"
proof -
  have new: "objs h (fresh h + k) = None" for k
    using wf_heap_above [OF assms(1)] by simp
  have below: "arr_data out < fresh h"
    using assms(1,2) by (auto simp: holds_array_def intro: wf_heap_live_below)
  from decompress_exec_covered [OF assms(1-5), of m rate precision tolerance] assms(6)
  have "err = Runtime_error ''decompression failed''"
    and "h' = decompress_leak h (resolved_field out) (mode_policy m rate precision tolerance) b"
    by (simp_all add: Let_def split: option.splits)
  then show ?thesis
    using new [of 0] new [of 1] new [of 2] below
    by (auto simp: decompress_leak_def Let_def)
qed

theorem decompress_failure_leaks_witness:
  "decompress silent_engine dscenario_buffer scenario_array FixedPrecision 8 8 (1 / 1000) dscenario_heap =
     (Inl (Runtime_error ''decompression failed''),
      decompress_leak dscenario_heap (resolved_field scenario_array)
        (mode_policy FixedPrecision 8 8 (1 / 1000)) dscenario_buffer) \<and>
   dom (objs (decompress_leak dscenario_heap (resolved_field scenario_array)
                (mode_policy FixedPrecision 8 8 (1 / 1000)) dscenario_buffer)) = {0, 1} \<union> {2, 3, 4}"
proof -
  have run: "decompress silent_engine dscenario_buffer scenario_array FixedPrecision 8 8 (1 / 1000) dscenario_heap =
     (Inl (Runtime_error ''decompression failed''),
      decompress_leak dscenario_heap (resolved_field scenario_array)
        (mode_policy FixedPrecision 8 8 (1 / 1000)) dscenario_buffer)"
    using decompress_exec_covered [OF dscenario_facts scenario_positive silent_engine_decodes_field]
    by simp
  have "dom (objs (decompress_leak dscenario_heap (resolved_field scenario_array)
                (mode_policy FixedPrecision 8 8 (1 / 1000)) dscenario_buffer)) =
        dom (objs dscenario_heap) \<union> {fresh dscenario_heap, fresh dscenario_heap + 1, fresh dscenario_heap + 2}"
    using decompress_failure_leaks [OF dscenario_facts scenario_positive silent_engine_decodes_field run]
    by (elim conjE)
  then show ?thesis using run by (simp add: insert_commute)
qed

text \<open>
  C9. Decoding into an empty destination of rank 2 to 4 whose innermost extent
  is positive writes outside its storage: zfp sees a nonempty lower-dimensional
  field, and as soon as the engine decodes anything the write overflows the
  numpy buffer.
\<close>

theorem decompress_zero_extent_overflows:
  assumes "wf_heap h" and "holds_array h out ys" and "holds_buffer h b bs"
    and "length (arr_shape out) \<in> {2, 3, 4}" and "0 < last (arr_shape out)" and "0 \<in> set (arr_shape out)"
    and "eng_decode e (mode_policy m rate precision tolerance) (resolved_field out) (stream_view b bs) = Some vs"
  shows "fst (decompress e b out m rate precision tolerance h) = Inl (Fault (Write_out_of_bounds (arr_data out)))"
proof -
  from resolved_field_overruns_empty [OF assms(4-6)] assms(2)
  have "length ys < field_values (resolved_field out)"
    by (simp add: holds_array_def)
  with decompress_exec [OF assms(1), of out ys b bs e m rate precision tolerance] assms(2,3,7)
  show ?thesis by (simp add: holds_array_def holds_buffer_def stream_view_def Let_def)
qed

theorem decompress_zero_extent_overflows_witness:
  "fst (decompress mock_engine \<lparr>buf_ptr = 1, buf_size = 6, buf_itemsize = 1\<rparr>
          \<lparr>arr_shape = [0, 5], arr_data = 0\<rparr> FixedRate 8 8 (1 / 1000)
          (\<lparr>objs = [0 \<mapsto> Obj_floats [], 1 \<mapsto> Obj_chars [1, 9, 9, 9, 9, 9]], fresh = 2\<rparr> :: nat heap)) =
     Inl (Fault (Write_out_of_bounds 0))"
proof -
  have wf: "wf_heap (\<lparr>objs = [0 \<mapsto> Obj_floats [], 1 \<mapsto> Obj_chars [1, 9, 9, 9, 9, 9]], fresh = 2\<rparr> :: nat heap)"
    by (simp add: wf_heap_def)
  have arr: "holds_array (\<lparr>objs = [0 \<mapsto> Obj_floats [], 1 \<mapsto> Obj_chars [1, 9, 9, 9, 9, 9]], fresh = 2\<rparr> :: nat heap)
               \<lparr>arr_shape = [0, 5], arr_data = 0\<rparr> []"
    by (simp add: holds_array_def request_size_def)
  have buf: "holds_buffer (\<lparr>objs = [0 \<mapsto> Obj_floats [], 1 \<mapsto> Obj_chars [1, 9, 9, 9, 9, 9]], fresh = 2\<rparr> :: nat heap)
               \<lparr>buf_ptr = 1, buf_size = 6, buf_itemsize = 1\<rparr> [1, 9, 9, 9, 9, 9]"
    by (simp add: holds_buffer_def)
  have dec: "eng_decode mock_engine (mode_policy FixedRate 8 8 (1 / 1000))
               (resolved_field \<lparr>arr_shape = [0, 5], arr_data = 0\<rparr>)
               (stream_view \<lparr>buf_ptr = 1, buf_size = 6, buf_itemsize = 1\<rparr> [1, 9, 9, 9, 9, 9]) =
             Some [9, 9, 9, 9, 9]"
    by (simp add: stream_view_def resolved_field_cases field_values_dims)
  show ?thesis
    using decompress_zero_extent_overflows [OF wf arr buf _ _ _ dec] by simp
qed

text \<open>
  C10. The decoder, like the encoder, consults only the parameter its mode
  selects.
\<close>

theorem decompress_ignores_unselected:
  "decompress e b out FixedRate rate precision tolerance =
     decompress e b out FixedRate rate precision' tolerance' \<and>
   decompress e b out FixedPrecision rate precision tolerance =
     decompress e b out FixedPrecision rate' precision tolerance' \<and>
   decompress e b out FixedAccuracy rate precision tolerance =
     decompress e b out FixedAccuracy rate' precision' tolerance"
  by (simp add: decompress_def decompress_stream_refines configured_stream_def mode_policy_def)

end
