(* ===== verification/Bindings.thy ===== *)
theory Bindings
  imports Compress Decompress
begin

text \<open>
  The two functions as pybind11 calls them, with their array parameters passed
  by value, and the enum's Python names. A \<open>py::array_t<float,
  py::array::c_style>\<close> parameter (no \<open>forcecast\<close>) accepts a numpy array
  only if numpy can convert it to float32 with a safe cast: a float64 array is
  refused by the caster, which makes the call a \<open>TypeError\<close> (\<open>cast_arg\<close>,
  theory \<open>Py_Call\<close>). A float32 array that is not C-contiguous is accepted and
  copied into a fresh C-contiguous temporary (\<open>array_t::ensure\<close>), which the
  call then reads or writes, and which is destroyed with the parameter when the
  call returns or throws. For \<open>compress\<close> the copy is harmless; for
  \<open>decompress\<close> the decoded values go into the temporary and the caller's
  array is never written.
\<close>

datatype dtype = Float32 | Float64

text \<open>A numpy array as Python holds it, before pybind11's conversion.\<close>

record py_ndarray =
  nd_dtype :: dtype
  nd_c_contiguous :: bool
  nd_shape :: "nat list"
  nd_data :: handle

text \<open>
  pybind11's conversion of a float32 array accepted by the caster into the
  \<open>array_t<float, c_style>\<close> parameter: the array itself when it is
  C-contiguous, a C-contiguous copy otherwise; the flag records that the
  argument is a temporary.
\<close>

definition array_t_cast :: "py_ndarray \<Rightarrow> ('v, np_array \<times> bool) native" where
  "array_t_cast a =
     (if nd_c_contiguous a
      then ret (\<lparr>arr_shape = nd_shape a, arr_data = nd_data a\<rparr>, False)
      else bind_n (get_as as_floats (nd_data a)) (\<lambda>xs.
           bind_n (alloc (Obj_floats xs)) (\<lambda>p. ret (\<lparr>arr_shape = nd_shape a, arr_data = p\<rparr>, True))))"

text \<open>The converted argument is released when the call ends.\<close>

definition drop_arg :: "np_array \<times> bool \<Rightarrow> ('v, unit) native" where
  "drop_arg arg = (if snd arg then release as_floats (arr_data (fst arg)) else ret ())"

text \<open>module.cpp lines 128-131: the enum's Python names.\<close>

definition compression_mode_values :: "(string \<times> CompressionMode) list" where
  "compression_mode_values =
     [(''FixedRate'', FixedRate), (''FixedPrecision'', FixedPrecision), (''FixedAccuracy'', FixedAccuracy)]"

text \<open>
  module.cpp lines 26-27: \<open>compress\<close> entered through its by-value
  \<open>array_t\<close> parameter, converted on entry and destroyed on both exits.
\<close>

definition py_compress ::
  "'v engine \<Rightarrow> py_ndarray \<Rightarrow> CompressionMode \<Rightarrow> real \<Rightarrow> 32 word \<Rightarrow> real \<Rightarrow> ('v, byte list) native" where
  "py_compress e input compression_mode rate precision tolerance =
     bind_n (array_t_cast input) (\<lambda>arg.
       finally_n (compress e (fst arg) compression_mode rate precision tolerance) (drop_arg arg))"

text \<open>module.cpp lines 72-74: \<open>decompress\<close> entered through its by-value \<open>array_t\<close> parameter \<open>out\<close>.\<close>

definition py_decompress ::
  "'v engine \<Rightarrow> py_buffer \<Rightarrow> py_ndarray \<Rightarrow> CompressionMode \<Rightarrow> real \<Rightarrow> 32 word \<Rightarrow> real \<Rightarrow>
   ('v, unit) native" where
  "py_decompress e compressed_bytes out compression_mode rate precision tolerance =
     bind_n (array_t_cast out) (\<lambda>arg.
       finally_n (decompress e compressed_bytes (fst arg) compression_mode rate precision tolerance)
         (drop_arg arg))"

subsection \<open>Execution\<close>

lemma finally_n_apply:
  "m h = (r, h') \<Longrightarrow> c h' = (Inr (), h'') \<Longrightarrow> finally_n m c h = (r, h'')"
  by (simp add: finally_n_def)

lemma array_t_cast_direct:
  "nd_c_contiguous a \<Longrightarrow>
   array_t_cast a h = (Inr (\<lparr>arr_shape = nd_shape a, arr_data = nd_data a\<rparr>, False), h)"
  by (simp add: array_t_cast_def)

lemma array_t_cast_copy:
  "\<not> nd_c_contiguous a \<Longrightarrow> objs h (nd_data a) = Some (Obj_floats xs) \<Longrightarrow>
   array_t_cast a h = (Inr (\<lparr>arr_shape = nd_shape a, arr_data = fresh h\<rparr>, True),
                       h\<lparr>objs := (objs h)(fresh h \<mapsto> Obj_floats xs), fresh := Suc (fresh h)\<rparr>)"
  by (simp add: array_t_cast_def bind_n_def get_as_def alloc_def)

lemma finally_n_ret [simp]: "finally_n m (ret ()) = m"
  by (simp add: finally_n_def fun_eq_iff split: prod.split sum.split)

lemma py_args_direct:
  "nd_c_contiguous a \<Longrightarrow>
   bind_n (array_t_cast a) (\<lambda>arg. finally_n (f (fst arg)) (drop_arg arg)) =
   f \<lparr>arr_shape = nd_shape a, arr_data = nd_data a\<rparr>"
  by (simp add: fun_eq_iff bind_n_def array_t_cast_direct drop_arg_def)

lemma holds_array_cast_copy:
  assumes "wf_heap h" and "objs h (nd_data a) = Some (Obj_floats xs)"
  shows "holds_array (h\<lparr>objs := (objs h)(fresh h \<mapsto> Obj_floats xs), fresh := Suc (fresh h)\<rparr>)
           \<lparr>arr_shape = nd_shape a, arr_data = fresh h\<rparr> xs \<longleftrightarrow> length xs = prod_list (nd_shape a)"
  by (simp add: holds_array_def request_size_def)

lemma wf_heap_cast_copy:
  "wf_heap h \<Longrightarrow> wf_heap (h\<lparr>objs := (objs h)(fresh h \<mapsto> x), fresh := Suc (fresh h)\<rparr>)"
  using preserves_wfD [OF preserves_wf_alloc, of h x] by (simp add: alloc_def)

end
