(* ===== verification/Py_Call.thy ===== *)
theory Py_Call
  imports Bindings "HOL-Library.AList"
begin

text \<open>
  How Python reaches the two C++ functions: pybind11's dispatcher (pybind11
  \<open>cpp_function::dispatcher\<close>, not part of this repository). A call brings
  positional arguments and a dictionary of keyword arguments; the dispatcher
  binds them to the parameter names and defaults given to \<open>m.def\<close>
  (\<open>bind_args\<close>), converts each bound value with the caster of the C++
  parameter type (\<open>cast_arg\<close>), and reports every failure of either step as one
  \<open>TypeError\<close> (incompatible function arguments). A C++ exception leaving the
  function is translated into a Python exception (\<open>py_result\<close>):
  \<open>std::runtime_error\<close> becomes \<open>RuntimeError\<close> with the same message.
\<close>

subsection \<open>Python values and exceptions\<close>

text \<open>
  The Python values the model passes: numpy arrays, objects exporting a byte
  buffer (\<open>bytes\<close>, \<open>bytearray\<close>, \<open>memoryview\<close>), members of the
  \<open>CompressionMode\<close> enum, floats, ints and \<open>None\<close>.
\<close>

datatype pyval =
    PyArray py_ndarray
  | PyBuffer py_buffer
  | PyMode CompressionMode
  | PyFloat real
  | PyInt int
  | PyNone

text \<open>
  \<open>Native_fault\<close> marks undefined behaviour in the C++ code (no Python
  exception is guaranteed then); \<open>Not_modelled\<close> marks a conversion whose
  outcome depends on numpy or on the Python version and is left open.
\<close>

datatype py_exc =
    TypeError string
  | RuntimeError string
  | AttributeError string
  | Native_fault fault
  | Not_modelled string

type_synonym 'v py_comp = "'v heap \<Rightarrow> (py_exc + pyval) \<times> 'v heap"

text \<open>Parameter names with their defaults, as \<open>"name"_a = default\<close> gives them.\<close>

type_synonym signature = "(string \<times> pyval option) list"

subsection \<open>Argument binding\<close>

text \<open>
  The dispatcher first copies the positional arguments (failing when there are
  more than parameters, or when a keyword names a parameter already given by
  position), then fills each remaining parameter from the keywords, consuming
  the keyword, or else from its default (failing when there is neither), and
  finally fails when a keyword is left unconsumed.
\<close>

fun bind_args :: "signature \<Rightarrow> pyval list \<Rightarrow> (string \<times> pyval) list \<Rightarrow> pyval list option" where
  "bind_args [] [] kw = (if kw = [] then Some [] else None)"
| "bind_args [] (_ # _) kw = None"
| "bind_args ((n, d) # ps) (a # args) kw =
     (if map_of kw n \<noteq> None then None else map_option (Cons a) (bind_args ps args kw))"
| "bind_args ((n, d) # ps) [] kw =
     (case map_of kw n of
        Some v \<Rightarrow> map_option (Cons v) (bind_args ps [] (AList.delete n kw))
      | None \<Rightarrow> (case d of Some v \<Rightarrow> map_option (Cons v) (bind_args ps [] kw) | None \<Rightarrow> None))"

subsection \<open>Argument conversion\<close>

text \<open>The C++ parameter types of the two functions and the values their casters produce.\<close>

datatype param_type = P_array | P_buffer | P_mode | P_double | P_uint

datatype carg =
    CArray py_ndarray
  | CBuffer py_buffer
  | CMode CompressionMode
  | CDouble real
  | CUInt "32 word"

datatype cast = Cast carg | Cast_fail | Cast_open

text \<open>
  The casters: \<open>array_t<float, c_style>\<close>, declared without
  \<open>forcecast\<close>, takes a float32 numpy array (a non-contiguous one is copied
  later, \<open>array_t_cast\<close>) and refuses a float64 one, which numpy cannot cast
  to float32 safely; \<open>py::buffer\<close> takes any buffer exporter
  and refuses numbers, enums and \<open>None\<close>; the enum caster takes only members of
  the enum; the \<open>double\<close> caster takes floats and ints and refuses \<open>None\<close> and
  byte buffers; the \<open>unsigned int\<close> caster refuses floats and takes an int only
  in \<open>[0, 2 ^ 32)\<close>. Conversions through \<open>__index__\<close>, \<open>__float__\<close> or
  numpy's \<open>asarray\<close> are left open.
\<close>

fun cast_arg :: "param_type \<Rightarrow> pyval \<Rightarrow> cast" where
  "cast_arg P_array (PyArray a) = (if nd_dtype a = Float32 then Cast (CArray a) else Cast_fail)"
| "cast_arg P_array _ = Cast_open"
| "cast_arg P_buffer (PyBuffer b) = Cast (CBuffer b)"
| "cast_arg P_buffer (PyArray _) = Cast_open"
| "cast_arg P_buffer _ = Cast_fail"
| "cast_arg P_mode (PyMode m) = Cast (CMode m)"
| "cast_arg P_mode PyNone = Cast_open"
| "cast_arg P_mode _ = Cast_fail"
| "cast_arg P_double (PyFloat r) = Cast (CDouble r)"
| "cast_arg P_double (PyInt i) = Cast (CDouble (of_int i))"
| "cast_arg P_double (PyMode _) = Cast_open"
| "cast_arg P_double (PyArray _) = Cast_open"
| "cast_arg P_double _ = Cast_fail"
| "cast_arg P_uint (PyInt i) = (if 0 \<le> i \<and> i < 2 ^ 32 then Cast (CUInt (word_of_int i)) else Cast_fail)"
| "cast_arg P_uint (PyMode _) = Cast_open"
| "cast_arg P_uint (PyArray _) = Cast_open"
| "cast_arg P_uint _ = Cast_fail"

text \<open>
  All arguments are loaded before the call; one failing caster makes the call a
  \<open>TypeError\<close> whatever the others do.
\<close>

definition cast_all :: "param_type list \<Rightarrow> pyval list \<Rightarrow> py_exc + carg list" where
  "cast_all ps vs =
     (let cs = map2 cast_arg ps vs
      in if length ps \<noteq> length vs \<or> Cast_fail \<in> set cs
         then Inl (TypeError ''incompatible function arguments'')
         else case those (map (\<lambda>c. case c of Cast a \<Rightarrow> Some a | _ \<Rightarrow> None) cs) of
                None \<Rightarrow> Inl (Not_modelled ''argument conversion'')
              | Some args \<Rightarrow> Inr args)"

subsection \<open>Exception translation\<close>

definition py_result :: "('v, pyval) native \<Rightarrow> 'v py_comp" where
  "py_result m h =
     (case m h of
        (Inl (Runtime_error msg), h') \<Rightarrow> (Inl (RuntimeError msg), h')
      | (Inl (Fault f), h') \<Rightarrow> (Inl (Native_fault f), h')
      | (Inr v, h') \<Rightarrow> (Inr v, h'))"

subsection \<open>Binding lemmas\<close>

lemma map_of_empty_Nil: "map_of kw = Map.empty \<Longrightarrow> kw = []"
  by (cases kw) (auto simp: fun_eq_iff split: if_splits)

lemma map_of_zip_drop_Suc:
  "map_of (zip (drop (Suc k) (n # ns)) (drop (Suc k) (v # vs))) = map_of (zip (drop k ns) (drop k vs))"
  by simp

text \<open>
  Binding by keyword and by position agree: whatever prefix of the arguments is
  given by position and whatever dictionary holds the rest by name, the
  parameters receive the same values.
\<close>

lemma bind_args_split:
  assumes "distinct (map fst sig)" and "length vs = length sig" and "k \<le> length sig"
    and "distinct (map fst kw)" and "map_of kw = map_of (zip (drop k (map fst sig)) (drop k vs))"
  shows "bind_args sig (take k vs) kw = Some vs"
  using assms
proof (induction sig arbitrary: vs k kw)
  case Nil
  then show ?case by (simp add: map_of_empty_Nil)
next
  case (Cons p ps)
  obtain n d where p: "p = (n, d)" by fastforce
  from Cons.prems obtain v vs' where vs: "vs = v # vs'" by (cases vs) auto
  have n_notin: "n \<notin> set (map fst ps)" using Cons.prems(1) p by simp
  show ?case
  proof (cases k)
    case 0
    have kw_n: "map_of kw n = Some v" using Cons.prems(5) 0 p vs by simp
    have "map_of (zip (map fst ps) vs') n = None"
      using n_notin by (auto simp: map_of_eq_None_iff dest: set_zip_leftD)
    then have "map_of (AList.delete n kw) = map_of (zip (map fst ps) vs')"
      using Cons.prems(5) 0 p vs by (simp add: delete_conv' fun_eq_iff)
    then have "bind_args ps (take 0 vs') (AList.delete n kw) = Some vs'"
      using Cons.IH [of vs' 0 "AList.delete n kw"] Cons.prems(1,2,4) p vs
      by (simp add: distinct_delete)
    then show ?thesis using 0 p vs kw_n by simp
  next
    case (Suc k')
    have "n \<notin> set (drop k' (map fst ps))" using n_notin by (auto dest: in_set_dropD)
    then have "map_of (zip (drop k' (map fst ps)) (drop k' vs')) n = None"
      by (auto simp: map_of_eq_None_iff dest: set_zip_leftD)
    then have "map_of kw n = None" using Cons.prems(5) Suc p vs by simp
    moreover have "bind_args ps (take k' vs') kw = Some vs'"
      using Cons.IH [of vs' k' kw] Cons.prems p vs Suc by simp
    ultimately show ?thesis using Suc p vs by simp
  qed
qed

end
