(* ===== verification/Module.thy ===== *)
theory Module
  imports Py_Call
begin

text \<open>
  The extension module as Python imports it (module.cpp lines 112-158):
  \<open>import_numpy\<close>, the initialisation \<open>PYBIND11_MODULE(zfp, m)\<close> that fills the
  module's namespace, and a call of one of its attributes from Python
  (\<open>module_call\<close>): lookup of the attribute, pybind11's binding and conversion
  of the arguments against the parameter names of \<open>m.def\<close> and the C++
  parameter types of \<open>compress\<close> and \<open>decompress\<close>, the call, and the
  conversion of the result (\<open>py::bytes\<close> becomes a Python \<open>bytes\<close> object,
  modelled as a fresh byte block exporting its buffer; \<open>void\<close> becomes
  \<open>None\<close>).
\<close>

subsection \<open>Initialisation\<close>

text \<open>The interpreter's error indicator, the only interpreter state initialisation touches.\<close>

record py_state =
  py_err :: "string option"

text \<open>
  module.cpp lines 112-117. numpy's \<open>import_array1(false)\<close> returns \<open>false\<close>
  from the enclosing function when numpy's C API cannot be imported, after
  setting an \<open>ImportError\<close>.
\<close>

definition import_numpy :: "bool \<Rightarrow> py_state \<Rightarrow> bool \<times> py_state" where
  "import_numpy numpy_ok s =
     (if numpy_ok then (True, s)
      else (False, s\<lparr>py_err := Some ''ImportError: numpy.core.multiarray failed to import''\<rparr>))"

datatype cxx_fn = Fn_compress | Fn_decompress

datatype attr =
    Attr_enum "(string \<times> CompressionMode) list"
  | Attr_function cxx_fn string signature  \<comment> \<open>the C++ function, its docstring, its parameters\<close>
  | Attr_str string

record py_module =
  mod_doc :: string
  mod_attrs :: "(string \<times> attr) list"

text \<open>The C++ parameter types of \<open>compress\<close> (lines 26-27) and \<open>decompress\<close> (lines 72-78).\<close>

definition compress_params :: "param_type list" where
  "compress_params = [P_array, P_mode, P_double, P_uint, P_double]"

definition decompress_params :: "param_type list" where
  "decompress_params = [P_buffer, P_array, P_mode, P_double, P_uint, P_double]"

text \<open>The parameter names and defaults of lines 138-142 and 149-154.\<close>

definition compress_signature :: signature where
  "compress_signature =
     [(''input'', None), (''compression_mode'', None), (''rate'', Some (PyFloat 8)),
      (''precision'', Some (PyInt 8)), (''tolerance'', Some (PyFloat (1 / 1000)))]"

definition decompress_signature :: signature where
  "decompress_signature =
     [(''compressed_bytes'', None), (''out'', None), (''compression_mode'', None),
      (''rate'', Some (PyFloat 8)), (''precision'', Some (PyInt 8)), (''tolerance'', Some (PyFloat (1 / 1000)))]"

text \<open>
  module.cpp lines 120-158. The result of \<open>import_numpy()\<close> is discarded. The
  enum's members are attributes of \<open>CompressionMode\<close>, not of the module
  (there is no \<open>export_values()\<close>). \<open>__version__\<close> exists only when the
  build defines \<open>VERSION_INFO\<close>.
\<close>

definition pyzfp_module :: "bool \<Rightarrow> string option \<Rightarrow> py_state \<Rightarrow> py_module \<times> py_state" where
  "pyzfp_module numpy_ok version_info s =
     (let (_, s) = import_numpy numpy_ok s;
          m = \<lparr>mod_doc = '''', mod_attrs = []\<rparr>;
          m = m\<lparr>mod_doc := ''Zfp compression''\<rparr>;
          m = m\<lparr>mod_attrs := AList.update ''CompressionMode'' (Attr_enum compression_mode_values) (mod_attrs m)\<rparr>;
          compress_docstring = ''Compress a float array using zfp'';
          m = m\<lparr>mod_attrs := AList.update ''compress''
                  (Attr_function Fn_compress compress_docstring compress_signature) (mod_attrs m)\<rparr>;
          decompress_docstring = ''Decompress some bytes into a float array'';
          m = m\<lparr>mod_attrs := AList.update ''decompress''
                  (Attr_function Fn_decompress decompress_docstring decompress_signature) (mod_attrs m)\<rparr>;
          m = (case version_info of None \<Rightarrow> m
               | Some v \<Rightarrow> m\<lparr>mod_attrs := AList.update ''__version__'' (Attr_str v) (mod_attrs m)\<rparr>)
      in (m, s))"

subsection \<open>Calls from Python\<close>

text \<open>A float32 C-contiguous numpy array, as \<open>array_t\<close> passes it on unchanged.\<close>

abbreviation nd_view :: "py_ndarray \<Rightarrow> np_array" where
  "nd_view x \<equiv> \<lparr>arr_shape = nd_shape x, arr_data = nd_data x\<rparr>"

text \<open>
  pybind11's call of \<open>compress\<close> with converted arguments; the returned
  \<open>py::bytes\<close> is a new \<open>bytes\<close> object holding the compressed stream.
\<close>

definition call_compress ::
  "'v engine \<Rightarrow> py_ndarray \<Rightarrow> CompressionMode \<Rightarrow> real \<Rightarrow> 32 word \<Rightarrow> real \<Rightarrow> 'v py_comp" where
  "call_compress e input m rate precision tolerance =
     py_result (bind_n (py_compress e input m rate precision tolerance) (\<lambda>out.
                bind_n (alloc (Obj_chars out)) (\<lambda>q.
                ret (PyBuffer \<lparr>buf_ptr = q, buf_size = length out, buf_itemsize = 1\<rparr>))))"

definition call_decompress ::
  "'v engine \<Rightarrow> py_buffer \<Rightarrow> py_ndarray \<Rightarrow> CompressionMode \<Rightarrow> real \<Rightarrow> 32 word \<Rightarrow> real \<Rightarrow> 'v py_comp" where
  "call_decompress e b out m rate precision tolerance =
     py_result (bind_n (py_decompress e b out m rate precision tolerance) (\<lambda>_.
                ret PyNone))"

text \<open>
  The C++ function behind an attribute, called with the converted arguments;
  converted arguments of other types cannot arise, as \<open>cast_all\<close> converts
  by the parameter types.
\<close>

definition call_cxx :: "'v engine \<Rightarrow> cxx_fn \<Rightarrow> carg list \<Rightarrow> 'v py_comp" where
  "call_cxx e f cs =
     (case (f, cs) of
        (Fn_compress, [CArray a, CMode m, CDouble r, CUInt p, CDouble t]) \<Rightarrow> call_compress e a m r p t
      | (Fn_decompress, [CBuffer b, CArray a, CMode m, CDouble r, CUInt p, CDouble t]) \<Rightarrow>
          call_decompress e b a m r p t
      | _ \<Rightarrow> (\<lambda>h. (Inl (TypeError ''incompatible function arguments''), h)))"

definition module_call ::
  "'v engine \<Rightarrow> py_module \<Rightarrow> string \<Rightarrow> pyval list \<Rightarrow> (string \<times> pyval) list \<Rightarrow> 'v py_comp" where
  "module_call e md name args kwargs h =
     (case map_of (mod_attrs md) name of
        None \<Rightarrow> (Inl (AttributeError name), h)
      | Some (Attr_enum _) \<Rightarrow> (Inl (Not_modelled ''call of the enum type''), h)
      | Some (Attr_str _) \<Rightarrow> (Inl (TypeError ''object is not callable''), h)
      | Some (Attr_function f doc sig) \<Rightarrow>
          (case bind_args sig args kwargs of
             None \<Rightarrow> (Inl (TypeError ''incompatible function arguments''), h)
           | Some vs \<Rightarrow>
               (case cast_all (case f of Fn_compress \<Rightarrow> compress_params
                               | Fn_decompress \<Rightarrow> decompress_params) vs of
                  Inl exc \<Rightarrow> (Inl exc, h)
                | Inr cs \<Rightarrow> call_cxx e f cs h)))"

subsection \<open>The module's namespace\<close>

lemma pyzfp_module_attrs:
  "mod_attrs (fst (pyzfp_module numpy_ok version_info s)) =
     [(''CompressionMode'', Attr_enum compression_mode_values),
      (''compress'', Attr_function Fn_compress ''Compress a float array using zfp'' compress_signature),
      (''decompress'', Attr_function Fn_decompress ''Decompress some bytes into a float array''
         decompress_signature)] @
     (case version_info of None \<Rightarrow> [] | Some v \<Rightarrow> [(''__version__'', Attr_str v)])"
  by (simp add: pyzfp_module_def import_numpy_def split: option.split)

lemma pyzfp_module_lookup [simp]:
  "map_of (mod_attrs (fst (pyzfp_module numpy_ok version_info s))) ''compress'' =
     Some (Attr_function Fn_compress ''Compress a float array using zfp'' compress_signature)"
  "map_of (mod_attrs (fst (pyzfp_module numpy_ok version_info s))) ''decompress'' =
     Some (Attr_function Fn_decompress ''Decompress some bytes into a float array'' decompress_signature)"
  by (simp_all add: pyzfp_module_attrs)

subsection \<open>Calls\<close>

lemma call_cxx_simps [simp]:
  "call_cxx e Fn_compress [CArray a, CMode m, CDouble r, CUInt p, CDouble t] = call_compress e a m r p t"
  "call_cxx e Fn_decompress [CBuffer b, CArray a, CMode m, CDouble r, CUInt p, CDouble t] =
     call_decompress e b a m r p t"
  by (simp_all add: call_cxx_def)

lemma compress_call_defaults:
  "nd_dtype x = Float32 \<Longrightarrow> module_call e (fst (pyzfp_module numpy_ok version_info s)) ''compress'' [PyArray x, PyMode m] [] h =
     call_compress e x m 8 8 (1 / 1000) h"
  by (simp add: module_call_def compress_signature_def cast_all_def compress_params_def)

lemma decompress_call_defaults:
  "nd_dtype y = Float32 \<Longrightarrow> module_call e (fst (pyzfp_module numpy_ok version_info s)) ''decompress''
     [PyBuffer b, PyArray y, PyMode m] [] h =
   call_decompress e b y m 8 8 (1 / 1000) h"
  by (simp add: module_call_def decompress_signature_def cast_all_def decompress_params_def)

lemma py_calls_direct:
  "nd_c_contiguous x \<Longrightarrow> py_compress e x m r p t = compress e (nd_view x) m r p t"
  "nd_c_contiguous x \<Longrightarrow> py_decompress e b x m r p t = decompress e b (nd_view x) m r p t"
   apply (simp add: py_compress_def py_args_direct [where f = "\<lambda>a. compress e a m r p t"])
  apply (simp add: py_decompress_def py_args_direct [where f = "\<lambda>a. decompress e b a m r p t"])
  done

lemma call_compress_exec:
  assumes "nd_dtype x = Float32" and "nd_c_contiguous x" and "wf_heap h" and "holds_array h (nd_view x) xs"
    and "0 \<notin> set (nd_shape x)" and "engine_fits e"
  shows "call_compress e x m r p t h =
    (let fld = resolved_field (nd_view x); pol = mode_policy m r p t; out = eng_encode e pol fld xs
     in if out = [] then (Inl (RuntimeError ''compression failed''),
                          compress_leak h fld pol (eng_max_size e pol fld))
        else (Inr (PyBuffer \<lparr>buf_ptr = fresh h + 4, buf_size = length out, buf_itemsize = 1\<rparr>),
              h\<lparr>objs := (objs h)(fresh h + 4 \<mapsto> Obj_chars out), fresh := fresh h + 5\<rparr>))"
  using compress_exec_covered [OF assms(3,4) _ assms(6), of m r p t] assms(1,2,5)
  by (simp add: call_compress_def py_calls_direct bind_n_def py_result_def alloc_def
      Let_def split: if_splits)

lemma call_decompress_exec:
  assumes "nd_dtype y = Float32" and "nd_c_contiguous y" and "wf_heap h" and "holds_array h (nd_view y) ys"
    and "holds_buffer h b bs" and "0 \<notin> set (nd_shape y)" and "engine_decodes_field e"
  shows "call_decompress e b y m r p t h =
    (let fld = resolved_field (nd_view y); pol = mode_policy m r p t
     in case eng_decode e pol fld (stream_view b bs) of
          None \<Rightarrow> (Inl (RuntimeError ''decompression failed''), decompress_leak h fld pol b)
        | Some vs \<Rightarrow> (Inr PyNone, h\<lparr>objs := (objs h)(nd_data y \<mapsto> Obj_floats vs), fresh := fresh h + 3\<rparr>))"
  using decompress_exec_covered [OF assms(3,4,5) _ assms(7), of m r p t] assms(1,2,6)
  by (simp add: call_decompress_def py_calls_direct bind_n_def py_result_def
      Let_def split: option.split)

text \<open>
  The conversion path: a float32 array that is not C-contiguous is copied into a
  fresh temporary at \<open>fresh h\<close>, the C++ function works on the temporary, and
  the temporary is released on both exits.
\<close>

lemma py_compress_copy:
  assumes nc: "\<not> nd_c_contiguous x" and wf: "wf_heap h" and arr: "objs h (nd_data x) = Some (Obj_floats xs)"
    and len: "length xs = prod_list (nd_shape x)" and pos: "0 \<notin> set (nd_shape x)"
    and fits: "engine_fits e" and geo: "engine_geometric e"
  shows "py_compress e x m r p t h =
    (let F = fresh h; pol = mode_policy m r p t; fld = resolved_field \<lparr>arr_shape = nd_shape x, arr_data = F\<rparr>;
         h2 = compress_leak (h\<lparr>objs := (objs h)(F \<mapsto> Obj_floats xs), fresh := Suc F\<rparr>) fld pol
                (eng_max_size e pol fld)
     in case compress_spec e (nd_view x) xs m r p t of
          Inl err \<Rightarrow> (Inl err, h2\<lparr>objs := (objs h2)(F := None)\<rparr>)
        | Inr out \<Rightarrow> (Inr out, h\<lparr>fresh := fresh h + 5\<rparr>))"
proof -
  let ?h1 = "h\<lparr>objs := (objs h)(fresh h \<mapsto> Obj_floats xs), fresh := Suc (fresh h)\<rparr>"
  let ?a = "\<lparr>arr_shape = nd_shape x, arr_data = fresh h\<rparr>"
  have wf1: "wf_heap ?h1" using wf by (rule wf_heap_cast_copy)
  have arr1: "holds_array ?h1 ?a xs" using holds_array_cast_copy [OF wf arr] len by simp
  have pos1: "0 \<notin> set (arr_shape ?a)" using pos by simp
  have fresh_none: "objs h (fresh h) = None" using wf_heap_above [OF wf] by simp
  have same: "eng_encode e pol (resolved_field ?a) = eng_encode e pol (resolved_field (nd_view x))" for pol
    using engine_geometricD(1) [OF geo] resolved_field_same_shape [of ?a "nd_view x"] by simp
  show ?thesis
    using compress_exec_covered [OF wf1 arr1 pos1 fits, of m r p t] fresh_none same
    by (auto simp: py_compress_def array_t_cast_copy [OF nc arr] bind_n_def finally_n_def
        drop_arg_def release_def get_as_def compress_spec_def compress_leak_def Let_def fun_eq_iff
        split: if_splits)
qed

lemma py_decompress_copy:
  assumes nc: "\<not> nd_c_contiguous y" and wf: "wf_heap h" and arr: "objs h (nd_data y) = Some (Obj_floats ys)"
    and len: "length ys = prod_list (nd_shape y)" and buf: "holds_buffer h b bs"
    and pos: "0 \<notin> set (nd_shape y)" and dec: "engine_decodes_field e" and geo: "engine_geometric e"
  shows "py_decompress e b y m r p t h =
    (let F = fresh h; pol = mode_policy m r p t; fld = resolved_field \<lparr>arr_shape = nd_shape y, arr_data = F\<rparr>;
         h2 = decompress_leak (h\<lparr>objs := (objs h)(F \<mapsto> Obj_floats ys), fresh := Suc F\<rparr>) fld pol b
     in case eng_decode e pol (resolved_field (nd_view y)) (stream_view b bs) of
          None \<Rightarrow> (Inl (Runtime_error ''decompression failed''), h2\<lparr>objs := (objs h2)(F := None)\<rparr>)
        | Some _ \<Rightarrow> (Inr (), h\<lparr>fresh := fresh h + 4\<rparr>))"
proof -
  let ?h1 = "h\<lparr>objs := (objs h)(fresh h \<mapsto> Obj_floats ys), fresh := Suc (fresh h)\<rparr>"
  let ?a = "\<lparr>arr_shape = nd_shape y, arr_data = fresh h\<rparr>"
  have wf1: "wf_heap ?h1" using wf by (rule wf_heap_cast_copy)
  have arr1: "holds_array ?h1 ?a ys" using holds_array_cast_copy [OF wf arr] len by simp
  have below: "buf_ptr b < fresh h"
    using buf wf by (auto simp: holds_buffer_def intro: wf_heap_live_below)
  have buf1: "holds_buffer ?h1 b bs" using buf below by (simp add: holds_buffer_def)
  have pos1: "0 \<notin> set (arr_shape ?a)" using pos by simp
  have fresh_none: "objs h (fresh h) = None" using wf_heap_above [OF wf] by simp
  have same: "eng_decode e pol (resolved_field ?a) = eng_decode e pol (resolved_field (nd_view y))" for pol
    using engine_geometricD(2) [OF geo] resolved_field_same_shape [of ?a "nd_view y"] by simp
  show ?thesis
    using decompress_exec_covered [OF wf1 arr1 buf1 pos1 dec, of m r p t] fresh_none same
    by (auto simp: py_decompress_def array_t_cast_copy [OF nc arr] bind_n_def finally_n_def
        drop_arg_def release_def get_as_def decompress_leak_def Let_def fun_eq_iff
        split: option.splits)
qed

lemma wf_heap_add_above:
  "wf_heap h \<Longrightarrow> fresh h \<le> q \<Longrightarrow> wf_heap (h\<lparr>objs := (objs h)(q \<mapsto> x), fresh := Suc q\<rparr>)"
  by (auto simp: wf_heap_def)

subsection \<open>Properties of the Python interface\<close>

text \<open>
  C15. \<open>zfp.compress(x, mode)\<close> on a well-formed float32 C-contiguous array
  with positive extents: the engine's bytes for the default parameters come back
  as a new \<open>bytes\<close> object, and nothing else of memory changes; when the engine
  writes nothing, the call raises \<open>RuntimeError("compression failed")\<close> (the
  spec's CompressionFailure), leaving the field, stream and bit stream
  allocated.
\<close>

theorem zfp_compress_call:
  assumes "nd_dtype x = Float32" and "nd_c_contiguous x" and "wf_heap h"
    and "holds_array h (nd_view x) xs" and "0 \<notin> set (nd_shape x)" and "engine_fits e"
  shows "module_call e (fst (pyzfp_module numpy_ok version_info s)) ''compress'' [PyArray x, PyMode m] [] h =
    (let fld = resolved_field (nd_view x); pol = mode_policy m 8 8 (1 / 1000); out = eng_encode e pol fld xs
     in if out = [] then (Inl (RuntimeError ''compression failed''),
                          compress_leak h fld pol (eng_max_size e pol fld))
        else (Inr (PyBuffer \<lparr>buf_ptr = fresh h + 4, buf_size = length out, buf_itemsize = 1\<rparr>),
              h\<lparr>objs := (objs h)(fresh h + 4 \<mapsto> Obj_chars out), fresh := fresh h + 5\<rparr>))"
  unfolding compress_call_defaults [OF assms(1)] using assms by (rule call_compress_exec)

theorem zfp_compress_call_witness:
  "module_call silent_engine (fst (pyzfp_module True None \<lparr>py_err = None\<rparr>)) ''compress''
     [PyArray \<lparr>nd_dtype = Float32, nd_c_contiguous = True, nd_shape = [2, 3], nd_data = 0\<rparr>, PyMode FixedAccuracy]
     [] scenario_heap =
   (Inl (RuntimeError ''compression failed''),
    compress_leak scenario_heap (resolved_field scenario_array) (mode_policy FixedAccuracy 8 8 (1 / 1000)) 0)"
  using zfp_compress_call [of "\<lparr>nd_dtype = Float32, nd_c_contiguous = True, nd_shape = [2, 3], nd_data = 0\<rparr>"
      scenario_heap "[1, 2, 3, 4, 5, 6]" silent_engine True None "\<lparr>py_err = None\<rparr>" FixedAccuracy]
    scenario_wf scenario_holds silent_engine_fits
  by simp

text \<open>
  C16. \<open>zfp.decompress(b, out, mode)\<close> on a float32 C-contiguous destination
  with positive extents: when the engine decodes the buffer's first
  \<open>buffer_info.size\<close> bytes, the values are written into the destination and the
  call returns \<open>None\<close>; otherwise it raises
  \<open>RuntimeError("decompression failed")\<close> (the spec's DecompressionFailure).
\<close>

theorem zfp_decompress_call:
  assumes "nd_dtype y = Float32" and "nd_c_contiguous y" and "wf_heap h" and "holds_array h (nd_view y) ys"
    and "holds_buffer h b bs" and "0 \<notin> set (nd_shape y)" and "engine_decodes_field e"
  shows "module_call e (fst (pyzfp_module numpy_ok version_info s)) ''decompress''
           [PyBuffer b, PyArray y, PyMode m] [] h =
    (let fld = resolved_field (nd_view y); pol = mode_policy m 8 8 (1 / 1000)
     in case eng_decode e pol fld (stream_view b bs) of
          None \<Rightarrow> (Inl (RuntimeError ''decompression failed''), decompress_leak h fld pol b)
        | Some vs \<Rightarrow> (Inr PyNone, h\<lparr>objs := (objs h)(nd_data y \<mapsto> Obj_floats vs), fresh := fresh h + 3\<rparr>))"
  unfolding decompress_call_defaults [OF assms(1)] using assms by (rule call_decompress_exec)

theorem zfp_decompress_call_witness:
  "module_call mock_engine (fst (pyzfp_module True None \<lparr>py_err = None\<rparr>)) ''decompress''
     [PyBuffer dscenario_buffer,
      PyArray \<lparr>nd_dtype = Float32, nd_c_contiguous = True, nd_shape = [2, 3], nd_data = 0\<rparr>, PyMode FixedAccuracy]
     [] dscenario_heap =
   (Inr PyNone, dscenario_heap\<lparr>objs := (objs dscenario_heap)(0 \<mapsto> Obj_floats [1, 2, 3, 4, 5, 6]), fresh := 5\<rparr>)"
proof -
  have "wf_heap dscenario_heap" and "holds_array dscenario_heap scenario_array [0, 0, 0, 0, 0, 0]"
    and "holds_buffer dscenario_heap dscenario_buffer [1, 1, 2, 3, 4, 5, 6]"
    by (simp_all add: wf_heap_def holds_array_def holds_buffer_def request_size_def)
  then show ?thesis
    using zfp_decompress_call [of "\<lparr>nd_dtype = Float32, nd_c_contiguous = True, nd_shape = [2, 3], nd_data = 0\<rparr>"
        dscenario_heap "[0, 0, 0, 0, 0, 0]" dscenario_buffer "[1, 1, 2, 3, 4, 5, 6]" mock_engine True None
        "\<lparr>py_err = None\<rparr>" FixedAccuracy] mock_engine_decodes_field
    by (simp add: stream_view_def resolved_field_cases field_values_dims)
qed

text \<open>
  C17. Round trip through Python: passing the \<open>bytes\<close> object that
  \<open>zfp.compress(x, mode)\<close> returned to \<open>zfp.decompress\<close> with a float32
  C-contiguous destination of the same shape and the same mode returns
  \<open>None\<close> and stores in the destination exactly the engine's own
  reconstruction of the data.
\<close>

theorem zfp_python_roundtrip:
  assumes x: "nd_dtype x = Float32" "nd_c_contiguous x" and wf: "wf_heap h"
    and src: "holds_array h (nd_view x) xs" and pos: "0 \<notin> set (nd_shape x)"
    and fits: "engine_fits e" and dec: "engine_decodes_field e" and geo: "engine_geometric e"
    and enc: "module_call e (fst (pyzfp_module numpy_ok version_info s)) ''compress'' [PyArray x, PyMode m] [] h =
                (Inr bobj, h1)"
    and y: "nd_dtype y = Float32" "nd_c_contiguous y" and shape: "nd_shape y = nd_shape x"
    and dst: "holds_array h1 (nd_view y) zs"
    and rt: "eng_decode e (mode_policy m 8 8 (1 / 1000)) (resolved_field (nd_view x))
               (eng_encode e (mode_policy m 8 8 (1 / 1000)) (resolved_field (nd_view x)) xs) = Some vs"
  shows "\<exists>h2. module_call e (fst (pyzfp_module numpy_ok version_info s)) ''decompress''
                 [bobj, PyArray y, PyMode m] [] h1 = (Inr PyNone, h2) \<and>
              objs h2 (nd_data y) = Some (Obj_floats vs)"
proof -
  let ?pol = "mode_policy m 8 8 (1 / 1000)"
  let ?out = "eng_encode e ?pol (resolved_field (nd_view x)) xs"
  let ?b = "\<lparr>buf_ptr = fresh h + 4, buf_size = length ?out, buf_itemsize = 1\<rparr>"
  have run: "call_compress e x m 8 8 (1 / 1000) h = (Inr bobj, h1)"
    using enc by (simp add: compress_call_defaults [OF x(1)])
  with call_compress_exec [OF x wf src pos fits, of m 8 8 "1 / 1000"]
  have bobj: "bobj = PyBuffer ?b"
    and h1: "h1 = h\<lparr>objs := (objs h)(fresh h + 4 \<mapsto> Obj_chars ?out), fresh := Suc (fresh h + 4)\<rparr>"
    by (simp_all add: Let_def split: if_splits)
  have wf1: "wf_heap h1" unfolding h1 using wf by (rule wf_heap_add_above) simp
  have buf: "holds_buffer h1 ?b ?out" by (simp add: h1 holds_buffer_def)
  have pos1: "0 \<notin> set (nd_shape y)" using pos shape by simp
  have view: "eng_decode e ?pol (resolved_field (nd_view y)) (stream_view ?b ?out) = Some vs"
    using rt engine_geometricD(2) [OF geo] resolved_field_same_shape [of "nd_view y" "nd_view x"] shape
    by (simp add: stream_view_def)
  show ?thesis
    using call_decompress_exec [OF y wf1 dst buf pos1 dec, of m 8 8 "1 / 1000"] view
    by (simp add: bobj decompress_call_defaults [OF y(1)])
qed

theorem zfp_python_roundtrip_witness:
  "\<exists>h2. module_call mock_engine (fst (pyzfp_module True None \<lparr>py_err = None\<rparr>)) ''decompress''
          [PyBuffer \<lparr>buf_ptr = 5, buf_size = 7, buf_itemsize = 1\<rparr>,
           PyArray \<lparr>nd_dtype = Float32, nd_c_contiguous = True, nd_shape = [2, 3], nd_data = 0\<rparr>,
           PyMode FixedAccuracy] []
          (scenario_heap\<lparr>objs := (objs scenario_heap)(5 \<mapsto> Obj_chars [1, 1, 2, 3, 4, 5, 6]), fresh := 6\<rparr>) =
          (Inr PyNone, h2) \<and>
        objs h2 0 = Some (Obj_floats [1, 2, 3, 4, 5, 6])"
proof -
  let ?x = "\<lparr>nd_dtype = Float32, nd_c_contiguous = True, nd_shape = [2, 3], nd_data = 0\<rparr>"
  let ?M = "fst (pyzfp_module True None \<lparr>py_err = None\<rparr>)"
  let ?h1 = "scenario_heap\<lparr>objs := (objs scenario_heap)(5 \<mapsto> Obj_chars [1, 1, 2, 3, 4, 5, 6]), fresh := 6\<rparr>"
  have src: "holds_array scenario_heap (nd_view ?x) [1, 2, 3, 4, 5, 6]"
    by (simp add: holds_array_def request_size_def)
  have enc: "module_call mock_engine ?M ''compress'' [PyArray ?x, PyMode FixedAccuracy] [] scenario_heap =
               (Inr (PyBuffer \<lparr>buf_ptr = 5, buf_size = 7, buf_itemsize = 1\<rparr>), ?h1)"
    using call_compress_exec [of ?x scenario_heap "[1, 2, 3, 4, 5, 6]" mock_engine FixedAccuracy 8 8 "1 / 1000"]
      scenario_wf src mock_engine_fits
    by (simp add: compress_call_defaults resolved_field_cases field_values_dims numeral_eq_Suc)
  have dst: "holds_array ?h1 (nd_view ?x) [1, 2, 3, 4, 5, 6]"
    by (simp add: holds_array_def request_size_def)
  have rt: "eng_decode mock_engine (mode_policy FixedAccuracy 8 8 (1 / 1000)) (resolved_field (nd_view ?x))
              (eng_encode mock_engine (mode_policy FixedAccuracy 8 8 (1 / 1000)) (resolved_field (nd_view ?x))
                 [1, 2, 3, 4, 5, 6]) = Some [1, 2, 3, 4, 5, 6]"
    by (simp add: resolved_field_cases field_values_dims)
  show ?thesis
    using zfp_python_roundtrip [OF _ _ scenario_wf src _ mock_engine_fits mock_engine_decodes_field
        mock_engine_geometric enc _ _ _ dst rt]
    by simp
qed

text \<open>
  C18. A float32 destination that is not C-contiguous is never written:
  pybind11 copies it into a temporary, \<open>decompress\<close> decodes into the
  temporary, and the temporary is destroyed with the parameter. The call
  reports what decoding reports (\<open>None\<close> or
  \<open>RuntimeError("decompression failed")\<close>), the caller's array keeps its
  values on both exits, and a successful call changes nothing in memory but
  the allocation counter.
\<close>

theorem zfp_decompress_noncontiguous_out:
  assumes y: "nd_dtype y = Float32" "\<not> nd_c_contiguous y" and wf: "wf_heap h"
    and arr: "objs h (nd_data y) = Some (Obj_floats ys)" and len: "length ys = prod_list (nd_shape y)"
    and buf: "holds_buffer h b bs" and pos: "0 \<notin> set (nd_shape y)"
    and dec: "engine_decodes_field e" and geo: "engine_geometric e"
  shows "fst (module_call e (fst (pyzfp_module numpy_ok version_info s)) ''decompress''
                [PyBuffer b, PyArray y, PyMode m] [] h) =
           (case eng_decode e (mode_policy m 8 8 (1 / 1000)) (resolved_field (nd_view y)) (stream_view b bs) of
              None \<Rightarrow> Inl (RuntimeError ''decompression failed'') | Some _ \<Rightarrow> Inr PyNone) \<and>
         objs (snd (module_call e (fst (pyzfp_module numpy_ok version_info s)) ''decompress''
                      [PyBuffer b, PyArray y, PyMode m] [] h)) (nd_data y) = Some (Obj_floats ys) \<and>
         (eng_decode e (mode_policy m 8 8 (1 / 1000)) (resolved_field (nd_view y)) (stream_view b bs) \<noteq> None \<longrightarrow>
          snd (module_call e (fst (pyzfp_module numpy_ok version_info s)) ''decompress''
                 [PyBuffer b, PyArray y, PyMode m] [] h) = h\<lparr>fresh := fresh h + 4\<rparr>)"
proof -
  have below: "nd_data y < fresh h" using wf arr by (rule wf_heap_live_below)
  show ?thesis
    using py_decompress_copy [OF y(2) wf arr len buf pos dec geo, of m 8 8 "1 / 1000"] below arr
    by (auto simp: decompress_call_defaults [OF y(1)] call_decompress_def py_result_def bind_n_def
        decompress_leak_def Let_def split: option.split)
qed

theorem zfp_decompress_noncontiguous_out_witness:
  "module_call mock_engine (fst (pyzfp_module True None \<lparr>py_err = None\<rparr>)) ''decompress''
     [PyBuffer dscenario_buffer,
      PyArray \<lparr>nd_dtype = Float32, nd_c_contiguous = False, nd_shape = [2, 3], nd_data = 0\<rparr>, PyMode FixedAccuracy]
     [] dscenario_heap = (Inr PyNone, dscenario_heap\<lparr>fresh := 6\<rparr>) \<and>
   objs (dscenario_heap\<lparr>fresh := 6\<rparr>) 0 = Some (Obj_floats [0, 0, 0, 0, 0, 0])"
  using zfp_decompress_noncontiguous_out [of
      "\<lparr>nd_dtype = Float32, nd_c_contiguous = False, nd_shape = [2, 3], nd_data = 0\<rparr>" dscenario_heap
      "[0, 0, 0, 0, 0, 0]" dscenario_buffer "[1, 1, 2, 3, 4, 5, 6]" mock_engine True None "\<lparr>py_err = None\<rparr>"
      FixedAccuracy]
    dscenario_facts mock_engine_decodes_field mock_engine_geometric
  by (simp add: stream_view_def resolved_field_cases field_values_dims prod_eq_iff)

text \<open>
  C19. For \<open>compress\<close> the conversion is harmless: a float32 input that is
  not C-contiguous is compressed from its copy and the call returns what the
  specification gives for the caller's values, a successful call adding only
  the new \<open>bytes\<close> object to memory; the same array as float64 is refused by
  the caster (\<open>array_t\<close> without \<open>forcecast\<close>) with a \<open>TypeError\<close> before
  any memory is touched.
\<close>

theorem zfp_compress_noncontiguous_input:
  assumes x: "nd_dtype x = Float32" "\<not> nd_c_contiguous x" and wf: "wf_heap h"
    and arr: "objs h (nd_data x) = Some (Obj_floats xs)" and len: "length xs = prod_list (nd_shape x)"
    and pos: "0 \<notin> set (nd_shape x)" and fits: "engine_fits e" and geo: "engine_geometric e"
  shows "fst (module_call e (fst (pyzfp_module numpy_ok version_info s)) ''compress'' [PyArray x, PyMode m] [] h) =
           (case compress_spec e (nd_view x) xs m 8 8 (1 / 1000) of
              Inl _ \<Rightarrow> Inl (RuntimeError ''compression failed'')
            | Inr out \<Rightarrow> Inr (PyBuffer \<lparr>buf_ptr = fresh h + 5, buf_size = length out, buf_itemsize = 1\<rparr>)) \<and>
         (\<forall>out. compress_spec e (nd_view x) xs m 8 8 (1 / 1000) = Inr out \<longrightarrow>
            objs (snd (module_call e (fst (pyzfp_module numpy_ok version_info s)) ''compress''
                         [PyArray x, PyMode m] [] h)) = (objs h)(fresh h + 5 \<mapsto> Obj_chars out)) \<and>
         module_call e (fst (pyzfp_module numpy_ok version_info s)) ''compress''
           [PyArray (x\<lparr>nd_dtype := Float64\<rparr>), PyMode m] [] h =
           (Inl (TypeError ''incompatible function arguments''), h)"
proof -
  have err: "compress_spec e (nd_view x) xs m 8 8 (1 / 1000) = Inl err \<Longrightarrow>
             err = Runtime_error ''compression failed''" for err
    by (simp add: compress_spec_def Let_def split: if_splits)
  show ?thesis
    using py_compress_copy [OF x(2) wf arr len pos fits geo, of m 8 8 "1 / 1000"] err x(1)
    by (auto simp: compress_call_defaults [OF x(1)] call_compress_def py_result_def bind_n_def alloc_def
        module_call_def compress_signature_def cast_all_def compress_params_def Let_def
        split: sum.split)
qed

theorem zfp_compress_noncontiguous_input_witness:
  "module_call mock_engine (fst (pyzfp_module True None \<lparr>py_err = None\<rparr>)) ''compress''
     [PyArray \<lparr>nd_dtype = Float32, nd_c_contiguous = False, nd_shape = [2, 3], nd_data = 0\<rparr>, PyMode FixedAccuracy]
     [] scenario_heap =
   (Inr (PyBuffer \<lparr>buf_ptr = 6, buf_size = 7, buf_itemsize = 1\<rparr>),
    snd (module_call mock_engine (fst (pyzfp_module True None \<lparr>py_err = None\<rparr>)) ''compress''
     [PyArray \<lparr>nd_dtype = Float32, nd_c_contiguous = False, nd_shape = [2, 3], nd_data = 0\<rparr>, PyMode FixedAccuracy]
     [] scenario_heap)) \<and>
   objs (snd (module_call mock_engine (fst (pyzfp_module True None \<lparr>py_err = None\<rparr>)) ''compress''
     [PyArray \<lparr>nd_dtype = Float32, nd_c_contiguous = False, nd_shape = [2, 3], nd_data = 0\<rparr>, PyMode FixedAccuracy]
     [] scenario_heap)) = (objs scenario_heap)(6 \<mapsto> Obj_chars [1, 1, 2, 3, 4, 5, 6]) \<and>
   module_call mock_engine (fst (pyzfp_module True None \<lparr>py_err = None\<rparr>)) ''compress''
     [PyArray \<lparr>nd_dtype = Float64, nd_c_contiguous = False, nd_shape = [2, 3], nd_data = 0\<rparr>, PyMode FixedAccuracy]
     [] scenario_heap = (Inl (TypeError ''incompatible function arguments''), scenario_heap)"
proof -
  have spec: "compress_spec mock_engine scenario_array [1, 2, 3, 4, 5, 6] FixedAccuracy 8 8 (1 / 1000) =
              Inr [1, 1, 2, 3, 4, 5, 6]"
    by (simp add: compress_spec_def resolved_field_cases field_values_dims)
  show ?thesis
    using zfp_compress_noncontiguous_input [of
        "\<lparr>nd_dtype = Float32, nd_c_contiguous = False, nd_shape = [2, 3], nd_data = 0\<rparr>" scenario_heap
        "[1, 2, 3, 4, 5, 6]" mock_engine True None "\<lparr>py_err = None\<rparr>" FixedAccuracy]
      scenario_wf mock_engine_fits mock_engine_geometric spec
    by (simp add: prod_eq_iff)
qed

end
