(* ===== verification/Session.thy ===== *)
theory Session
  imports Module
begin

text \<open>
  A Python process using the module: a sequence of actions on the shared native
  store, each a Python-level operation (numpy creating an array, Python creating
  a \<open>bytes\<close> object, the garbage collector freeing an object Python owns) or a
  call of a module attribute (\<open>module_call\<close>). \<open>reachable\<close> is the step
  relation's reflexive-transitive closure from an initial store. The session is
  the environment of the program, not code of this repository: it is modelled to
  state what the wrapper guarantees across calls (spec 5: calls share no state)
  and what its leaks do to a long-running process.
\<close>

datatype 'v py_action =
    New_array "'v list"
  | New_bytes "byte list"
  | Collect handle
  | Call string "pyval list" "(string \<times> pyval) list"

text \<open>
  The collector frees only what Python owns, numpy storage and byte objects;
  zfp's descriptors and streams are invisible to it.
\<close>

definition session_step :: "'v engine \<Rightarrow> py_module \<Rightarrow> 'v py_action \<Rightarrow> 'v heap \<Rightarrow> 'v heap" where
  "session_step e md act h =
     (case act of
        New_array xs \<Rightarrow> snd (alloc (Obj_floats xs) h)
      | New_bytes bs \<Rightarrow> snd (alloc (Obj_chars bs) h)
      | Collect p \<Rightarrow>
          (case objs h p of
             Some (Obj_floats _) \<Rightarrow> h\<lparr>objs := (objs h)(p := None)\<rparr>
           | Some (Obj_chars _) \<Rightarrow> h\<lparr>objs := (objs h)(p := None)\<rparr>
           | _ \<Rightarrow> h)
      | Call name args kwargs \<Rightarrow> snd (module_call e md name args kwargs h))"

inductive reachable :: "'v engine \<Rightarrow> py_module \<Rightarrow> 'v heap \<Rightarrow> 'v heap \<Rightarrow> bool"
  for e md h0 where
  start: "reachable e md h0 h0"
| step: "reachable e md h0 h \<Longrightarrow> reachable e md h0 (session_step e md act h)"

text \<open>The number of live objects in a store.\<close>

definition live_count :: "'v heap \<Rightarrow> nat" where
  "live_count h = length (filter (\<lambda>p. objs h p \<noteq> None) [0..<fresh h])"

text \<open>What Python observes of a call's outcome: the exception, or the contents of the bytes returned.\<close>

definition observed_bytes :: "(py_exc + pyval) \<times> 'v heap \<Rightarrow> py_exc + byte list option" where
  "observed_bytes r =
     (case r of
        (Inl exc, _) \<Rightarrow> Inl exc
      | (Inr (PyBuffer b), h) \<Rightarrow>
          Inr (case objs h (buf_ptr b) of Some (Obj_chars bs) \<Rightarrow> Some (take (buf_size b) bs) | _ \<Rightarrow> None)
      | (Inr _, _) \<Rightarrow> Inr None)"

subsection \<open>Lemmas\<close>

lemma reachable_funpow: "reachable e md h0 ((session_step e md act ^^ n) h0)"
  by (induction n) (auto intro: reachable.intros)

lemma live_count_leak:
  assumes "wf_heap h"
  shows "live_count (compress_leak h fld pol n) = live_count h + 3"
proof -
  let ?F = "fresh h"
  have upt: "[0..<Suc (Suc (Suc (Suc ?F)))] = [0..<?F] @ [?F, Suc ?F, Suc (Suc ?F), Suc (Suc (Suc ?F))]"
    by simp
  have gap: "objs h (Suc (Suc ?F)) = None" using wf_heap_above [OF assms] by simp
  have "filter (\<lambda>p. objs (compress_leak h fld pol n) p \<noteq> None) [0..<?F] =
        filter (\<lambda>p. objs h p \<noteq> None) [0..<?F]"
    by (rule filter_cong) (auto simp: compress_leak_def Let_def)
  then show ?thesis
    by (simp add: live_count_def upt gap) (simp add: compress_leak_def Let_def gap)
qed

lemma compress_leak_keeps:
  assumes "wf_heap h"
  shows "wf_heap (compress_leak h fld pol n)"
    and "q < fresh h \<Longrightarrow> objs (compress_leak h fld pol n) q = objs h q"
  using assms by (auto simp: compress_leak_def Let_def wf_heap_def)

lemma holds_array_frame:
  assumes "wf_heap h" and "holds_array h a xs" and "\<And>q. q < fresh h \<Longrightarrow> objs h' q = objs h q"
  shows "holds_array h' a xs"
  using assms wf_heap_live_below [OF assms(1)] by (auto simp: holds_array_def)

text \<open>One call of \<open>zfp.compress(x, mode)\<close> whose engine writes nothing.\<close>

lemma failing_compress_step:
  assumes "nd_dtype x = Float32" "nd_c_contiguous x" and "wf_heap g" and "holds_array g (nd_view x) xs"
    and "0 \<notin> set (nd_shape x)" and "engine_fits e"
    and "eng_encode e (mode_policy m 8 8 (1 / 1000)) (resolved_field (nd_view x)) xs = []"
  shows "module_call e (fst (pyzfp_module numpy_ok version_info s)) ''compress'' [PyArray x, PyMode m] [] g =
    (Inl (RuntimeError ''compression failed''),
     compress_leak g (resolved_field (nd_view x)) (mode_policy m 8 8 (1 / 1000))
       (eng_max_size e (mode_policy m 8 8 (1 / 1000)) (resolved_field (nd_view x))))"
  using call_compress_exec [OF assms(1-6), of m 8 8 "1 / 1000"] assms(7)
  by (simp add: compress_call_defaults [OF assms(1)] Let_def)

lemma failing_compress_session:
  assumes x: "nd_dtype x = Float32" "nd_c_contiguous x" and wf: "wf_heap h"
    and src: "holds_array h (nd_view x) xs" and pos: "0 \<notin> set (nd_shape x)" and fits: "engine_fits e"
    and fail: "eng_encode e (mode_policy m 8 8 (1 / 1000)) (resolved_field (nd_view x)) xs = []"
  shows "wf_heap ((session_step e (fst (pyzfp_module numpy_ok version_info s))
                     (Call ''compress'' [PyArray x, PyMode m] []) ^^ n) h) \<and>
         holds_array ((session_step e (fst (pyzfp_module numpy_ok version_info s))
                     (Call ''compress'' [PyArray x, PyMode m] []) ^^ n) h) (nd_view x) xs \<and>
         live_count ((session_step e (fst (pyzfp_module numpy_ok version_info s))
                     (Call ''compress'' [PyArray x, PyMode m] []) ^^ n) h) = live_count h + 3 * n"
proof (induction n)
  case 0
  then show ?case using wf src by simp
next
  case (Suc n)
  let ?g = "(session_step e (fst (pyzfp_module numpy_ok version_info s))
              (Call ''compress'' [PyArray x, PyMode m] []) ^^ n) h"
  have wfg: "wf_heap ?g" and srcg: "holds_array ?g (nd_view x) xs" and cnt: "live_count ?g = live_count h + 3 * n"
    using Suc.IH by simp_all
  let ?leak = "compress_leak ?g (resolved_field (nd_view x)) (mode_policy m 8 8 (1 / 1000))
                 (eng_max_size e (mode_policy m 8 8 (1 / 1000)) (resolved_field (nd_view x)))"
  have stp: "session_step e (fst (pyzfp_module numpy_ok version_info s))
                (Call ''compress'' [PyArray x, PyMode m] []) ?g = ?leak"
    using failing_compress_step [OF x wfg srcg pos fits fail] by (simp add: session_step_def)
  have "holds_array ?leak (nd_view x) xs"
    using holds_array_frame [OF wfg srcg compress_leak_keeps(2) [OF wfg]] .
  then show ?case
    using stp compress_leak_keeps(1) [OF wfg] live_count_leak [OF wfg] cnt by simp
qed

text \<open>One call of \<open>zfp.compress\<close>, successful or not, changes no object that existed before it.\<close>

lemma compress_call_frame:
  assumes "nd_dtype x = Float32" "nd_c_contiguous x" and "wf_heap h" and "holds_array h (nd_view x) xs"
    and "0 \<notin> set (nd_shape x)" and "engine_fits e"
  shows "wf_heap (snd (module_call e (fst (pyzfp_module numpy_ok version_info s)) ''compress''
                         [PyArray x, PyMode m] [] h))"
    and "q < fresh h \<Longrightarrow> objs (snd (module_call e (fst (pyzfp_module numpy_ok version_info s)) ''compress''
                         [PyArray x, PyMode m] [] h)) q = objs h q"
  using call_compress_exec [OF assms, of m 8 8 "1 / 1000"] assms(3) compress_leak_keeps [OF assms(3)]
  by (auto simp: compress_call_defaults [OF assms(1)] Let_def wf_heap_def split: if_splits)

lemma observed_compress:
  assumes "nd_dtype y = Float32" "nd_c_contiguous y" and "wf_heap g" and "holds_array g (nd_view y) ys"
    and "0 \<notin> set (nd_shape y)" and "engine_fits e"
  shows "observed_bytes (module_call e (fst (pyzfp_module numpy_ok version_info s)) ''compress''
           [PyArray y, PyMode m] [] g) =
         (let out = eng_encode e (mode_policy m 8 8 (1 / 1000)) (resolved_field (nd_view y)) ys
          in if out = [] then Inl (RuntimeError ''compression failed'') else Inr (Some out))"
  using call_compress_exec [OF assms, of m 8 8 "1 / 1000"]
  by (simp add: compress_call_defaults [OF assms(1)] observed_bytes_def Let_def)

subsection \<open>Properties of sessions\<close>

text \<open>
  C22. The leak of the failure exit is unbounded: when the engine writes
  nothing for an array, a process that keeps calling \<open>zfp.compress\<close> on it gets
  \<open>RuntimeError\<close> every time and eventually holds more live native objects
  than any bound, three more per call.
\<close>

theorem compress_leak_unbounded:
  assumes "nd_dtype x = Float32" "nd_c_contiguous x" and "wf_heap h"
    and "holds_array h (nd_view x) xs" and "0 \<notin> set (nd_shape x)" and "engine_fits e"
    and "eng_encode e (mode_policy m 8 8 (1 / 1000)) (resolved_field (nd_view x)) xs = []"
  shows "\<forall>N. \<exists>n. reachable e (fst (pyzfp_module numpy_ok version_info s)) h
                   ((session_step e (fst (pyzfp_module numpy_ok version_info s))
                      (Call ''compress'' [PyArray x, PyMode m] []) ^^ n) h) \<and>
                 fst (module_call e (fst (pyzfp_module numpy_ok version_info s)) ''compress''
                   [PyArray x, PyMode m] []
                   ((session_step e (fst (pyzfp_module numpy_ok version_info s))
                      (Call ''compress'' [PyArray x, PyMode m] []) ^^ n) h)) =
                   Inl (RuntimeError ''compression failed'') \<and>
                 N < live_count ((session_step e (fst (pyzfp_module numpy_ok version_info s))
                      (Call ''compress'' [PyArray x, PyMode m] []) ^^ n) h)"
proof
  fix N
  let ?g = "(session_step e (fst (pyzfp_module numpy_ok version_info s))
              (Call ''compress'' [PyArray x, PyMode m] []) ^^ Suc N) h"
  have inv: "wf_heap ?g" "holds_array ?g (nd_view x) xs" "live_count ?g = live_count h + 3 * Suc N"
    using failing_compress_session [OF assms, where n = "Suc N" and numpy_ok = numpy_ok and version_info = version_info and s = s] by simp_all
  show "\<exists>n. reachable e (fst (pyzfp_module numpy_ok version_info s)) h
              ((session_step e (fst (pyzfp_module numpy_ok version_info s))
                 (Call ''compress'' [PyArray x, PyMode m] []) ^^ n) h) \<and>
            fst (module_call e (fst (pyzfp_module numpy_ok version_info s)) ''compress''
              [PyArray x, PyMode m] []
              ((session_step e (fst (pyzfp_module numpy_ok version_info s))
                 (Call ''compress'' [PyArray x, PyMode m] []) ^^ n) h)) =
              Inl (RuntimeError ''compression failed'') \<and>
            N < live_count ((session_step e (fst (pyzfp_module numpy_ok version_info s))
                 (Call ''compress'' [PyArray x, PyMode m] []) ^^ n) h)"
  proof (intro exI [of _ "Suc N"] conjI)
    show "reachable e (fst (pyzfp_module numpy_ok version_info s)) h ?g" by (rule reachable_funpow)
    show "fst (module_call e (fst (pyzfp_module numpy_ok version_info s)) ''compress'' [PyArray x, PyMode m] [] ?g) =
            Inl (RuntimeError ''compression failed'')"
      using failing_compress_step [OF assms(1,2) inv(1,2) assms(5,6,7)] by (simp del: funpow.simps)
    show "N < live_count ?g" using inv(3) by (simp del: funpow.simps)
  qed
qed

theorem compress_leak_unbounded_witness:
  "\<exists>n. reachable silent_engine (fst (pyzfp_module True None \<lparr>py_err = None\<rparr>)) scenario_heap
         ((session_step silent_engine (fst (pyzfp_module True None \<lparr>py_err = None\<rparr>))
            (Call ''compress'' [PyArray \<lparr>nd_dtype = Float32, nd_c_contiguous = True, nd_shape = [2, 3], nd_data = 0\<rparr>,
               PyMode FixedAccuracy] []) ^^ n) scenario_heap) \<and>
       fst (module_call silent_engine (fst (pyzfp_module True None \<lparr>py_err = None\<rparr>)) ''compress''
         [PyArray \<lparr>nd_dtype = Float32, nd_c_contiguous = True, nd_shape = [2, 3], nd_data = 0\<rparr>, PyMode FixedAccuracy] []
         ((session_step silent_engine (fst (pyzfp_module True None \<lparr>py_err = None\<rparr>))
            (Call ''compress'' [PyArray \<lparr>nd_dtype = Float32, nd_c_contiguous = True, nd_shape = [2, 3], nd_data = 0\<rparr>,
               PyMode FixedAccuracy] []) ^^ n) scenario_heap)) =
         Inl (RuntimeError ''compression failed'') \<and>
       1000 < live_count ((session_step silent_engine (fst (pyzfp_module True None \<lparr>py_err = None\<rparr>))
            (Call ''compress'' [PyArray \<lparr>nd_dtype = Float32, nd_c_contiguous = True, nd_shape = [2, 3], nd_data = 0\<rparr>,
               PyMode FixedAccuracy] []) ^^ n) scenario_heap)"
proof -
  have "holds_array scenario_heap (nd_view \<lparr>nd_dtype = Float32, nd_c_contiguous = True, nd_shape = [2, 3], nd_data = 0\<rparr>)
          [1, 2, 3, 4, 5, 6]"
    by (simp add: holds_array_def request_size_def)
  then show ?thesis
    using compress_leak_unbounded [OF _ _ scenario_wf _ _ silent_engine_fits, of
        "\<lparr>nd_dtype = Float32, nd_c_contiguous = True, nd_shape = [2, 3], nd_data = 0\<rparr>" "[1, 2, 3, 4, 5, 6]"
        FixedAccuracy True None "\<lparr>py_err = None\<rparr>"]
    by simp
qed

text \<open>
  C23. Calls share no state (spec 5): what \<open>zfp.compress(y, mode')\<close> returns
  or raises is the same whether or not a call \<open>zfp.compress(x, mode)\<close>, on any
  well-formed array and whatever its own outcome, ran before it.
\<close>

theorem compress_calls_independent:
  assumes x: "nd_dtype x = Float32" "nd_c_contiguous x" and y: "nd_dtype y = Float32" "nd_c_contiguous y"
    and wf: "wf_heap h" and src: "holds_array h (nd_view x) xs" and srcy: "holds_array h (nd_view y) ys"
    and pos: "0 \<notin> set (nd_shape x)" and posy: "0 \<notin> set (nd_shape y)" and fits: "engine_fits e"
  shows "observed_bytes (module_call e (fst (pyzfp_module numpy_ok version_info s)) ''compress'' [PyArray y, PyMode m'] []
           (session_step e (fst (pyzfp_module numpy_ok version_info s)) (Call ''compress'' [PyArray x, PyMode m] []) h)) =
         observed_bytes (module_call e (fst (pyzfp_module numpy_ok version_info s)) ''compress'' [PyArray y, PyMode m'] [] h)"
proof -
  let ?h1 = "snd (module_call e (fst (pyzfp_module numpy_ok version_info s)) ''compress'' [PyArray x, PyMode m] [] h)"
  have wf1: "wf_heap ?h1" using compress_call_frame(1) [OF x wf src pos fits] .
  have srcy1: "holds_array ?h1 (nd_view y) ys"
    using holds_array_frame [OF wf srcy compress_call_frame(2) [OF x wf src pos fits]] .
  show ?thesis
    using observed_compress [OF y wf1 srcy1 posy fits] observed_compress [OF y wf srcy posy fits]
    by (simp add: session_step_def)
qed

theorem compress_calls_independent_witness:
  "observed_bytes (module_call mock_engine (fst (pyzfp_module True None \<lparr>py_err = None\<rparr>)) ''compress''
     [PyArray \<lparr>nd_dtype = Float32, nd_c_contiguous = True, nd_shape = [2, 3], nd_data = 0\<rparr>, PyMode FixedRate] []
     (session_step mock_engine (fst (pyzfp_module True None \<lparr>py_err = None\<rparr>))
        (Call ''compress'' [PyArray \<lparr>nd_dtype = Float32, nd_c_contiguous = True, nd_shape = [2, 3], nd_data = 0\<rparr>,
           PyMode FixedAccuracy] []) scenario_heap)) =
   observed_bytes (module_call mock_engine (fst (pyzfp_module True None \<lparr>py_err = None\<rparr>)) ''compress''
     [PyArray \<lparr>nd_dtype = Float32, nd_c_contiguous = True, nd_shape = [2, 3], nd_data = 0\<rparr>, PyMode FixedRate] []
     scenario_heap)"
proof -
  have "holds_array scenario_heap (nd_view \<lparr>nd_dtype = Float32, nd_c_contiguous = True, nd_shape = [2, 3], nd_data = 0\<rparr>)
          [1, 2, 3, 4, 5, 6]"
    by (simp add: holds_array_def request_size_def)
  then show ?thesis
    using compress_calls_independent [OF _ _ _ _ scenario_wf _ _ _ _ mock_engine_fits, of
        "\<lparr>nd_dtype = Float32, nd_c_contiguous = True, nd_shape = [2, 3], nd_data = 0\<rparr>"
        "\<lparr>nd_dtype = Float32, nd_c_contiguous = True, nd_shape = [2, 3], nd_data = 0\<rparr>"
        "[1, 2, 3, 4, 5, 6]" "[1, 2, 3, 4, 5, 6]" True None "\<lparr>py_err = None\<rparr>" FixedRate FixedAccuracy]
    by simp
qed

end
