(* ===== verification/Rate.thy ===== *)
theory Rate
  imports Geometry Mode
begin

text \<open>
  The bit budget of the fixed-rate mode. \<open>zfp_stream_set_rate(zfp, rate, type,
  dims, align)\<close> (zfp library, zfp.c) turns a rate in bits per value into a
  budget of \<open>maxbits\<close> bits per block of \<open>4 ^ dims\<close> values: the product
  rounded to nearest, raised to the minimum a block of the scalar type needs
  (1 + 8 bits for float, 1 + 11 for double) and, for write random access,
  rounded up to a whole stream word. zfp then codes every block of a field in
  exactly \<open>maxbits\<close> bits, and a block of a \<open>d\<close>-dimensional field holds
  \<open>4 ^ d\<close> values, so the rate the field actually gets is
  \<open>maxbits / 4 ^ d\<close>. The computation is in \<open>uint\<close>; the model uses
  \<open>nat\<close>, which agrees with it for rates below \<open>2 ^ 30\<close> bits per value.
\<close>

definition zfp_rate_bits :: "real \<Rightarrow> zfp_type \<Rightarrow> nat \<Rightarrow> bool \<Rightarrow> nat" where
  "zfp_rate_bits rate t dims align =
     (let n = 4 ^ dims;
          bits = nat \<lfloor>real n * rate + 1 / 2\<rfloor>;
          bits' = (case t of zfp_type_float \<Rightarrow> max bits (1 + 8)
                   | zfp_type_double \<Rightarrow> max bits (1 + 11) | _ \<Rightarrow> bits)
      in if align then (bits' + 64 - 1) div 64 * 64 else bits')"  \<comment> \<open>\<open>stream_word_bits\<close> = 64\<close>

text \<open>The block budget a stream's policy sets; only the fixed-rate policy sets one.\<close>

definition policy_maxbits :: "policy \<Rightarrow> nat option" where
  "policy_maxbits p = (case p of Policy_rate r t d a \<Rightarrow> Some (zfp_rate_bits r t d a) | _ \<Rightarrow> None)"

definition block_values :: "zfp_field \<Rightarrow> nat" where
  "block_values f = 4 ^ zfp_field_dimensionality f"

text \<open>The bits per value a policy spends on a field.\<close>

definition rate_per_value :: "policy \<Rightarrow> zfp_field \<Rightarrow> real option" where
  "rate_per_value p f = map_option (\<lambda>bits. real bits / real (block_values f)) (policy_maxbits p)"

lemma dimensionality_resolved:
  assumes "length (arr_shape a) \<in> {1, 2, 3, 4}" and "0 \<notin> set (arr_shape a)"
  shows "zfp_field_dimensionality (resolved_field a) = length (arr_shape a)"
proof (cases a)
  case (fields s p)
  show ?thesis
  proof (cases s rule: shape_rank_cases)
    case other
    with assms fields obtain x where "s = [x]" by (auto simp: length_Suc_conv)
    with assms fields show ?thesis
      by (simp add: resolved_field_cases zfp_field_dimensionality_def)
  qed (use assms fields in \<open>simp_all add: resolved_field_cases zfp_field_dimensionality_def\<close>)
qed

lemma rate_bits_float_1:
  assumes "9 / 4 \<le> r"
  shows "real (zfp_rate_bits r zfp_type_float 1 False) = of_int \<lfloor>4 * r + 1 / 2\<rfloor>"
proof -
  define k where "k = \<lfloor>4 * r + 1 / 2\<rfloor>"
  have "9 \<le> k" using assms unfolding k_def by linarith
  then have "max (nat k) (1 + 8) = nat k" by simp
  then show ?thesis using \<open>9 \<le> k\<close> by (simp add: zfp_rate_bits_def Let_def k_def [symmetric])
qed

lemma rate_per_value_fixed_rate:
  "rate_per_value (mode_policy FixedRate r p t) f =
     Some (real (zfp_rate_bits r zfp_type_float 1 False) / 4 ^ zfp_field_dimensionality f)"
  by (simp add: rate_per_value_def policy_maxbits_def mode_policy_def block_values_def)

lemma rate_bits_rounding:
  assumes "9 / 4 \<le> r"
  shows "\<bar>real (zfp_rate_bits r zfp_type_float 1 False) / 4 - r\<bar> \<le> 1 / 8"
  using rate_bits_float_1 [OF assms] by linarith

lemma fixed_rate_field_budget:
  assumes "length (arr_shape a) \<in> {1, 2, 3, 4}" and "0 \<notin> set (arr_shape a)"
  shows "rate_per_value (mode_policy FixedRate r p t) (resolved_field a) =
           Some (real (zfp_rate_bits r zfp_type_float 1 False) / 4 ^ length (arr_shape a))"
  using rate_per_value_fixed_rate dimensionality_resolved [OF assms] by simp

lemma scaled_budget:
  assumes "1 \<le> d"
  shows "x / 4 ^ d * 4 ^ (d - 1) = (x :: real) / 4"
proof -
  have "(4 :: real) ^ d = 4 * 4 ^ (d - 1)" using assms by (cases d) simp_all
  then show ?thesis by simp
qed

lemma configured_stream_policy:
  "compress_stream m r p t h = (Inr z, h') \<Longrightarrow> objs h' z = Some (Obj_stream s) \<Longrightarrow>
   zs_policy s = mode_policy m r p t"
  "decompress_stream m r p t h = (Inr z, h') \<Longrightarrow> objs h' z = Some (Obj_stream s) \<Longrightarrow>
   zs_policy s = mode_policy m r p t"
  by (auto simp: compress_stream_refines decompress_stream_refines configured_stream_def alloc_def)

lemma fixed_rate_stream_budget:
  assumes "length (arr_shape a) \<in> {1, 2, 3, 4}" and "0 \<notin> set (arr_shape a)"
    and "zs_policy s = mode_policy FixedRate r p t" and "rate_per_value (zs_policy s) (resolved_field a) = Some b"
  shows "b = real (zfp_rate_bits r zfp_type_float 1 False) / 4 ^ length (arr_shape a)"
  using assms fixed_rate_field_budget [OF assms(1,2)] by simp

text \<open>
  C12. In fixed-rate mode, \<open>compress\<close> allocates a stream whose budget gives a
  field of rank 1 to 4 the bits \<open>zfp_stream_set_rate\<close> computes for a
  one-dimensional block of 4 values, spread over the \<open>4 ^ d\<close> values of a
  block of the field's actual rank \<open>d\<close>.
\<close>

theorem compress_stream_rate_budget:
  assumes "length (arr_shape a) \<in> {1, 2, 3, 4}" and "0 \<notin> set (arr_shape a)"
  shows "\<exists>s. compress_stream FixedRate r p t h =
              (Inr (fresh h), h\<lparr>objs := (objs h)(fresh h \<mapsto> Obj_stream s), fresh := Suc (fresh h)\<rparr>) \<and>
            rate_per_value (zs_policy s) (resolved_field a) =
              Some (real (zfp_rate_bits r zfp_type_float 1 False) / 4 ^ length (arr_shape a))"
proof (intro exI conjI)
  let ?s = "\<lparr>zs_policy = mode_policy FixedRate r p t, zs_bits = None\<rparr>"
  show "compress_stream FixedRate r p t h =
          (Inr (fresh h), h\<lparr>objs := (objs h)(fresh h \<mapsto> Obj_stream ?s), fresh := Suc (fresh h)\<rparr>)"
    by (simp add: compress_stream_refines configured_stream_def alloc_def)
  show "rate_per_value (zs_policy ?s) (resolved_field a) =
          Some (real (zfp_rate_bits r zfp_type_float 1 False) / 4 ^ length (arr_shape a))"
    using fixed_rate_field_budget [OF assms] by simp
qed

theorem compress_stream_rate_budget_witness:
  "\<exists>s. compress_stream FixedRate 8 8 (1 / 1000) scenario_heap =
        (Inr 1, scenario_heap\<lparr>objs := (objs scenario_heap)(1 \<mapsto> Obj_stream s), fresh := 2\<rparr>) \<and>
      rate_per_value (zs_policy s) (resolved_field scenario_array) = Some 2"
proof -
  have "real (zfp_rate_bits 8 zfp_type_float 1 False) = 32" by (simp add: zfp_rate_bits_def)
  then show ?thesis
    using compress_stream_rate_budget [of scenario_array 8 8 "1 / 1000" scenario_heap]
    by (simp add: numeral_2_eq_2)
qed

text \<open>
  C13. The fixed rate that the stream \<open>compress\<close> configures gives a field of
  rank \<open>d\<close> (1 to 4) is the requested rate divided by \<open>4 ^ (d - 1)\<close>, up to
  the rounding of the block budget to whole bits (for rates from 9/4, where the
  float minimum of 9 bits does not apply).
\<close>

theorem fixed_rate_scaled:
  assumes "length (arr_shape a) \<in> {1, 2, 3, 4}" and "0 \<notin> set (arr_shape a)" and "9 / 4 \<le> r"
    and "compress_stream FixedRate r p t h = (Inr z, h')" and "objs h' z = Some (Obj_stream s)"
    and "rate_per_value (zs_policy s) (resolved_field a) = Some b"
  shows "\<bar>b * 4 ^ (length (arr_shape a) - 1) - r\<bar> \<le> 1 / 8"
proof -
  have one: "1 \<le> length (arr_shape a)" using assms(1) by auto
  have "b = real (zfp_rate_bits r zfp_type_float 1 False) / 4 ^ length (arr_shape a)"
    using fixed_rate_stream_budget [OF assms(1,2) configured_stream_policy(1) [OF assms(4,5)] assms(6)] .
  then have eq: "b * 4 ^ (length (arr_shape a) - 1) = real (zfp_rate_bits r zfp_type_float 1 False) / 4"
    using scaled_budget [OF one] by simp
  show ?thesis unfolding eq by (rule rate_bits_rounding [OF assms(3)])
qed

theorem fixed_rate_scaled_witness:
  "compress_stream FixedRate 8 8 (1 / 1000) scenario_heap =
     (Inr 1, scenario_heap\<lparr>objs := (objs scenario_heap)
        (1 \<mapsto> Obj_stream \<lparr>zs_policy = mode_policy FixedRate 8 8 (1 / 1000), zs_bits = None\<rparr>), fresh := 2\<rparr>) \<and>
   rate_per_value (mode_policy FixedRate 8 8 (1 / 1000)) (resolved_field scenario_array) = Some 2 \<and>
   \<bar>2 * 4 ^ (length (arr_shape scenario_array) - 1) - 8\<bar> \<le> (1 / 8 :: real)"
proof -
  have rpv: "rate_per_value (mode_policy FixedRate 8 8 (1 / 1000)) (resolved_field scenario_array) = Some 2"
    by (simp add: rate_per_value_fixed_rate resolved_field_cases zfp_field_dimensionality_def
        zfp_rate_bits_def)
  have run: "compress_stream FixedRate 8 8 (1 / 1000) scenario_heap =
     (Inr 1, scenario_heap\<lparr>objs := (objs scenario_heap)
        (1 \<mapsto> Obj_stream \<lparr>zs_policy = mode_policy FixedRate 8 8 (1 / 1000), zs_bits = None\<rparr>), fresh := 2\<rparr>)"
    by (simp add: compress_stream_refines configured_stream_def alloc_def)
  show ?thesis
    using fixed_rate_scaled [of scenario_array 8 8 "1 / 1000" scenario_heap 1, OF _ _ _ run] rpv run by simp
qed



end
