(* ===== verification/Fixed_Rate.thy ===== *)
theory Fixed_Rate
  imports Rate Compress
begin

text \<open>
  The size of the stream in fixed-rate mode. zfp partitions a field of
  dimensionality \<open>d\<close> into blocks of \<open>4 ^ d\<close> values (partial blocks at the
  edges are padded), codes every block in exactly \<open>maxbits\<close> bits when
  \<open>minbits = maxbits\<close>, as \<open>zfp_stream_set_rate\<close> sets them, and
  \<open>zfp_compress\<close> flushes the stream to a whole 64-bit word before reporting
  its size in bytes. The contract \<open>engine_fixed_rate\<close> states this of the
  engine; on it, the output size of \<open>compress\<close> in fixed-rate mode is exact,
  and grows with the rate (spec 8, size monotonicity).
\<close>

definition fixed_rate_bytes :: "nat \<Rightarrow> zfp_field \<Rightarrow> nat" where
  "fixed_rate_bytes maxbits f =
     (let blocks = prod_list (map (\<lambda>n. (n + 3) div 4) (field_extents f))
      in (blocks * maxbits + 63) div 64 * 8)"

definition engine_fixed_rate :: "'v engine \<Rightarrow> bool" where
  "engine_fixed_rate e \<longleftrightarrow>
     (\<forall>r t d a f xs. 0 < zfp_field_dimensionality f \<longrightarrow>
        length (eng_encode e (Policy_rate r t d a) f xs) = fixed_rate_bytes (zfp_rate_bits r t d a) f)"

text \<open>An engine mock honouring the contract: zero bytes of the fixed-rate size.\<close>

definition rate_engine :: "nat engine" where
  "rate_engine =
     \<lparr>eng_max_size = (\<lambda>p f. case p of Policy_rate r t d a \<Rightarrow> fixed_rate_bytes (zfp_rate_bits r t d a) f
                                   | _ \<Rightarrow> 1),
      eng_encode = (\<lambda>p f xs. case p of Policy_rate r t d a \<Rightarrow> replicate (fixed_rate_bytes (zfp_rate_bits r t d a) f) 0
                                    | _ \<Rightarrow> [1]),
      eng_decode = (\<lambda>p f bs. None)\<rparr>"

lemma rate_engine_contracts: "engine_fits rate_engine" "engine_fixed_rate rate_engine"
  by (auto simp: engine_fits_def engine_fixed_rate_def rate_engine_def split: policy.split)

lemma zfp_rate_bits_mono:
  assumes "r \<le> r'"
  shows "zfp_rate_bits r t d a \<le> zfp_rate_bits r' t d a"
proof -
  have "nat \<lfloor>real (4 ^ d) * r + 1 / 2\<rfloor> \<le> nat \<lfloor>real (4 ^ d) * r' + 1 / 2\<rfloor>"
    using assms by (intro nat_mono floor_mono) (simp add: mult_left_mono)
  then show ?thesis
    by (cases t) (auto simp: zfp_rate_bits_def Let_def intro: div_le_mono mult_le_mono1)
qed

lemma fixed_rate_bytes_mono: "b \<le> b' \<Longrightarrow> fixed_rate_bytes b f \<le> fixed_rate_bytes b' f"
  by (simp add: fixed_rate_bytes_def Let_def div_le_mono)

lemma fixed_rate_bytes_pos:
  "0 < prod_list (map (\<lambda>n. (n + 3) div 4) (field_extents f)) \<Longrightarrow> 0 < b \<Longrightarrow> 0 < fixed_rate_bytes b f"
  by (simp add: fixed_rate_bytes_def Let_def div_greater_zero_iff Suc_le_eq)

lemma dimensionality_resolved_pos:
  "0 \<notin> set (arr_shape a) \<Longrightarrow> 0 < zfp_field_dimensionality (resolved_field a)"
  using prod_list_pos [of "arr_shape a"]
  by (cases a, rename_tac s p, case_tac s rule: shape_rank_cases)
    (auto simp: resolved_field_cases zfp_field_dimensionality_def)

lemma blocks_resolved_pos:
  "0 \<notin> set (arr_shape a) \<Longrightarrow> 0 < prod_list (map (\<lambda>n. (n + 3) div 4) (field_extents (resolved_field a)))"
  using prod_list_pos [of "arr_shape a"]
  by (cases a, rename_tac s p, case_tac s rule: shape_rank_cases)
    (auto simp: field_extents_def resolved_field_cases zfp_field_dimensionality_def
       div_greater_zero_iff)

lemma zfp_rate_bits_float_pos: "0 < zfp_rate_bits r zfp_type_float d a"
  by (simp add: zfp_rate_bits_def Let_def div_greater_zero_iff le_max_iff_disj less_max_iff_disj)

text \<open>The bytes the engine produces for the stream \<open>compress\<close> configures in fixed-rate mode.\<close>

lemma fixed_rate_output:
  assumes "engine_fixed_rate e" and "0 \<notin> set (arr_shape a)"
  shows "length (eng_encode e (mode_policy FixedRate r p t) (resolved_field a) xs) =
           fixed_rate_bytes (zfp_rate_bits r zfp_type_float 1 False) (resolved_field a)"
    and "eng_encode e (mode_policy FixedRate r p t) (resolved_field a) xs \<noteq> []"
proof -
  show len: "length (eng_encode e (mode_policy FixedRate r p t) (resolved_field a) xs) =
               fixed_rate_bytes (zfp_rate_bits r zfp_type_float 1 False) (resolved_field a)"
    using assms(1) dimensionality_resolved_pos [OF assms(2)]
    by (simp add: engine_fixed_rate_def mode_policy_def)
  have "0 < fixed_rate_bytes (zfp_rate_bits r zfp_type_float 1 False) (resolved_field a)"
    by (rule fixed_rate_bytes_pos [OF blocks_resolved_pos [OF assms(2)] zfp_rate_bits_float_pos])
  with len show "eng_encode e (mode_policy FixedRate r p t) (resolved_field a) xs \<noteq> []" by auto
qed

text \<open>
  C20. In fixed-rate mode, with an engine that codes each block in exactly its
  budget, \<open>compress\<close> on a well-formed array with positive extents never fails:
  it returns the stream padded to whole 64-bit words, whose size is fixed by the
  number of 4-value blocks of the field and the budget
  \<open>zfp_stream_set_rate\<close> computes for \<open>dims = 1\<close>, and it releases everything
  it allocated.
\<close>

theorem compress_fixed_rate_size:
  assumes "wf_heap h" and "holds_array h a xs" and "0 \<notin> set (arr_shape a)"
    and "engine_fits e" and "engine_fixed_rate e"
  shows "\<exists>out. compress e a FixedRate r p t h = (Inr out, h\<lparr>fresh := fresh h + 4\<rparr>) \<and>
               length out = fixed_rate_bytes (zfp_rate_bits r zfp_type_float 1 False) (resolved_field a)"
  using compress_exec_covered [OF assms(1-4), of FixedRate r p t] fixed_rate_output [OF assms(5,3), of r p t xs]
  by (simp add: Let_def)

theorem compress_fixed_rate_size_witness:
  "\<exists>out. compress rate_engine scenario_array FixedRate 8 8 (1 / 1000) scenario_heap =
          (Inr out, scenario_heap\<lparr>fresh := fresh scenario_heap + 4\<rparr>) \<and> length out = 8"
proof -
  have "fixed_rate_bytes (zfp_rate_bits 8 zfp_type_float 1 False) (resolved_field scenario_array) = 8"
    by (simp add: fixed_rate_bytes_def field_extents_def resolved_field_cases
        zfp_field_dimensionality_def zfp_rate_bits_def)
  then show ?thesis
    using compress_fixed_rate_size [OF scenario_wf scenario_holds scenario_positive rate_engine_contracts,
        of 8 8 "1 / 1000"]
    by simp
qed

text \<open>
  C21. Size monotonicity (spec 8): in fixed-rate mode, compressing the same
  array at a higher rate never yields fewer bytes, whatever the other two
  parameters.
\<close>

theorem compress_size_monotone:
  assumes "wf_heap h" and "holds_array h a xs" and "0 \<notin> set (arr_shape a)"
    and "engine_fits e" and "engine_fixed_rate e" and "r \<le> r'"
    and "compress e a FixedRate r p t h = (Inr out, h1)"
    and "compress e a FixedRate r' p' t' h = (Inr out', h2)"
  shows "length out \<le> length out'"
proof -
  have "out = eng_encode e (mode_policy FixedRate r p t) (resolved_field a) xs"
    and "out' = eng_encode e (mode_policy FixedRate r' p' t') (resolved_field a) xs"
    using assms(7,8) compress_exec_covered [OF assms(1-4), of FixedRate r p t]
      compress_exec_covered [OF assms(1-4), of FixedRate r' p' t']
    by (simp_all add: Let_def split: if_splits)
  then show ?thesis
    using fixed_rate_output(1) [OF assms(5,3)]
      fixed_rate_bytes_mono [OF zfp_rate_bits_mono [OF assms(6)]]
    by simp
qed

theorem compress_size_monotone_witness:
  "compress rate_engine scenario_array FixedRate 2 8 (1 / 1000) scenario_heap =
     (Inr (replicate 8 0), scenario_heap\<lparr>fresh := 5\<rparr>) \<and>
   compress rate_engine scenario_array FixedRate 40 8 (1 / 1000) scenario_heap =
     (Inr (replicate 24 0), scenario_heap\<lparr>fresh := 5\<rparr>) \<and>
   length (replicate 8 (0 :: byte)) \<le> length (replicate 24 (0 :: byte))"
proof -
  have run: "compress rate_engine scenario_array FixedRate r 8 (1 / 1000) scenario_heap =
      (Inr (replicate (fixed_rate_bytes (zfp_rate_bits r zfp_type_float 1 False) (resolved_field scenario_array)) 0),
       scenario_heap\<lparr>fresh := 5\<rparr>)" for r
    using compress_exec_covered [OF scenario_wf scenario_holds scenario_positive rate_engine_contracts(1),
        of FixedRate r 8 "1 / 1000"]
      fixed_rate_output(2) [OF rate_engine_contracts(2) scenario_positive, of r 8 "1 / 1000" "[1, 2, 3, 4, 5, 6]"]
    by (simp add: Let_def rate_engine_def mode_policy_def)
  have b: "prod_list (map (\<lambda>n. (n + 3) div 4) (field_extents (resolved_field scenario_array))) = 1"
    by (simp add: field_extents_def resolved_field_cases zfp_field_dimensionality_def)
  have "fixed_rate_bytes (zfp_rate_bits 2 zfp_type_float 1 False) (resolved_field scenario_array) = 8"
    and "fixed_rate_bytes (zfp_rate_bits 40 zfp_type_float 1 False) (resolved_field scenario_array) = 24"
    by (simp_all add: fixed_rate_bytes_def b zfp_rate_bits_def del: prod_list.Cons)
  then have r2: "compress rate_engine scenario_array FixedRate 2 8 (1 / 1000) scenario_heap =
                   (Inr (replicate 8 0), scenario_heap\<lparr>fresh := 5\<rparr>)"
    and r40: "compress rate_engine scenario_array FixedRate 40 8 (1 / 1000) scenario_heap =
                (Inr (replicate 24 0), scenario_heap\<lparr>fresh := 5\<rparr>)"
    using run [of 2] run [of 40] by simp_all
  have "length (replicate 8 (0 :: byte)) \<le> length (replicate 24 (0 :: byte))"
    using compress_size_monotone [OF scenario_wf scenario_holds scenario_positive rate_engine_contracts,
        of 2 40 8 "1 / 1000" "replicate 8 0" _ 8 "1 / 1000" "replicate 24 0"] r2 r40
    by simp
  with r2 r40 show ?thesis by simp
qed

end
