(* ===== verification/Buffer_View.thy ===== *)
theory Buffer_View
  imports Decompress
begin

text \<open>
  The \<open>compressed_bytes\<close> argument of \<open>decompress\<close> is a \<open>py::buffer\<close>: any
  object exporting a buffer. pybind11's \<open>b.request()\<close> asks for a strided view
  (\<open>PyBUF_STRIDES\<close>), so a non-contiguous exporter such as a sliced
  \<open>memoryview\<close> is accepted; its \<open>buffer_info\<close> carries the first element's
  address, the item count and the strides. module.cpp reads only \<open>ptr\<close> and
  \<open>size\<close> (lines 80 and 100). A one-dimensional byte view is its underlying
  block, the offset of its first byte, its length and its stride in bytes.
\<close>

record py_view =
  view_base :: handle
  view_len :: nat
  view_stride :: nat

text \<open>The bytes the view holds, as Python reads them (\<open>bytes(view)\<close>); the first byte is at the block's start.\<close>

definition view_bytes :: "py_view \<Rightarrow> byte list \<Rightarrow> byte list" where
  "view_bytes v bs = map (\<lambda>i. bs ! (i * view_stride v)) [0..<view_len v]"

text \<open>
  module.cpp line 80 as the code uses it: \<open>compressed_info.ptr\<close> and
  \<open>compressed_info.size\<close> of the view, one byte per item; the strides are
  dropped.
\<close>

definition view_buffer :: "py_view \<Rightarrow> py_buffer" where
  "view_buffer v = \<lparr>buf_ptr = view_base v, buf_size = view_len v, buf_itemsize = 1\<rparr>"

lemma view_bytes_contiguous:
  "view_stride v = 1 \<Longrightarrow> view_len v \<le> length bs \<Longrightarrow> view_bytes v bs = take (view_len v) bs"
  by (simp add: view_bytes_def list_eq_iff_nth_eq)

text \<open>
  C24. Decompressing from a strided byte view hands the engine the first
  \<open>size\<close> bytes of the memory at the view's address, not the bytes of the
  view: the two agree for a contiguous view, and for any other the engine
  decodes bytes the caller never passed, and the call may succeed with them.
\<close>

theorem decompress_strided_view:
  assumes "wf_heap h" and "holds_array h out ys" and "objs h (view_base v) = Some (Obj_chars bs)"
    and "0 \<notin> set (arr_shape out)" and "engine_decodes_field e"
  shows "decompress e (view_buffer v) out m r p t h =
    (let fld = resolved_field out; pol = mode_policy m r p t
     in case eng_decode e pol fld (take (view_len v) bs) of
          None \<Rightarrow> (Inl (Runtime_error ''decompression failed''), decompress_leak h fld pol (view_buffer v))
        | Some vs \<Rightarrow> (Inr (), h\<lparr>objs := (objs h)(arr_data out \<mapsto> Obj_floats vs), fresh := fresh h + 3\<rparr>)) \<and>
    (view_stride v = 1 \<longrightarrow> view_len v \<le> length bs \<longrightarrow> view_bytes v bs = take (view_len v) bs)"
proof -
  have size: "field_values (resolved_field out) = length ys"
    using assms(2,4) by (simp add: holds_array_def resolved_field_covers)
  have len: "length vs = length ys"
    if "eng_decode e (mode_policy m r p t) (resolved_field out) (take (view_len v) bs) = Some vs" for vs
    using engine_decodes_fieldD [OF assms(5) that] size by simp
  have buf: "objs h (buf_ptr (view_buffer v)) = Some (Obj_chars bs)"
    using assms(3) by (simp add: view_buffer_def)
  show ?thesis
    using decompress_exec [OF assms(1) _ buf, of out ys e m r p t] assms(2) len size
      view_bytes_contiguous [of v bs]
    by (simp add: holds_array_def view_buffer_def Let_def split: option.split)
qed

text \<open>
  \<open>memoryview(b)[::2]\<close> over the block \<open>[1, 0, 1, 0, 2, 0, ..., 6, 0]\<close>: the
  view holds the mock engine's stream of \<open>[1, .., 6]\<close>, but \<open>decompress\<close>
  decodes the block's first seven bytes and returns normally with
  \<open>[0, 1, 0, 2, 0, 3]\<close> in the destination.
\<close>

theorem decompress_strided_view_witness:
  "decompress mock_engine (view_buffer \<lparr>view_base = 1, view_len = 7, view_stride = 2\<rparr>) scenario_array
     FixedAccuracy 8 8 (1 / 1000)
     \<lparr>objs = [0 \<mapsto> Obj_floats [0, 0, 0, 0, 0, 0], 1 \<mapsto> Obj_chars [1, 0, 1, 0, 2, 0, 3, 0, 4, 0, 5, 0, 6, 0]],
      fresh = 2\<rparr> =
     (Inr (), \<lparr>objs = [0 \<mapsto> Obj_floats [0, 1, 0, 2, 0, 3], 1 \<mapsto> Obj_chars [1, 0, 1, 0, 2, 0, 3, 0, 4, 0, 5, 0, 6, 0]],
               fresh = 5\<rparr>) \<and>
   view_bytes \<lparr>view_base = 1, view_len = 7, view_stride = 2\<rparr> [1, 0, 1, 0, 2, 0, 3, 0, 4, 0, 5, 0, 6, 0] =
     [1, 1, 2, 3, 4, 5, 6] \<and>
   eng_decode mock_engine (mode_policy FixedAccuracy 8 8 (1 / 1000)) (resolved_field scenario_array)
     [1, 1, 2, 3, 4, 5, 6] = Some [1, 2, 3, 4, 5, 6]"
proof -
  let ?h = "\<lparr>objs = [0 \<mapsto> Obj_floats [0, 0, 0, 0, 0, 0 :: nat], 1 \<mapsto> Obj_chars [1, 0, 1, 0, 2, 0, 3, 0, 4, 0, 5, 0, 6, 0]],
             fresh = 2\<rparr>"
  have wf: "wf_heap ?h" and arr: "holds_array ?h scenario_array [0, 0, 0, 0, 0, 0]"
    by (simp_all add: wf_heap_def holds_array_def request_size_def)
  have "decompress mock_engine (view_buffer \<lparr>view_base = 1, view_len = 7, view_stride = 2\<rparr>) scenario_array
          FixedAccuracy 8 8 (1 / 1000) ?h =
        (Inr (), ?h\<lparr>objs := (objs ?h)(0 \<mapsto> Obj_floats [0, 1, 0, 2, 0, 3]), fresh := 5\<rparr>)"
    using decompress_strided_view [OF wf arr _ _ mock_engine_decodes_field,
        of "\<lparr>view_base = 1, view_len = 7, view_stride = 2\<rparr>" "[1, 0, 1, 0, 2, 0, 3, 0, 4, 0, 5, 0, 6, 0]"
        FixedAccuracy 8 8 "1 / 1000"]
    by (simp add: resolved_field_cases field_values_dims)
  moreover have "view_bytes \<lparr>view_base = 1, view_len = 7, view_stride = 2\<rparr> [1, 0, 1, 0, 2, 0, 3, 0, 4, 0, 5, 0, 6, 0] =
                  [1, 1, 2, 3, 4, 5, 6]"
    by (simp add: view_bytes_def upt_rec)
  ultimately show ?thesis
    by (simp add: resolved_field_cases field_values_dims fun_upd_twist)
qed

end
