(* ===== verification/Spec2Isabelle.thy ===== *)
theory Spec2Isabelle
  imports Session Fixed_Rate Buffer_View
begin

text \<open>
  \<^bold>\<open>A verification model of pyzfp's wrapper (src/src/module.cpp).\<close>

  \<^bold>\<open>The program.\<close> pyzfp exposes the zfp floating-point codec to Python
  through two functions, \<open>compress\<close> (module.cpp lines 26-69) and
  \<open>decompress\<close> (lines 72-109), an enum \<open>CompressionMode\<close> (lines 18-23) and a
  pybind11 module that registers them with default arguments (lines 112-159).
  Each call resolves the numpy array's geometry into a zfp field descriptor
  (Geometry Resolver, spec 4.1), opens a zfp stream and sets one accuracy policy
  (Mode Configurator, spec 4.2), binds a bit stream to a byte buffer and runs
  the engine (Encoder 4.3, Decoder 4.4), then releases what it allocated. There
  is no state between calls; all the state is native memory within one call.

  \<^bold>\<open>The model.\<close> Native memory is an explicit store of live objects indexed by
  handles (theory \<open>Native_Heap\<close>): field descriptors, zfp streams, bit
  streams, \<open>char\<close> blocks and \<open>float\<close> blocks. A computation maps a store to a
  result and the next store; the result is \<open>Inl (Runtime_error msg)\<close> where the
  C++ code throws \<open>std::runtime_error(msg)\<close> (the store is kept, so what was not
  released before the throw stays allocated), \<open>Inl (Fault _)\<close> for undefined
  behaviour (a dangling or mistyped pointer, an unbound stream, a read or write
  outside an object), and \<open>Inr v\<close> on return. Handles are never reused, so a
  use after release is a fault and not an alias.
  \<^item> \<open>Zfp_Prelude\<close>: bytes, handles, the lemma collections \<open>native_simps\<close>,
    \<open>geometry_simps\<close>, \<open>wf_intros\<close>, prefix-write lemmas.
  \<^item> \<open>Zfp_Types\<close>: the zfp interface data (\<open>zfp_field\<close>, \<open>zfp_stream\<close>,
    \<open>bitstream\<close>, the accuracy \<open>policy\<close>), zfp's dimensionality rule
    (\<open>zfp_field_dimensionality\<close>, \<open>field_values\<close>), and the codec engine as a
    record of three functions (\<open>eng_max_size\<close>, \<open>eng_encode\<close>,
    \<open>eng_decode\<close>) with its contracts \<open>engine_fits\<close>,
    \<open>engine_decodes_field\<close>, \<open>engine_geometric\<close>; two engine mocks of spec 8.
  \<^item> \<open>Zfp_Api\<close>: each zfp and bit-stream call the wrapper makes
    (\<open>zfp_field_1d\<close>..\<open>4d\<close>, \<open>zfp_stream_open\<close>, the three setters,
    \<open>zfp_stream_maximum_size\<close>, \<open>stream_open\<close>, \<open>zfp_stream_set_bit_stream\<close>,
    \<open>zfp_stream_rewind\<close>, \<open>zfp_compress\<close>, \<open>zfp_decompress\<close>, the
    destructors) and C++ \<open>new char[]\<close>/\<open>delete[]\<close> and \<open>py::bytes(p, n)\<close>.
    zfp is not part of the repository: its calls are modelled at the interface
    spec section 6 lists, dereferencing what zfp dereferences.
  \<^item> \<open>Geometry\<close>: the numpy argument (\<open>np_array\<close>), the rank dispatch of both
    functions (\<open>compress_field\<close>, \<open>decompress_field\<close>), its specification
    \<open>resolved_field\<close> and the refinement \<open>compress_field_refines\<close>;
    coverage of the storage for positive extents, reversal of ranks 2-4,
    flattening of every other rank, and the overrun of empty arrays.
  \<^item> \<open>Mode\<close>: \<open>CompressionMode\<close>, both setter chains (\<open>compress_stream\<close>,
    \<open>decompress_stream\<close>), their specification \<open>mode_policy\<close> and refinement.
  \<^item> \<open>Compress\<close>: \<open>compress_buffer\<close>, \<open>compress_run\<close>, \<open>compress\<close>, the
    specification \<open>compress_spec\<close>, the execution lemma \<open>compress_exec\<close> and
    the properties C1-C5.
  \<^item> \<open>Decompress\<close>: the \<open>py::buffer\<close> argument (\<open>py_buffer\<close>: pointer, item
    count, item size), \<open>decompress_bind\<close>, \<open>decompress_run\<close>,
    \<open>decompress\<close>, \<open>decompress_spec\<close>, \<open>decompress_exec\<close> and C6-C10.
  \<^item> \<open>Bindings\<close>: the enum's Python names (\<open>compression_mode_values\<close>,
    lines 128-131) and the two functions entered through their by-value
    \<open>py::array_t<float, c_style>\<close> parameters (\<open>py_compress\<close>, lines
    26-27; \<open>py_decompress\<close>, lines 72-74): a float32 array that is not
    C-contiguous is copied into a temporary (\<open>array_t_cast\<close>), destroyed
    when the call ends (\<open>drop_arg\<close>, run by \<open>finally_n\<close> on both exits).
    The caster refuses float64 arrays outright (no \<open>forcecast\<close>, theory
    \<open>Py_Call\<close>).
  \<^item> \<open>Rate\<close>: the bit budget \<open>zfp_stream_set_rate\<close> computes
    (\<open>zfp_rate_bits\<close>: \<open>4 ^ dims * rate\<close> rounded, raised to the float minimum
    of 9 bits, rounded up to a 64-bit word for write random access), the budget a
    policy sets (\<open>policy_maxbits\<close>) and the bits per value it gives a field
    whose blocks hold \<open>4 ^ d\<close> values (\<open>rate_per_value\<close>); C12-C14, stated
    over the streams \<open>compress_stream\<close> and \<open>decompress_stream\<close> allocate.
  \<^item> \<open>Py_Call\<close>: pybind11's dispatcher, outside the repository and
    modelled from its documented behaviour: Python values (\<open>pyval\<close>) and
    exceptions (\<open>py_exc\<close>), the binding of positional and keyword arguments
    to the parameter names and defaults of \<open>m.def\<close> (\<open>bind_args\<close>), the
    casters of the C++ parameter types (\<open>cast_arg\<close>, \<open>cast_all\<close>), and the
    translation of \<open>std::runtime_error\<close> into \<open>RuntimeError\<close>
    (\<open>py_result\<close>); the lemma \<open>bind_args_split\<close> (binding by keyword
    and by position agree).
  \<^item> \<open>Module\<close>: lines 112-158: \<open>import_numpy\<close>, the initialisation
    \<open>pyzfp_module\<close> filling the namespace (\<open>py_module\<close>, \<open>attr\<close>), the
    C++ parameter types (\<open>compress_params\<close>, \<open>decompress_params\<close>) and
    registered signatures (\<open>compress_signature\<close>,
    \<open>decompress_signature\<close>), and a call from Python
    (\<open>module_call\<close>, \<open>call_cxx\<close>, \<open>call_compress\<close>,
    \<open>call_decompress\<close>); C15-C19.
  \<^item> \<open>Fixed_Rate\<close>: the size of a fixed-rate stream (\<open>fixed_rate_bytes\<close>: one
    budget of bits per block of \<open>4 ^ d\<close> values, padded to 64-bit words), the
    engine contract \<open>engine_fixed_rate\<close> and a mock honouring it; C20-C21.
  \<^item> \<open>Session\<close>: a Python process around the module: actions
    (\<open>py_action\<close>: create an array or a \<open>bytes\<close> object, collect an
    object Python owns, call an attribute), the step function
    \<open>session_step\<close> and the reachability relation \<open>reachable\<close> from an
    initial store, the live-object count \<open>live_count\<close> and what Python
    observes of a call (\<open>observed_bytes\<close>); C22-C23. The session is the
    program's environment, modelled to state what holds across calls.
  \<^item> \<open>Buffer_View\<close>: a one-dimensional byte view exported to
    \<open>py::buffer\<close> (\<open>py_view\<close>: base, length, stride), the bytes Python
    reads from it (\<open>view_bytes\<close>) and the pointer and item count
    module.cpp takes from \<open>b.request()\<close> (\<open>view_buffer\<close>, line 80); C24.
  \<^item> This theory: the properties spanning both functions: the round trip
    (C11) and the agreement of the encoder's and decoder's configuration (C25).

  \<^bold>\<open>What is proved.\<close> Both functions refine their specifications on
  well-formed inputs (C1, C6); the success exits release every native object
  and touch no memory but the destination (C2, C7); the failure exits leak the
  field descriptor, the zfp stream and the bit stream (C3, C8), contrary to
  spec 4.3 step 7 and 4.4 step 4; an empty array of rank 2-4 with a positive
  innermost extent makes zfp read (C4) or write (C9) outside the numpy storage;
  the unselected parameters are ignored (C5, C10); and compressing then
  decompressing into an array of the same shape with the same mode stores
  exactly the engine's own round trip of the data (C11). In fixed-rate mode
  both functions pass \<open>dims = 1\<close> to \<open>zfp_stream_set_rate\<close> whatever the
  rank, so the stream \<open>compress\<close> allocates budgets 4-value blocks (C12), a
  field of rank \<open>d\<close> receives the requested rate divided by \<open>4 ^ (d - 1)\<close>,
  up to rounding (C13), and the streams of both functions compress arrays of
  rank 2-4 at most at a quarter of the requested rate, 2 bits per value for the
  default rate of 8 on a 2-D array (C14). From Python, \<open>zfp.compress\<close> and
  \<open>zfp.decompress\<close> with the registered defaults return the engine's bytes
  and write the engine's values, or raise \<open>RuntimeError\<close> with the C++
  message (C15, C16); the bytes \<open>zfp.compress\<close> returns decompress to the
  engine's round trip (C17); a float32 destination that is not C-contiguous is
  never written, although the call reports success (C18); a non-contiguous
  float32 input is compressed from its copy with the specified result, and a
  float64 input is a \<open>TypeError\<close> (C19). With an engine that codes every
  block in exactly its budget, fixed-rate compression never fails and its size
  is fixed by the number of blocks and the \<open>dims = 1\<close> budget (C20), and
  grows with the rate (C21, spec 8 size monotonicity). Across a Python session,
  repeated failing calls leak without bound, three objects per call (C22); and
  what a call of \<open>zfp.compress\<close> returns does not depend on an earlier call
  (C23, spec 5). A strided buffer (a sliced \<open>memoryview\<close>) is decoded from
  the raw memory at its address instead of its bytes, and the call can succeed
  with wrong values (C24). The encoder and decoder copies of the rank dispatch
  and of the setter chain configure zfp identically (C25).

  \<^bold>\<open>Bounds and fuel.\<close> The wrapper has no loop and no recursion: every
  definition is straight-line code, total by construction, and every claim that
  the code returns is a statement about the value it computes; the only
  recursion of the model, \<open>bind_args\<close>, is structural on the signature, so no
  claim of termination is needed or made. Unbounded behaviour appears only
  across calls, in the session (C22). Extents and sizes
  are \<open>nat\<close> (\<open>size_t\<close>/\<open>ssize_t\<close> values of a real array are non-negative);
  \<open>precision\<close> is a \<open>32 word\<close> (C \<open>unsigned int\<close>); rate and tolerance are
  \<open>real\<close> and only forwarded, except in the rate's bit budget, which is
  computed in \<open>nat\<close> where zfp computes in \<open>unsigned int\<close> (the two agree for
  rates below \<open>2 ^ 30\<close> bits per value; the rate claims assume a rate of at
  least 9/4, where the float minimum of 9 bits per block does not apply).

  \<^bold>\<open>Not modelled.\<close> The codec algorithm itself (abstract engine, as spec 1
  asks); floating-point values (the scalar type is a parameter); allocation
  failure of \<open>malloc\<close>/\<open>new\<close>; the bit position inside a bit stream (rewind is
  modelled as the dereference it performs); zfp reading past the stream's
  capacity on truncated input (\<open>zfp_decompress\<close> is modelled as reading at
  most the bit stream's capacity, so no claim rests on how much of a short
  stream zfp consumes); the initial contents of \<open>new char[]\<close> (the scratch
  buffer is modelled zero-filled; the wrapper never reads it before zfp
  writes it, and the engine's output does not depend on it); the interpreter
  beyond its error indicator (\<open>import_numpy\<close> is modelled by its effect on it, the import machinery is
  not); the conversions pybind11 delegates to numpy or to \<open>__index__\<close> and
  \<open>__float__\<close> (an array where a number is expected, a number or \<open>None\<close>
  where an array is expected, an enum member where a number is expected, and
  \<open>None\<close> for the mode: \<open>Not_modelled\<close> results, on which no claim
  depends), the enum type's own constructor, the rounding of Python ints to
  \<open>double\<close>; numpy dtypes other than float32 and float64 (numpy's
  safe cast would let the caster convert, for instance, an int16 array; the
  model knows only the refused float64 and the accepted float32); how zfp spends a block budget inside the block (only the
  budget is modelled, which fixes the size of every block in fixed-rate mode);
  a read-only destination array: the array model carries no writeable flag, and
  neither pybind11's \<open>array_t\<close> caster nor \<open>out.request()\<close> consults it,
  so \<open>decompress\<close> writes into arrays Python marks read-only (recorded as a
  finding, not stated as a theorem, since the model has nothing to distinguish
  them by); zfp versions before 1.0, whose \<open>zfp_field_*d\<close> take
  \<open>unsigned int\<close> extents and would truncate a flattened size of
  \<open>2 ^ 32\<close> values or more (the repository does not say which zfp it builds
  against; the model takes \<open>size_t\<close> extents, as zfp 1.0 does).
\<close>

text \<open>
  C11. Round trip: compressing a well-formed array and decompressing the
  returned bytes (as a Python \<open>bytes\<close> object) with the same mode and
  parameters into a live array of the same shape stores in that array exactly
  the values the engine itself reconstructs from its own output: the wrapper
  adds no distortion, and the returned bytes are the engine's bytes.
\<close>

theorem compress_decompress_roundtrip:
  assumes wf: "wf_heap h" and src: "holds_array h a xs" and pos: "0 \<notin> set (arr_shape a)"
    and fits: "engine_fits e" and dec: "engine_decodes_field e" and geo: "engine_geometric e"
    and enc: "compress e a m rate precision tolerance h = (Inr bytes, h1)"
    and dst: "holds_array h1 d zs" and shape: "arr_shape d = arr_shape a"
    and rt: "eng_decode e (mode_policy m rate precision tolerance) (resolved_field a)
               (eng_encode e (mode_policy m rate precision tolerance) (resolved_field a) xs) = Some vs"
  shows "bytes = eng_encode e (mode_policy m rate precision tolerance) (resolved_field a) xs \<and>
         (\<exists>h2. decompress e \<lparr>buf_ptr = fresh h1, buf_size = length bytes, buf_itemsize = 1\<rparr> d
                  m rate precision tolerance (snd (alloc (Obj_chars bytes) h1)) = (Inr (), h2) \<and>
                objs h2 (arr_data d) = Some (Obj_floats vs))"
proof -
  let ?pol = "mode_policy m rate precision tolerance"
  let ?b = "\<lparr>buf_ptr = fresh h1, buf_size = length bytes, buf_itemsize = 1\<rparr>"
  let ?h2 = "snd (alloc (Obj_chars bytes) h1)"
  from compress_exec_covered [OF wf src pos fits, of m rate precision tolerance] enc
  have bytes: "bytes = eng_encode e ?pol (resolved_field a) xs"
    by (simp add: Let_def split: if_splits)
  have wf1: "wf_heap h1"
    using preserves_wfD [OF compress_preserves wf, of e a m rate precision tolerance] enc by simp
  have wf2: "wf_heap ?h2" using preserves_wf_alloc wf1 by (rule preserves_wfD)
  have below: "arr_data d < fresh h1"
    using dst wf1 by (auto simp: holds_array_def intro: wf_heap_live_below)
  have dst2: "holds_array ?h2 d zs" using dst below by (simp add: holds_array_def alloc_def)
  have buf2: "holds_buffer ?h2 ?b bytes" by (simp add: holds_buffer_def alloc_def)
  have pos2: "0 \<notin> set (arr_shape d)" using pos shape by simp
  have view: "eng_decode e ?pol (resolved_field d) (stream_view ?b bytes) = Some vs"
    using rt bytes engine_geometricD(2) [OF geo]
    by (simp add: resolved_field_same_shape [OF shape] stream_view_def)
  show ?thesis
    using decompress_exec_covered [OF wf2 dst2 buf2 pos2 dec, of m rate precision tolerance] view bytes
    by (simp add: Let_def)
qed

theorem compress_decompress_roundtrip_witness:
  "compress mock_engine scenario_array FixedAccuracy 8 8 (1 / 1000) scenario_heap =
     (Inr [1, 1, 2, 3, 4, 5, 6], scenario_heap\<lparr>fresh := 5\<rparr>) \<and>
   (\<exists>h2. decompress mock_engine
            \<lparr>buf_ptr = fresh (scenario_heap\<lparr>fresh := 5\<rparr>), buf_size = length [1, 1, 2, 3, 4, 5, 6 :: byte],
             buf_itemsize = 1\<rparr>
            scenario_array FixedAccuracy 8 8 (1 / 1000)
            (snd (alloc (Obj_chars [1, 1, 2, 3, 4, 5, 6]) (scenario_heap\<lparr>fresh := 5\<rparr>))) = (Inr (), h2) \<and>
          objs h2 (arr_data scenario_array) = Some (Obj_floats [1, 2, 3, 4, 5, 6]))"
proof -
  have dst: "holds_array (scenario_heap\<lparr>fresh := 5\<rparr>) scenario_array [1, 2, 3, 4, 5, 6]"
    by (simp add: holds_array_def request_size_def)
  have rt: "eng_decode mock_engine (mode_policy FixedAccuracy 8 8 (1 / 1000)) (resolved_field scenario_array)
              (eng_encode mock_engine (mode_policy FixedAccuracy 8 8 (1 / 1000)) (resolved_field scenario_array)
                 [1, 2, 3, 4, 5, 6]) = Some [1, 2, 3, 4, 5, 6]"
    by (simp add: resolved_field_cases field_values_dims)
  show ?thesis
    using scenario_compress conjunct2 [OF compress_decompress_roundtrip [OF scenario_facts mock_engine_fits
        mock_engine_decodes_field mock_engine_geometric scenario_compress dst refl rt]]
    by (rule conjI)
qed

text \<open>
  C25. The two copies of the rank dispatch (module.cpp lines 31-40 and 83-92)
  allocate the same field descriptor for every array, and the two copies of the
  setter chain (lines 41-48 and 93-99) the same stream, for every mode and
  parameters: the decoder configures zfp exactly as the encoder did, which the
  round trip (C11, C17) depends on.
\<close>

theorem encoder_decoder_agree:
  "(compress_field a :: ('v, handle) native) = decompress_field a \<and>
   (compress_stream m rate precision tolerance :: ('v, handle) native) =
     decompress_stream m rate precision tolerance"
  by (simp add: compress_field_refines decompress_field_refines compress_stream_refines
      decompress_stream_refines)

end
